(* ===== verification/Prelude.thy ===== *)
theory Prelude
  imports Complex_Main
begin

text \<open>
  Shared vocabulary of the development. JavaScript numbers are modelled as HOL
  reals; where the code would compute \<open>NaN\<close> the model returns an error value
  instead (see the component theories). This theory holds the type names of
  the model, the collections of facts the component proofs share, and generic
  lemmas on lists of reals, square roots and unit vectors.
\<close>

named_theorems model_consts "the configuration constants of the source, unfolded to numerals"
named_theorems vec_simps "algebra of the planar vectors the kinetics engine computes with"

type_synonym temperature = real
type_synonym energy = real

text \<open>A chart point \<open>{x: E, y: f}\<close> of the distribution curve: energy and density.\<close>

type_synonym energy_point = "real \<times> real"

subsection \<open>Sums over lists\<close>

text \<open>
  The source accumulates sums with \<open>forEach\<close> and \<open>reduce\<close>; the model keeps
  that shape with \<open>fold\<close> and relates it to \<open>sum_list\<close> here.
\<close>

lemma fold_add_sum_list:
  "fold (\<lambda>a acc. acc + f a) xs s = s + sum_list (map f xs)"
  by (induction xs arbitrary: s) (simp_all add: algebra_simps)

lemma sum_list_map_scale:
  "sum_list (map (\<lambda>a. c * f a) xs) = c * sum_list (map f xs :: real list)"
  by (induction xs) (simp_all add: algebra_simps)

lemma sum_list_map_nonneg:
  "(\<And>a. a \<in> set xs \<Longrightarrow> 0 \<le> f a) \<Longrightarrow> 0 \<le> sum_list (map f xs :: real list)"
  by (induction xs) (simp_all add: add_nonneg_nonneg)

lemma sum_list_map_pos:
  "(\<And>a. a \<in> set xs \<Longrightarrow> 0 \<le> f a) \<Longrightarrow> b \<in> set xs \<Longrightarrow> 0 < f b
   \<Longrightarrow> 0 < sum_list (map f xs :: real list)"
proof (induction xs)
  case Nil
  then show ?case by simp
next
  case (Cons a xs)
  have "0 \<le> sum_list (map f xs)"
    using Cons.prems(1) by (intro sum_list_map_nonneg) auto
  then show ?case
    using Cons by (cases "b = a") (auto intro: add_pos_nonneg add_nonneg_pos)
qed

lemma sum_list_map_mono:
  "(\<And>a. a \<in> set xs \<Longrightarrow> f a \<le> g a) \<Longrightarrow> sum_list (map f xs) \<le> sum_list (map g xs :: real list)"
  by (induction xs) (simp_all add: add_mono)

lemma sum_list_map_filter_split:
  "sum_list (map f xs) = sum_list (map f (filter P xs)) + sum_list (map f (filter (\<lambda>a. \<not> P a) xs) :: real list)"
  by (induction xs) (simp_all add: algebra_simps)

lemma sum_list_map_filter_le:
  "(\<And>a. a \<in> set xs \<Longrightarrow> 0 \<le> f a) \<Longrightarrow> sum_list (map f (filter P xs)) \<le> sum_list (map f xs :: real list)"
  using sum_list_map_filter_split [of f xs P] sum_list_map_nonneg [of "filter (\<lambda>a. \<not> P a) xs" f]
  by simp

lemma foldl_add_sum_list:
  "foldl (\<lambda>s a. s + f a) 0 xs = sum_list (map f xs :: real list)"
  by (simp add: foldl_conv_fold fold_add_sum_list)

subsection \<open>Square roots of sums of squares\<close>

lemma sqrt_sum_sq_scale [vec_simps]:
  "sqrt ((a * c) * (a * c) + (b * c) * (b * c)) = \<bar>c\<bar> * sqrt (a * a + b * b)"
proof -
  have "(a * c) * (a * c) + (b * c) * (b * c) = (c * c) * (a * a + b * b)"
    by (simp add: algebra_simps)
  then show ?thesis by (simp add: real_sqrt_mult)
qed

lemma sqrt_sum_sq_nonneg [vec_simps]: "0 \<le> a * a + (b :: real) * b"
  by (simp add: add_nonneg_nonneg)

lemma sqrt_sum_sq_eq_0_iff [vec_simps]:
  "sqrt (a * a + b * b) = 0 \<longleftrightarrow> a = 0 \<and> (b :: real) = 0"
  by (simp add: sum_squares_eq_zero_iff)

lemma unit_normal_sq:
  assumes "d = sqrt (a * a + b * b)" and "d \<noteq> 0"
  shows "(a / d) * (a / d) + (b / d) * (b / d) = 1"
proof -
  have dd: "d * d = a * a + b * b"
    using assms(1) sqrt_sum_sq_nonneg [of a b] by (metis real_sqrt_mult_self abs_of_nonneg)
  have "(a / d) * (a / d) + (b / d) * (b / d) = (a * a + b * b) / (d * d)"
    by (simp add: add_divide_distrib)
  also have "\<dots> = 1"
    using assms(2) by (simp add: dd [symmetric])
  finally show ?thesis .
qed

lemma abs_coord_le_norm:
  "\<bar>a\<bar> \<le> sqrt (a * a + (b :: real) * b)"
proof -
  have "a * a \<le> a * a + b * b" by simp
  then have "sqrt (a * a) \<le> sqrt (a * a + b * b)"
    by (rule real_sqrt_le_mono)
  then show ?thesis by simp
qed

lemma norm_pos_if_ne_0:
  "sqrt (a * a + (b :: real) * b) \<noteq> 0 \<Longrightarrow> 0 < sqrt (a * a + b * b)"
  using sqrt_sum_sq_nonneg [of a b] by (simp add: order_less_le)

lemma abs_unit_coord_le_1:
  "\<bar>a / sqrt (a * a + b * b)\<bar> \<le> (1 :: real)"
proof (cases "sqrt (a * a + b * b) = 0")
  case True
  then show ?thesis by simp
next
  case False
  then have "0 < sqrt (a * a + b * b)" by (rule norm_pos_if_ne_0)
  with abs_coord_le_norm [of a b] show ?thesis by (simp add: abs_divide)
qed

subsection \<open>Square roots of perfect squares, for evaluating concrete runs\<close>

lemma sqrt_100: "sqrt (100 :: real) = 10"
  and sqrt_25: "sqrt (25 :: real) = 5"
  and sqrt_9: "sqrt (9 :: real) = 3"
  by (rule real_sqrt_unique; simp)+

end
