(* ===== verification/Particle.thy ===== *)
theory Particle
  imports Prelude
begin

text \<open>
  The particle of \<open>src/src/components/SimulationCanvas.js\<close>: the object literal
  \<open>{x, y, vx, vy, radius}\<close> built at line 33, the configuration constants of
  lines 13--17, and the first two phases of \<open>updateParticles\<close>: integration
  (lines 75--78) and wall collisions (lines 81--96). Each \<open>for (let p of
  particles)\<close> loop that mutates \<open>p\<close> in place is a \<open>map\<close> over the ensemble.
\<close>

record particle =
  x :: real
  y :: real
  vx :: real
  vy :: real
  radius :: real

type_synonym ensemble = "particle list"

definition width :: real where [model_consts]: "width = 400"
definition height :: real where [model_consts]: "height = 400"
definition numParticles :: nat where [model_consts]: "numParticles = 50"
definition baseSpeedFactor :: real where [model_consts]: "baseSpeedFactor = 0.5"
definition restitution :: real where [model_consts]: "restitution = 0.9"

text \<open>\<open>Math.sqrt(p.vx * p.vx + p.vy * p.vy)\<close> (line 122).\<close>

definition speed :: "particle \<Rightarrow> real" where
  "speed p = sqrt (vx p * vx p + vy p * vy p)"

subsection \<open>Integration (lines 75--78)\<close>

definition move :: "particle \<Rightarrow> particle" where
  "move p = p\<lparr>x := x p + vx p, y := y p + vy p\<rparr>"

definition updatePositions :: "ensemble \<Rightarrow> ensemble" where
  "updatePositions ps = map move ps"

subsection \<open>Wall collisions (lines 81--96)\<close>

text \<open>
  Each axis is an \<open>if\<close>/\<open>else if\<close>: the far wall is tested only when the near
  wall is not hit. The x axis is handled before the y axis.
\<close>

definition wallX :: "particle \<Rightarrow> particle" where
  "wallX p =
     (if x p - radius p < 0 then p\<lparr>x := radius p, vx := \<bar>vx p\<bar>\<rparr>
      else if x p + radius p > width then p\<lparr>x := width - radius p, vx := - \<bar>vx p\<bar>\<rparr>
      else p)"

definition wallY :: "particle \<Rightarrow> particle" where
  "wallY p =
     (if y p - radius p < 0 then p\<lparr>y := radius p, vy := \<bar>vy p\<bar>\<rparr>
      else if y p + radius p > height then p\<lparr>y := height - radius p, vy := - \<bar>vy p\<bar>\<rparr>
      else p)"

definition wallCollide :: "particle \<Rightarrow> particle" where
  "wallCollide p = wallY (wallX p)"

definition wallCollisions :: "ensemble \<Rightarrow> ensemble" where
  "wallCollisions ps = map wallCollide ps"

subsection \<open>Predicates on particles\<close>

text \<open>The spec's wall containment: the centre lies in \<open>[radius, W - radius]\<close> on both axes.\<close>

definition contained :: "particle \<Rightarrow> bool" where
  "contained p \<longleftrightarrow>
     radius p \<le> x p \<and> x p \<le> width - radius p \<and> radius p \<le> y p \<and> y p \<le> height - radius p"

text \<open>A radius for which the box \<open>[r, W - r]\<close> is not empty.\<close>

definition fits :: "particle \<Rightarrow> bool" where
  "fits p \<longleftrightarrow> 0 \<le> radius p \<and> 2 * radius p \<le> width \<and> 2 * radius p \<le> height"

subsection \<open>Lemmas\<close>

lemma wallX_radius [simp]: "radius (wallX p) = radius p"
  and wallY_radius [simp]: "radius (wallY p) = radius p"
  and wallX_y [simp]: "y (wallX p) = y p"
  and wallX_vy [simp]: "vy (wallX p) = vy p"
  and wallY_x [simp]: "x (wallY p) = x p"
  and wallY_vx [simp]: "vx (wallY p) = vx p"
  by (simp_all add: wallX_def wallY_def)

lemma wallX_abs_vx [simp]: "\<bar>vx (wallX p)\<bar> = \<bar>vx p\<bar>"
  and wallY_abs_vy [simp]: "\<bar>vy (wallY p)\<bar> = \<bar>vy p\<bar>"
  by (simp_all add: wallX_def wallY_def)

lemma wallX_bounds:
  "2 * radius p \<le> width \<Longrightarrow> radius p \<le> x (wallX p) \<and> x (wallX p) \<le> width - radius p"
  by (simp add: wallX_def)

lemma wallY_bounds:
  "2 * radius p \<le> height \<Longrightarrow> radius p \<le> y (wallY p) \<and> y (wallY p) \<le> height - radius p"
  by (simp add: wallY_def)

lemma speed_abs_cong:
  "\<bar>vx q\<bar> = \<bar>vx p\<bar> \<Longrightarrow> \<bar>vy q\<bar> = \<bar>vy p\<bar> \<Longrightarrow> speed q = speed p"
  by (metis abs_mult_self_eq speed_def)

lemma speed_wallCollide [simp]: "speed (wallCollide p) = speed p"
  by (rule speed_abs_cong) (simp_all add: wallCollide_def)

lemma radius_wallCollide [simp]: "radius (wallCollide p) = radius p"
  by (simp add: wallCollide_def)

lemma radius_move [simp]: "radius (move p) = radius p"
  and vx_move [simp]: "vx (move p) = vx p"
  and vy_move [simp]: "vy (move p) = vy p"
  by (simp_all add: move_def)

lemma length_updatePositions [simp]: "length (updatePositions ps) = length ps"
  and length_wallCollisions [simp]: "length (wallCollisions ps) = length ps"
  by (simp_all add: updatePositions_def wallCollisions_def)

lemma wallCollide_contained: "fits p \<Longrightarrow> contained (wallCollide p)"
  using wallX_bounds [of p] wallY_bounds [of "wallX p"]
  by (simp add: fits_def contained_def wallCollide_def)


subsection \<open>Properties\<close>

text \<open>
  C4. After the wall phase of a frame every particle whose radius fits the box
  lies in \<open>[radius, W - radius] \<times> [radius, H - radius]\<close>: the spec's containment
  holds at this point of the frame (and only here, see C3).
\<close>

theorem wallCollisions_contained:
  "\<forall>p \<in> set ps. fits p \<Longrightarrow> \<forall>p \<in> set (wallCollisions ps). contained p"
  by (auto simp: wallCollisions_def intro: wallCollide_contained)

theorem wallCollisions_contained_witness:
  "list_all fits [\<lparr>x = -3, y = 500, vx = -1, vy = 2, radius = 5\<rparr>]
   \<and> wallCollisions [\<lparr>x = -3, y = 500, vx = -1, vy = 2, radius = 5\<rparr>]
       = [\<lparr>x = 5, y = 395, vx = 1, vy = -2, radius = 5\<rparr>]
   \<and> list_all contained [\<lparr>x = 5, y = 395, vx = 1, vy = -2, radius = 5\<rparr>]"
proof -
  have f: "\<forall>p \<in> set [\<lparr>x = -3, y = 500, vx = -1, vy = 2, radius = 5\<rparr>]. fits p"
    by (simp add: fits_def model_consts)
  have w: "wallCollisions [\<lparr>x = -3, y = 500, vx = -1, vy = 2, radius = 5\<rparr>]
             = [\<lparr>x = 5, y = 395, vx = 1, vy = -2, radius = 5\<rparr>]"
    by (simp add: wallCollisions_def wallCollide_def wallX_def wallY_def model_consts)
  show ?thesis
    using wallCollisions_contained [OF f] f w by (simp add: list_all_iff)
qed

end
