(* ===== verification/Collision.thy ===== *)
theory Collision
  imports Particle
begin

text \<open>
  Pairwise collisions of \<open>src/src/components/SimulationCanvas.js\<close>: the
  inelastic impulse \<open>handleCollision\<close> (lines 40--56), the body of the nested
  pair loop with its positional separation (lines 101--115), and the loop over
  the ascending index pairs (lines 99--117). The source mutates the two particle
  objects in place through the aliases \<open>p1 = particles[i]\<close>,
  \<open>p2 = particles[j]\<close>; with \<open>i < j\<close> the two aliases are distinct, so the
  model writes both back with list updates.

  Where the source divides \<open>0/0\<close> (two overlapping particles whose centres
  coincide: \<open>handleCollision\<close> returns early but lines 109--110 still divide
  \<open>dx\<close> by \<open>dist = 0\<close>) JavaScript produces \<open>NaN\<close> positions; the model
  returns the error value \<open>NaN_separation i j\<close> there.
\<close>

datatype fault =
    NaN_separation nat nat   \<comment> \<open>\<open>sepX = (dx / 0) * \<dots>\<close> at lines 109--110 for the pair \<open>(i, j)\<close>\<close>
  | NaN_speed                \<comment> \<open>\<open>Math.sqrt\<close> of a negative temperature at line 71\<close>

subsection \<open>The impulse (lines 40--56)\<close>

definition handleCollision :: "particle \<Rightarrow> particle \<Rightarrow> particle \<times> particle" where
  "handleCollision p1 p2 =
     (let dx = x p2 - x p1; dy = y p2 - y p1; dist = sqrt (dx * dx + dy * dy) in
      if dist = 0 then (p1, p2) else
      let nx = dx / dist; ny = dy / dist;
          dvx = vx p2 - vx p1; dvy = vy p2 - vy p1;
          relVel = dvx * nx + dvy * ny in
      if relVel > 0 then (p1, p2) else
      let impulse = - (1 + restitution) * relVel / 2 in
      (p1\<lparr>vx := vx p1 - impulse * nx, vy := vy p1 - impulse * ny\<rparr>,
       p2\<lparr>vx := vx p2 + impulse * nx, vy := vy p2 + impulse * ny\<rparr>))"

subsection \<open>One pair of the loop (lines 101--115)\<close>

definition collidePair :: "nat \<Rightarrow> nat \<Rightarrow> ensemble \<Rightarrow> fault + ensemble" where
  "collidePair i j ps =
     (let p1 = ps ! i; p2 = ps ! j;
          dx = x p2 - x p1; dy = y p2 - y p1; dist = sqrt (dx * dx + dy * dy) in
      if dist < radius p1 + radius p2 then
        if dist = 0 then Inl (NaN_separation i j)
        else
          (let (q1, q2) = handleCollision p1 p2;
               overlap = radius p1 + radius p2 - dist;
               sepX = (dx / dist) * (overlap / 2);
               sepY = (dy / dist) * (overlap / 2) in
           Inr (ps[i := q1\<lparr>x := x q1 - sepX, y := y q1 - sepY\<rparr>,
                   j := q2\<lparr>x := x q2 + sepX, y := y q2 + sepY\<rparr>]))
      else Inr ps)"

subsection \<open>The nested loop (lines 99--117)\<close>

text \<open>\<open>for (i = 0; i < n; i++) for (j = i + 1; j < n; j++)\<close>: the pairs in the order visited.\<close>

definition pairs :: "nat \<Rightarrow> (nat \<times> nat) list" where
  "pairs n = concat (map (\<lambda>i. map (\<lambda>j. (i, j)) [Suc i..<n]) [0..<n])"

fun collideAll :: "(nat \<times> nat) list \<Rightarrow> ensemble \<Rightarrow> fault + ensemble" where
  "collideAll [] ps = Inr ps"
| "collideAll ((i, j) # ijs) ps =
     (case collidePair i j ps of Inl e \<Rightarrow> Inl e | Inr ps' \<Rightarrow> collideAll ijs ps')"

definition particleCollisions :: "ensemble \<Rightarrow> fault + ensemble" where
  "particleCollisions ps = collideAll (pairs (length ps)) ps"

text \<open>
  The loop as written, with its two counters: the body runs for \<open>j < n\<close>, then
  the outer update \<open>i++\<close> restarts the inner loop at \<open>j = i + 1\<close>; \<open>n\<close> is
  \<open>particles.length\<close>, read again at every test. A fault (\<open>NaN\<close>) ends the model's run.
\<close>

function (domintros) pairLoop :: "nat \<Rightarrow> nat \<Rightarrow> ensemble \<Rightarrow> fault + ensemble" where
  "pairLoop i j ps =
     (if i < length ps then
        if j < length ps then
          (case collidePair i j ps of Inl e \<Rightarrow> Inl e | Inr ps' \<Rightarrow> pairLoop i (Suc j) ps')
        else pairLoop (Suc i) (Suc (Suc i)) ps
      else Inr ps)"
  by pat_completeness auto
termination
  by (relation "measures [\<lambda>(i, j, ps). length ps - i, \<lambda>(i, j, ps). length ps - j]")
     (auto simp: collidePair_def Let_def split: if_splits prod.splits)

text \<open>The pairs still to visit when the loop stands at \<open>(i, j)\<close>.\<close>

definition pairsFrom :: "nat \<Rightarrow> nat \<Rightarrow> nat \<Rightarrow> (nat \<times> nat) list" where
  "pairsFrom i j n =
     (if i < n then map (\<lambda>j'. (i, j')) [j..<n] @ concat (map (\<lambda>i'. map (\<lambda>j'. (i', j')) [Suc i'..<n]) [Suc i..<n])
      else [])"

subsection \<open>Quantities the properties speak of\<close>

definition centreDist :: "particle \<Rightarrow> particle \<Rightarrow> real" where
  "centreDist p1 p2 = sqrt ((x p2 - x p1) * (x p2 - x p1) + (y p2 - y p1) * (y p2 - y p1))"

text \<open>The relative velocity along the centre line, \<open>relVel\<close> of line 49.\<close>

definition normalRelVel :: "particle \<Rightarrow> particle \<Rightarrow> real" where
  "normalRelVel p1 p2 =
     (vx p2 - vx p1) * ((x p2 - x p1) / centreDist p1 p2)
     + (vy p2 - vy p1) * ((y p2 - y p1) / centreDist p1 p2)"

definition kinetic :: "particle \<Rightarrow> real" where
  "kinetic p = vx p * vx p + vy p * vy p"

subsection \<open>Algebra of the impulse\<close>

lemma impulse_normal:
  assumes "nx * nx + ny * ny = (1 :: real)"
  shows "((v2x + J * nx) - (v1x - J * nx)) * nx + ((v2y + J * ny) - (v1y - J * ny)) * ny
         = (v2x - v1x) * nx + (v2y - v1y) * ny + 2 * J"
proof -
  have "((v2x + J * nx) - (v1x - J * nx)) * nx + ((v2y + J * ny) - (v1y - J * ny)) * ny
        = (v2x - v1x) * nx + (v2y - v1y) * ny + 2 * J * (nx * nx + ny * ny)"
    by (simp add: algebra_simps)
  with assms show ?thesis by simp
qed

lemma impulse_energy:
  assumes "nx * nx + ny * ny = (1 :: real)"
  shows "(v1x - J * nx) * (v1x - J * nx) + (v1y - J * ny) * (v1y - J * ny)
         + ((v2x + J * nx) * (v2x + J * nx) + (v2y + J * ny) * (v2y + J * ny))
         = v1x * v1x + v1y * v1y + (v2x * v2x + v2y * v2y)
           + 2 * J * ((v2x - v1x) * nx + (v2y - v1y) * ny) + 2 * J * J"
proof -
  have "(v1x - J * nx) * (v1x - J * nx) + (v1y - J * ny) * (v1y - J * ny)
         + ((v2x + J * nx) * (v2x + J * nx) + (v2y + J * ny) * (v2y + J * ny))
        = v1x * v1x + v1y * v1y + (v2x * v2x + v2y * v2y)
           + 2 * J * ((v2x - v1x) * nx + (v2y - v1y) * ny) + 2 * J * J * (nx * nx + ny * ny)"
    by (simp add: algebra_simps)
  with assms show ?thesis by simp
qed


subsection \<open>The impulse: what it changes and what it keeps\<close>

lemma handleCollision_eq:
  "handleCollision p1 p2 =
     (if centreDist p1 p2 = 0 \<or> 0 < normalRelVel p1 p2 then (p1, p2)
      else let nx = (x p2 - x p1) / centreDist p1 p2; ny = (y p2 - y p1) / centreDist p1 p2;
               J = - (1 + restitution) * normalRelVel p1 p2 / 2 in
      (p1\<lparr>vx := vx p1 - J * nx, vy := vy p1 - J * ny\<rparr>,
       p2\<lparr>vx := vx p2 + J * nx, vy := vy p2 + J * ny\<rparr>))"
  by (simp add: handleCollision_def centreDist_def normalRelVel_def Let_def)

lemma handleCollision_frame:
  assumes "handleCollision p1 p2 = (q1, q2)"
  shows "x q1 = x p1 \<and> y q1 = y p1 \<and> radius q1 = radius p1
       \<and> x q2 = x p2 \<and> y q2 = y p2 \<and> radius q2 = radius p2"
  using assms by (auto simp: handleCollision_def Let_def split: if_splits)

lemma centreDist_cong:
  "x q1 = x p1 \<Longrightarrow> y q1 = y p1 \<Longrightarrow> x q2 = x p2 \<Longrightarrow> y q2 = y p2
   \<Longrightarrow> centreDist q1 q2 = centreDist p1 p2"
  by (simp add: centreDist_def)

lemma centreDist_unit:
  "centreDist p1 p2 \<noteq> 0 \<Longrightarrow>
   ((x p2 - x p1) / centreDist p1 p2) * ((x p2 - x p1) / centreDist p1 p2)
   + ((y p2 - y p1) / centreDist p1 p2) * ((y p2 - y p1) / centreDist p1 p2) = 1"
  by (rule unit_normal_sq) (simp_all add: centreDist_def)

text \<open>
  C8. The impulse is split symmetrically (equal masses): the total momentum of
  the pair is conserved by \<open>handleCollision\<close> on every branch.
\<close>

theorem handleCollision_momentum:
  assumes "handleCollision p1 p2 = (q1, q2)"
  shows "vx q1 + vx q2 = vx p1 + vx p2 \<and> vy q1 + vy q2 = vy p1 + vy p2"
  using assms by (auto simp: handleCollision_def Let_def split: if_splits)

lemma handleCollision_approach:
  assumes "handleCollision p1 p2 = (q1, q2)"
    and "centreDist p1 p2 \<noteq> 0" and "normalRelVel p1 p2 \<le> 0"
    and "nx = (x p2 - x p1) / centreDist p1 p2" and "ny = (y p2 - y p1) / centreDist p1 p2"
    and "J = - (1 + restitution) * normalRelVel p1 p2 / 2"
  shows "q1 = p1\<lparr>vx := vx p1 - J * nx, vy := vy p1 - J * ny\<rparr>
       \<and> q2 = p2\<lparr>vx := vx p2 + J * nx, vy := vy p2 + J * ny\<rparr>"
proof -
  have "\<not> (centreDist p1 p2 = 0 \<or> 0 < normalRelVel p1 p2)"
    using assms(2,3) by simp
  then have "(q1, q2) = (p1\<lparr>vx := vx p1 - J * nx, vy := vy p1 - J * ny\<rparr>,
                         p2\<lparr>vx := vx p2 + J * nx, vy := vy p2 + J * ny\<rparr>)"
    using assms(1) unfolding handleCollision_eq Let_def assms(4-6) by (simp only: if_False)
  then show ?thesis by (simp only: prod.inject)
qed

lemma normalRelVel_unit:
  "nx = (x p2 - x p1) / centreDist p1 p2 \<Longrightarrow> ny = (y p2 - y p1) / centreDist p1 p2 \<Longrightarrow>
   normalRelVel p1 p2 = (vx p2 - vx p1) * nx + (vy p2 - vy p1) * ny"
  by (simp add: normalRelVel_def)

text \<open>
  C7. For approaching particles with distinct centres, \<open>handleCollision\<close> makes
  the relative normal velocity after the collision \<open>-restitution\<close> times the one
  before: the spec's restitution law.
\<close>

theorem handleCollision_restitution:
  assumes "handleCollision p1 p2 = (q1, q2)"
    and "centreDist p1 p2 \<noteq> 0" and "normalRelVel p1 p2 \<le> 0"
  shows "normalRelVel q1 q2 = - restitution * normalRelVel p1 p2"
proof -
  define nx where "nx = (x p2 - x p1) / centreDist p1 p2"
  define ny where "ny = (y p2 - y p1) / centreDist p1 p2"
  define J where "J = - (1 + restitution) * normalRelVel p1 p2 / 2"
  have q: "q1 = p1\<lparr>vx := vx p1 - J * nx, vy := vy p1 - J * ny\<rparr>"
          "q2 = p2\<lparr>vx := vx p2 + J * nx, vy := vy p2 + J * ny\<rparr>"
    using handleCollision_approach [OF assms nx_def ny_def J_def] by simp_all
  have unit: "nx * nx + ny * ny = 1"
    unfolding nx_def ny_def using assms(2) by (rule centreDist_unit)
  have same: "centreDist q1 q2 = centreDist p1 p2"
    by (rule centreDist_cong) (simp_all add: q)
  have "normalRelVel q1 q2 = (vx q2 - vx q1) * nx + (vy q2 - vy q1) * ny"
    by (rule normalRelVel_unit) (unfold same, simp_all add: q nx_def ny_def)
  also have "\<dots> = ((vx p2 + J * nx) - (vx p1 - J * nx)) * nx
                  + ((vy p2 + J * ny) - (vy p1 - J * ny)) * ny"
    by (simp add: q)
  also have "\<dots> = normalRelVel p1 p2 + 2 * J"
    using impulse_normal [OF unit] normalRelVel_unit [OF nx_def ny_def] by simp
  also have "\<dots> = - restitution * normalRelVel p1 p2"
    unfolding J_def by (simp add: field_simps)
  finally show ?thesis .
qed

text \<open>
  C9. The collision loses exactly \<open>(1 - e\<^sup>2)/2 \<cdot> relVel\<^sup>2\<close> of the pair's (doubled)
  kinetic energy, \<open>e = restitution\<close>: inelastic, never a gain.
\<close>

theorem handleCollision_energy:
  assumes "handleCollision p1 p2 = (q1, q2)"
    and "centreDist p1 p2 \<noteq> 0" and "normalRelVel p1 p2 \<le> 0"
  shows "kinetic q1 + kinetic q2
         = kinetic p1 + kinetic p2 - (1 - restitution * restitution) / 2 * (normalRelVel p1 p2)\<^sup>2"
proof -
  define nx where "nx = (x p2 - x p1) / centreDist p1 p2"
  define ny where "ny = (y p2 - y p1) / centreDist p1 p2"
  define J where "J = - (1 + restitution) * normalRelVel p1 p2 / 2"
  have q: "q1 = p1\<lparr>vx := vx p1 - J * nx, vy := vy p1 - J * ny\<rparr>"
          "q2 = p2\<lparr>vx := vx p2 + J * nx, vy := vy p2 + J * ny\<rparr>"
    using handleCollision_approach [OF assms nx_def ny_def J_def] by simp_all
  have unit: "nx * nx + ny * ny = 1"
    unfolding nx_def ny_def using assms(2) by (rule centreDist_unit)
  have "kinetic q1 + kinetic q2
        = kinetic p1 + kinetic p2 + 2 * J * normalRelVel p1 p2 + 2 * J * J"
    unfolding q kinetic_def normalRelVel_unit [OF nx_def ny_def]
    using impulse_energy [OF unit, of "vx p1" J "vy p1" "vx p2" "vy p2"]
    by simp
  moreover have "2 * J * normalRelVel p1 p2 + 2 * J * J
                 = - ((1 - restitution * restitution) / 2 * (normalRelVel p1 p2)\<^sup>2)"
    unfolding J_def by (simp add: power2_eq_square field_simps)
  ultimately show ?thesis by simp
qed


subsection \<open>One pair: separation and frame\<close>

lemma collidePair_eq:
  "collidePair i j ps =
     (let p1 = ps ! i; p2 = ps ! j; d = centreDist p1 p2 in
      if d < radius p1 + radius p2 then
        if d = 0 then Inl (NaN_separation i j)
        else
          (let (q1, q2) = handleCollision p1 p2;
               sepX = ((x p2 - x p1) / d) * ((radius p1 + radius p2 - d) / 2);
               sepY = ((y p2 - y p1) / d) * ((radius p1 + radius p2 - d) / 2) in
           Inr (ps[i := q1\<lparr>x := x q1 - sepX, y := y q1 - sepY\<rparr>,
                   j := q2\<lparr>x := x q2 + sepX, y := y q2 + sepY\<rparr>]))
      else Inr ps)"
  by (simp add: collidePair_def centreDist_def Let_def)

lemma collidePair_apart:
  "\<not> centreDist (ps ! i) (ps ! j) < radius (ps ! i) + radius (ps ! j) \<Longrightarrow> collidePair i j ps = Inr ps"
  by (simp add: collidePair_eq)

text \<open>
  C12. Two overlapping particles with coincident centres make the pair body
  divide \<open>0/0\<close> (lines 109--110): the frame faults with \<open>NaN_separation\<close>, where the
  spec requires the resolution to be skipped.
\<close>

theorem collidePair_coincident:
  "centreDist (ps ! i) (ps ! j) = 0 \<Longrightarrow> 0 < radius (ps ! i) + radius (ps ! j)
   \<Longrightarrow> collidePair i j ps = Inl (NaN_separation i j)"
  by (simp add: collidePair_eq)

text \<open>The resolved case, with the separation vector named.\<close>

lemma collidePair_resolved:
  assumes "0 < centreDist (ps ! i) (ps ! j)"
    and "centreDist (ps ! i) (ps ! j) < radius (ps ! i) + radius (ps ! j)"
    and "handleCollision (ps ! i) (ps ! j) = (q1, q2)"
    and "s = (radius (ps ! i) + radius (ps ! j) - centreDist (ps ! i) (ps ! j)) / 2"
    and "sx = ((x (ps ! j) - x (ps ! i)) / centreDist (ps ! i) (ps ! j)) * s"
    and "sy = ((y (ps ! j) - y (ps ! i)) / centreDist (ps ! i) (ps ! j)) * s"
  shows "collidePair i j ps = Inr (ps[i := q1\<lparr>x := x q1 - sx, y := y q1 - sy\<rparr>,
                                     j := q2\<lparr>x := x q2 + sx, y := y q2 + sy\<rparr>])"
  unfolding assms(4-6) using assms(1-3) by (simp add: collidePair_eq Let_def)

lemma separation_scale:
  assumes "0 < (d :: real)" and "s = (R - d) / 2"
  shows "a + 2 * ((a / d) * s) = a * (R / d)"
proof -
  have "a + 2 * ((a / d) * s) = a + (a / d) * (R - d)"
    using assms(2) by simp
  also have "\<dots> = a * (R / d)"
    using assms(1) by (simp add: field_simps)
  finally show ?thesis .
qed

text \<open>
  C10. Resolving an overlapping pair with distinct centres moves the two centres
  apart along the centre line until they are exactly \<open>r1 + r2\<close> apart.
\<close>

theorem collidePair_touching:
  assumes "i < j" and "j < length ps"
    and "0 < centreDist (ps ! i) (ps ! j)"
    and "centreDist (ps ! i) (ps ! j) < radius (ps ! i) + radius (ps ! j)"
    and "collidePair i j ps = Inr ps'"
  shows "centreDist (ps' ! i) (ps' ! j) = radius (ps ! i) + radius (ps ! j)"
proof -
  let ?d = "centreDist (ps ! i) (ps ! j)" and ?R = "radius (ps ! i) + radius (ps ! j)"
  obtain q1 q2 where hc: "handleCollision (ps ! i) (ps ! j) = (q1, q2)"
    by fastforce
  define s where "s = (?R - ?d) / 2"
  define sx where "sx = ((x (ps ! j) - x (ps ! i)) / ?d) * s"
  define sy where "sy = ((y (ps ! j) - y (ps ! i)) / ?d) * s"
  have ps': "ps' = ps[i := q1\<lparr>x := x q1 - sx, y := y q1 - sy\<rparr>, j := q2\<lparr>x := x q2 + sx, y := y q2 + sy\<rparr>]"
    using collidePair_resolved [OF assms(3,4) hc s_def sx_def sy_def] assms(5) by simp
  have fr: "x q1 = x (ps ! i)" "y q1 = y (ps ! i)" "x q2 = x (ps ! j)" "y q2 = y (ps ! j)"
    using handleCollision_frame [OF hc] by simp_all
  have dx: "(x q2 + sx) - (x q1 - sx) = (x (ps ! j) - x (ps ! i)) * (?R / ?d)"
    using separation_scale [OF assms(3) s_def, of "x (ps ! j) - x (ps ! i)"]
    by (simp add: fr sx_def algebra_simps)
  have dy: "(y q2 + sy) - (y q1 - sy) = (y (ps ! j) - y (ps ! i)) * (?R / ?d)"
    using separation_scale [OF assms(3) s_def, of "y (ps ! j) - y (ps ! i)"]
    by (simp add: fr sy_def algebra_simps)
  have "centreDist (ps' ! i) (ps' ! j)
        = sqrt (((x q2 + sx) - (x q1 - sx)) * ((x q2 + sx) - (x q1 - sx))
                + ((y q2 + sy) - (y q1 - sy)) * ((y q2 + sy) - (y q1 - sy)))"
    using assms(1,2) by (simp add: ps' centreDist_def nth_list_update)
  also have "\<dots> = \<bar>?R / ?d\<bar> * ?d"
    by (simp only: dx dy sqrt_sum_sq_scale centreDist_def)
  also have "\<dots> = ?R"
    using assms(3,4) by simp
  finally show ?thesis .
qed

lemma collidePair_frame:
  assumes "i < j" and "j < length ps" and "collidePair i j ps = Inr ps'"
  shows "length ps' = length ps \<and> map radius ps' = map radius ps
       \<and> (\<forall>k. k \<noteq> i \<longrightarrow> k \<noteq> j \<longrightarrow> ps' ! k = ps ! k)"
proof (cases "centreDist (ps ! i) (ps ! j) < radius (ps ! i) + radius (ps ! j)")
  case True
  obtain q1 q2 where hc: "handleCollision (ps ! i) (ps ! j) = (q1, q2)"
    by fastforce
  have r: "radius q1 = radius (ps ! i)" "radius q2 = radius (ps ! j)"
    using handleCollision_frame [OF hc] by simp_all
  from True assms(3) hc obtain sx sy where
    ps': "ps' = ps[i := q1\<lparr>x := x q1 - sx, y := y q1 - sy\<rparr>, j := q2\<lparr>x := x q2 + sx, y := y q2 + sy\<rparr>]"
    by (auto simp: collidePair_eq Let_def split: if_splits)
  have "map radius ps' = map radius ps"
    by (rule nth_equalityI) (use assms(1,2) in \<open>auto simp: ps' nth_list_update r\<close>)
  then show ?thesis
    using assms(1,2) by (simp add: ps')
next
  case False
  with assms show ?thesis by (simp add: collidePair_apart)
qed


subsection \<open>The pair enumeration\<close>

lemma set_pairs: "set (pairs n) = {(i, j). i < j \<and> j < n}"
  by (auto simp: pairs_def image_iff intro: bexI [where x = "fst _"])

lemma removeAll_map_filter:
  "removeAll a (map f xs) = map f (filter (\<lambda>v. f v \<noteq> a) xs)"
  by (induction xs) auto

lemma distinct_pairs: "distinct (pairs n)"
proof -
  let ?f = "\<lambda>i. map (\<lambda>j. (i, j)) [Suc i..<n]"
  have inj: "inj_on ?f (set (filter (\<lambda>i. ?f i \<noteq> []) [0..<n]))"
  proof (rule inj_onI)
    fix i k
    assume mem: "i \<in> set (filter (\<lambda>i. ?f i \<noteq> []) [0..<n])" "k \<in> set (filter (\<lambda>i. ?f i \<noteq> []) [0..<n])"
      and eq: "?f i = ?f k"
    from mem have "Suc i < n" "Suc k < n" by auto
    then have h: "hd (?f i) = (i, Suc i)" "hd (?f k) = (k, Suc k)"
      by (simp_all add: upt_conv_Cons)
    from eq have "hd (?f i) = hd (?f k)" by (rule arg_cong)
    then have "(i, Suc i) = (k, Suc k)" by (simp only: h)
    then show "i = k" by simp
  qed
  have "distinct (removeAll [] (map ?f [0..<n]))"
    unfolding removeAll_map_filter using inj by (simp add: distinct_map)
  moreover have "\<forall>ys \<in> set (map ?f [0..<n]). distinct ys"
    by (auto simp: distinct_map inj_on_def)
  moreover have "\<forall>ys zs. ys \<in> set (map ?f [0..<n]) \<and> zs \<in> set (map ?f [0..<n]) \<and> ys \<noteq> zs
                   \<longrightarrow> set ys \<inter> set zs = {}"
    by auto
  ultimately show ?thesis
    unfolding pairs_def by (simp only: distinct_concat_iff) blast
qed

lemma length_pairs: "length (pairs n) = n * (n - 1) div 2"
proof -
  have "length (pairs n) = (\<Sum>i<n. n - Suc i)"
    by (simp add: pairs_def length_concat comp_def sum_list_sum_nth atLeast0LessThan)
  also have "\<dots> = (\<Sum>i<n. i)"
    by (rule sum.reindex_bij_witness [where i = "\<lambda>i. n - Suc i" and j = "\<lambda>i. n - Suc i"]) auto
  also have "\<dots> = n * (n - 1) div 2"
    by (simp add: Sum_Ico_nat atLeast0LessThan [symmetric])
  finally show ?thesis .
qed

definition touches :: "nat \<Rightarrow> nat \<times> nat \<Rightarrow> bool" where
  "touches k ij \<longleftrightarrow> fst ij = k \<or> snd ij = k"

lemma touches_pairs:
  assumes "k < n"
  shows "length (filter (touches k) (pairs n)) = n - 1"
proof -
  have "length (filter (touches k) (pairs n)) = card (set (filter (touches k) (pairs n)))"
    by (rule distinct_card [symmetric]) (rule distinct_filter [OF distinct_pairs])
  also have "set (filter (touches k) (pairs n))
             = (\<lambda>j. (k, j)) ` {k<..<n} \<union> (\<lambda>i. (i, k)) ` {..<k}"
    using assms by (auto simp: set_pairs touches_def)
  also have "card \<dots> = (n - Suc k) + k"
    by (subst card_Un_disjoint) (auto simp: card_image inj_on_def)
  finally show ?thesis using assms by simp
qed

subsection \<open>The loop: frame, errors, displacement\<close>

definition ordered_pairs :: "nat \<Rightarrow> (nat \<times> nat) list \<Rightarrow> bool" where
  "ordered_pairs n ijs \<longleftrightarrow> (\<forall>(i, j) \<in> set ijs. i < j \<and> j < n)"

lemma ordered_pairs_pairs: "ordered_pairs n (pairs n)"
  by (simp add: ordered_pairs_def set_pairs)

lemma collideAll_frame:
  "ordered_pairs (length ps) ijs \<Longrightarrow> collideAll ijs ps = Inr ps'
   \<Longrightarrow> length ps' = length ps \<and> map radius ps' = map radius ps"
proof (induction ijs arbitrary: ps)
  case Nil
  then show ?case by simp
next
  case (Cons ij ijs)
  obtain i j where ij: "ij = (i, j)" by fastforce
  from Cons.prems ij obtain ps1 where step: "collidePair i j ps = Inr ps1"
    and rest: "collideAll ijs ps1 = Inr ps'"
    by (auto split: sum.splits)
  have ord: "i < j" "j < length ps" using Cons.prems(1) ij by (auto simp: ordered_pairs_def)
  note fr = collidePair_frame [OF ord step]
  then have "ordered_pairs (length ps1) ijs"
    using Cons.prems(1) by (simp add: ordered_pairs_def)
  from Cons.IH [OF this rest] fr show ?case by simp
qed

lemma collideAll_error:
  "collideAll ijs ps = Inl e \<Longrightarrow> \<exists>i j. (i, j) \<in> set ijs \<and> e = NaN_separation i j"
proof (induction ijs arbitrary: ps)
  case Nil
  then show ?case by simp
next
  case (Cons ij ijs)
  obtain i j where ij: "ij = (i, j)" by fastforce
  show ?case
  proof (cases "collidePair i j ps")
    case (Inl e')
    then have "e = NaN_separation i j"
      using Cons.prems ij by (auto simp: collidePair_eq Let_def split: if_splits prod.splits)
    then show ?thesis using ij by auto
  next
    case (Inr ps1)
    then show ?thesis using Cons ij by fastforce
  qed
qed


lemma collidePair_fault:
  assumes "collidePair i j ps = Inl e"
  shows "e = NaN_separation i j \<and> x (ps ! i) = x (ps ! j) \<and> y (ps ! i) = y (ps ! j)
         \<and> 0 < radius (ps ! i) + radius (ps ! j)"
proof -
  have d: "centreDist (ps ! i) (ps ! j) = 0" and r: "centreDist (ps ! i) (ps ! j) < radius (ps ! i) + radius (ps ! j)"
    and e: "e = NaN_separation i j"
    using assms by (auto simp: collidePair_eq Let_def split: if_splits prod.splits)
  from d have "x (ps ! j) - x (ps ! i) = 0 \<and> y (ps ! j) - y (ps ! i) = 0"
    by (simp only: centreDist_def sqrt_sum_sq_eq_0_iff)
  with d r e show ?thesis by simp
qed

lemma collideAll_fault_at:
  "collideAll ijs ps = Inl e \<Longrightarrow>
   \<exists>pre i j post qs. ijs = pre @ (i, j) # post \<and> collideAll pre ps = Inr qs \<and> collidePair i j qs = Inl e"
proof (induction ijs arbitrary: ps)
  case Nil
  then show ?case by simp
next
  case (Cons ij ijs)
  obtain i j where ij: "ij = (i, j)" by fastforce
  show ?case
  proof (cases "collidePair i j ps")
    case (Inl e')
    then have "collidePair i j ps = Inl e" using Cons.prems ij by simp
    then show ?thesis using ij by (intro exI [of _ "[]"]) auto
  next
    case (Inr ps1)
    then have "collideAll ijs ps1 = Inl e" using Cons.prems ij by simp
    from Cons.IH [OF this] obtain pre i' j' post qs
      where "ijs = pre @ (i', j') # post" "collideAll pre ps1 = Inr qs" "collidePair i' j' qs = Inl e" by blast
    then show ?thesis using ij Inr by (intro exI [of _ "(i, j) # pre"]) auto
  qed
qed

lemma abs_sep_le:
  "\<bar>a / d\<bar> \<le> 1 \<Longrightarrow> 0 \<le> s \<Longrightarrow> s \<le> B \<Longrightarrow> \<bar>(a / d) * s\<bar> \<le> (B :: real)"
  by (metis abs_mult abs_of_nonneg dual_order.trans mult_left_le_one_le abs_ge_zero)

definition radii_within :: "real \<Rightarrow> ensemble \<Rightarrow> bool" where
  "radii_within B ps \<longleftrightarrow> (\<forall>r \<in> set (map radius ps). 0 \<le> r \<and> r \<le> B)"

lemma radii_within_nth:
  "radii_within B ps \<Longrightarrow> k < length ps \<Longrightarrow> 0 \<le> radius (ps ! k) \<and> radius (ps ! k) \<le> B"
  by (simp add: radii_within_def)

lemma collidePair_displacement:
  assumes "i < j" and "j < length ps" and "radii_within B ps"
    and "collidePair i j ps = Inr ps'" and "k < length ps"
  shows "\<bar>x (ps' ! k) - x (ps ! k)\<bar> \<le> (if touches k (i, j) then B else 0)
       \<and> \<bar>y (ps' ! k) - y (ps ! k)\<bar> \<le> (if touches k (i, j) then B else 0)"
proof (cases "centreDist (ps ! i) (ps ! j) < radius (ps ! i) + radius (ps ! j)")
  case True
  let ?d = "centreDist (ps ! i) (ps ! j)" and ?R = "radius (ps ! i) + radius (ps ! j)"
  have d: "0 < ?d"
  proof -
    have "?d \<noteq> 0"
      using True assms(4) by (auto simp: collidePair_eq)
    then show ?thesis unfolding centreDist_def by (rule norm_pos_if_ne_0)
  qed
  obtain q1 q2 where hc: "handleCollision (ps ! i) (ps ! j) = (q1, q2)"
    by fastforce
  define s where "s = (?R - ?d) / 2"
  define sx where "sx = ((x (ps ! j) - x (ps ! i)) / ?d) * s"
  define sy where "sy = ((y (ps ! j) - y (ps ! i)) / ?d) * s"
  have ps': "ps' = ps[i := q1\<lparr>x := x q1 - sx, y := y q1 - sy\<rparr>, j := q2\<lparr>x := x q2 + sx, y := y q2 + sy\<rparr>]"
    using collidePair_resolved [OF d True hc s_def sx_def sy_def] assms(4) by simp
  have fr: "x q1 = x (ps ! i)" "y q1 = y (ps ! i)" "x q2 = x (ps ! j)" "y q2 = y (ps ! j)"
    using handleCollision_frame [OF hc] by simp_all
  have s: "0 \<le> s" "s \<le> B"
    using True d radii_within_nth [OF assms(3), of i] radii_within_nth [OF assms(3), of j] assms(1,2)
    by (simp_all add: s_def)
  have "\<bar>(x (ps ! j) - x (ps ! i)) / ?d\<bar> \<le> 1"
    unfolding centreDist_def by (rule abs_unit_coord_le_1)
  then have sx: "\<bar>sx\<bar> \<le> B"
    unfolding sx_def using s by (rule abs_sep_le)
  have "\<bar>(y (ps ! j) - y (ps ! i)) / ?d\<bar> \<le> 1"
    unfolding centreDist_def by (subst add.commute) (rule abs_unit_coord_le_1)
  then have sy: "\<bar>sy\<bar> \<le> B"
    unfolding sy_def using s by (rule abs_sep_le)
  show ?thesis
    using assms(1,2,5) sx sy s by (auto simp: ps' nth_list_update fr touches_def)
next
  case False
  with assms(4) have "ps' = ps" by (simp add: collidePair_apart)
  then show ?thesis
    using radii_within_nth [OF assms(3,5)] by simp
qed

lemma radii_within_cong:
  "map radius ps' = map radius ps \<Longrightarrow> radii_within B ps' = radii_within B ps"
  by (simp add: radii_within_def)

lemma collideAll_displacement:
  "ordered_pairs (length ps) ijs \<Longrightarrow> radii_within B ps \<Longrightarrow> collideAll ijs ps = Inr ps'
   \<Longrightarrow> k < length ps
   \<Longrightarrow> \<bar>x (ps' ! k) - x (ps ! k)\<bar> \<le> B * real (length (filter (touches k) ijs))
     \<and> \<bar>y (ps' ! k) - y (ps ! k)\<bar> \<le> B * real (length (filter (touches k) ijs))"
proof (induction ijs arbitrary: ps)
  case Nil
  then show ?case by simp
next
  case (Cons ij ijs)
  obtain i j where ij: "ij = (i, j)" by fastforce
  from Cons.prems(3) ij obtain ps1 where step: "collidePair i j ps = Inr ps1"
    and rest: "collideAll ijs ps1 = Inr ps'"
    by (auto split: sum.splits)
  have ord: "i < j" "j < length ps" using Cons.prems(1) ij by (auto simp: ordered_pairs_def)
  note fr = collidePair_frame [OF ord step]
  have "ordered_pairs (length ps1) ijs"
    using Cons.prems(1) fr by (simp add: ordered_pairs_def)
  moreover have "radii_within B ps1"
    using Cons.prems(2) fr radii_within_cong by blast
  ultimately have IH: "\<bar>x (ps' ! k) - x (ps1 ! k)\<bar> \<le> B * real (length (filter (touches k) ijs))
                     \<and> \<bar>y (ps' ! k) - y (ps1 ! k)\<bar> \<le> B * real (length (filter (touches k) ijs))"
    using Cons.IH rest Cons.prems(4) fr by simp
  have one: "\<bar>x (ps1 ! k) - x (ps ! k)\<bar> \<le> (if touches k (i, j) then B else 0)
           \<and> \<bar>y (ps1 ! k) - y (ps ! k)\<bar> \<le> (if touches k (i, j) then B else 0)"
    by (rule collidePair_displacement [OF ord Cons.prems(2) step Cons.prems(4)])
  have "B * real (length (filter (touches k) (ij # ijs)))
        = (if touches k (i, j) then B else 0) + B * real (length (filter (touches k) ijs))"
    by (simp add: ij algebra_simps)
  with IH one show ?case by linarith
qed

lemma particleCollisions_displacement:
  assumes "radii_within B ps" and "particleCollisions ps = Inr ps'" and "k < length ps"
  shows "\<bar>x (ps' ! k) - x (ps ! k)\<bar> \<le> B * real (length ps - 1)
       \<and> \<bar>y (ps' ! k) - y (ps ! k)\<bar> \<le> B * real (length ps - 1)"
  using collideAll_displacement [OF ordered_pairs_pairs assms(1) _ assms(3)] assms(2,3)
  by (simp add: particleCollisions_def touches_pairs)


subsection \<open>The counter loop computes the pair-list loop\<close>

lemma length_collidePair: "collidePair i j ps = Inr ps' \<Longrightarrow> length ps' = length ps"
  by (auto simp: collidePair_def Let_def split: if_splits prod.splits)

lemma collideAll_append:
  "collideAll (xs @ ys) ps = (case collideAll xs ps of Inl e \<Rightarrow> Inl e | Inr ps' \<Rightarrow> collideAll ys ps')"
  by (induction xs ps rule: collideAll.induct) (simp_all split: sum.splits)

lemma pairsFrom_step: "i < n \<Longrightarrow> j < n \<Longrightarrow> pairsFrom i j n = (i, j) # pairsFrom i (Suc j) n"
  by (simp add: pairsFrom_def upt_conv_Cons)

lemma pairsFrom_next_row: "i < n \<Longrightarrow> \<not> j < n \<Longrightarrow> pairsFrom i j n = pairsFrom (Suc i) (Suc (Suc i)) n"
  by (cases "Suc i < n") (simp_all add: pairsFrom_def upt_conv_Cons)

lemma pairs_pairsFrom: "pairs n = pairsFrom 0 1 n"
  by (cases n) (simp_all add: pairs_def pairsFrom_def upt_conv_Cons del: upt_Suc)

lemma pairLoop_collideAll: "pairLoop i j ps = collideAll (pairsFrom i j (length ps)) ps"
proof (induction i j ps rule: pairLoop.induct)
  case (1 i j ps)
  show ?case
  proof (cases "i < length ps")
    case i: True
    show ?thesis
    proof (cases "j < length ps")
      case j: True
      show ?thesis
      proof (cases "collidePair i j ps")
        case (Inl e)
        with i j show ?thesis by (simp add: pairsFrom_step)
      next
        case (Inr ps')
        with "1.IH"(1) [OF i j Inr] i j show ?thesis
          by (simp add: pairsFrom_step length_collidePair [OF Inr])
      qed
    next
      case j: False
      with "1.IH"(2) [OF i j] i show ?thesis by (simp add: pairsFrom_next_row)
    qed
  next
    case False
    then show ?thesis by (simp add: pairsFrom_def)
  qed
qed

subsection \<open>Properties of the pair loop and concrete collisions\<close>

text \<open>
  C11. A pair that is exactly touching (\<open>dist = r1 + r2\<close>) is not resolved at all,
  whatever its velocities: the test on line 106 is strict. The spec's scenario
  expects a closing, touching pair to leave the resolution separating.
\<close>

theorem collidePair_just_touching:
  "centreDist (ps ! i) (ps ! j) = radius (ps ! i) + radius (ps ! j) \<Longrightarrow> collidePair i j ps = Inr ps"
  by (simp add: collidePair_apart)

text \<open>
  C13. The nested loop visits every unordered pair of indices exactly once:
  the pairs \<open>(i, j)\<close> with \<open>i < j < n\<close>, without repetition, \<open>n(n-1)/2\<close> of them.
\<close>

theorem pairs_enumeration:
  "set (pairs n) = {(i, j). i < j \<and> j < n} \<and> distinct (pairs n) \<and> length (pairs n) = n * (n - 1) div 2"
  by (simp add: set_pairs distinct_pairs length_pairs)

text \<open>A head-on collision used by the witnesses: the centres are 5 apart along \<open>(3, 4)\<close>.\<close>

lemma example_collision:
  "handleCollision \<lparr>x = 0, y = 0, vx = 1, vy = 0, radius = 5\<rparr> \<lparr>x = 3, y = 4, vx = 0, vy = 0, radius = 5\<rparr>
   = (\<lparr>x = 0, y = 0, vx = 329 / 500, vy = - 57 / 125, radius = 5\<rparr>,
      \<lparr>x = 3, y = 4, vx = 171 / 500, vy = 57 / 125, radius = 5\<rparr>)"
  and example_dist: "centreDist \<lparr>x = 0, y = 0, vx = 1, vy = 0, radius = 5\<rparr> \<lparr>x = 3, y = 4, vx = 0, vy = 0, radius = 5\<rparr> = 5"
  and example_relvel:
    "normalRelVel \<lparr>x = 0, y = 0, vx = 1, vy = 0, radius = 5\<rparr> \<lparr>x = 3, y = 4, vx = 0, vy = 0, radius = 5\<rparr> = - 3 / 5"
  by (simp_all add: handleCollision_def centreDist_def normalRelVel_def Let_def model_consts sqrt_25)

theorem handleCollision_restitution_witness:
  "handleCollision \<lparr>x = 0, y = 0, vx = 1, vy = 0, radius = 5\<rparr> \<lparr>x = 3, y = 4, vx = 0, vy = 0, radius = 5\<rparr>
     = (\<lparr>x = 0, y = 0, vx = 329 / 500, vy = - 57 / 125, radius = 5\<rparr>,
        \<lparr>x = 3, y = 4, vx = 171 / 500, vy = 57 / 125, radius = 5\<rparr>)
   \<and> centreDist \<lparr>x = 0, y = 0, vx = 1, vy = 0, radius = 5\<rparr> \<lparr>x = 3, y = 4, vx = 0, vy = 0, radius = 5\<rparr> \<noteq> 0
   \<and> normalRelVel \<lparr>x = 0, y = 0, vx = 1, vy = 0, radius = 5\<rparr> \<lparr>x = 3, y = 4, vx = 0, vy = 0, radius = 5\<rparr> \<le> 0
   \<and> normalRelVel \<lparr>x = 0, y = 0, vx = 329 / 500, vy = - 57 / 125, radius = 5\<rparr>
                  \<lparr>x = 3, y = 4, vx = 171 / 500, vy = 57 / 125, radius = 5\<rparr>
     = - restitution * (- 3 / 5)"
  using handleCollision_restitution [OF example_collision] example_collision example_dist example_relvel
  by simp

theorem handleCollision_momentum_witness:
  "handleCollision \<lparr>x = 0, y = 0, vx = 1, vy = 0, radius = 5\<rparr> \<lparr>x = 3, y = 4, vx = 0, vy = 0, radius = 5\<rparr>
     = (\<lparr>x = 0, y = 0, vx = 329 / 500, vy = - 57 / 125, radius = 5\<rparr>,
        \<lparr>x = 3, y = 4, vx = 171 / 500, vy = 57 / 125, radius = 5\<rparr>)
   \<and> (329 / 500 + 171 / 500 = (1 :: real) + 0 \<and> - 57 / 125 + 57 / 125 = (0 :: real) + 0)"
  using handleCollision_momentum [OF example_collision] example_collision by simp

theorem handleCollision_energy_witness:
  "handleCollision \<lparr>x = 0, y = 0, vx = 1, vy = 0, radius = 5\<rparr> \<lparr>x = 3, y = 4, vx = 0, vy = 0, radius = 5\<rparr>
     = (\<lparr>x = 0, y = 0, vx = 329 / 500, vy = - 57 / 125, radius = 5\<rparr>,
        \<lparr>x = 3, y = 4, vx = 171 / 500, vy = 57 / 125, radius = 5\<rparr>)
   \<and> kinetic \<lparr>x = 0, y = 0, vx = 329 / 500, vy = - 57 / 125, radius = 5\<rparr>
     + kinetic \<lparr>x = 3, y = 4, vx = 171 / 500, vy = 57 / 125, radius = 5\<rparr>
     = 1 - (1 - restitution * restitution) / 2 * (- 3 / 5)\<^sup>2"
  using handleCollision_energy [OF example_collision] example_collision example_dist example_relvel
  by (simp add: kinetic_def)

theorem collidePair_touching_witness:
  "(0 :: nat) < 1 \<and> 1 < length [\<lparr>x = 0, y = 0, vx = 1, vy = 0, radius = 5\<rparr>, \<lparr>x = 3, y = 4, vx = 0, vy = 0, radius = 5\<rparr>]
   \<and> 0 < centreDist \<lparr>x = 0, y = 0, vx = 1, vy = 0, radius = 5\<rparr> \<lparr>x = 3, y = 4, vx = 0, vy = 0, radius = 5\<rparr>
   \<and> centreDist \<lparr>x = 0, y = 0, vx = 1, vy = 0, radius = 5\<rparr> \<lparr>x = 3, y = 4, vx = 0, vy = 0, radius = 5\<rparr> < 5 + 5
   \<and> collidePair 0 1 [\<lparr>x = 0, y = 0, vx = 1, vy = 0, radius = 5\<rparr>, \<lparr>x = 3, y = 4, vx = 0, vy = 0, radius = 5\<rparr>]
       = Inr [\<lparr>x = - 3 / 2, y = - 2, vx = 329 / 500, vy = - 57 / 125, radius = 5\<rparr>,
              \<lparr>x = 9 / 2, y = 6, vx = 171 / 500, vy = 57 / 125, radius = 5\<rparr>]
   \<and> centreDist \<lparr>x = - 3 / 2, y = - 2, vx = 329 / 500, vy = - 57 / 125, radius = 5\<rparr>
                \<lparr>x = 9 / 2, y = 6, vx = 171 / 500, vy = 57 / 125, radius = 5\<rparr> = 10"
proof -
  have e: "collidePair 0 1 [\<lparr>x = 0, y = 0, vx = 1, vy = 0, radius = 5\<rparr>, \<lparr>x = 3, y = 4, vx = 0, vy = 0, radius = 5\<rparr>]
       = Inr [\<lparr>x = - 3 / 2, y = - 2, vx = 329 / 500, vy = - 57 / 125, radius = 5\<rparr>,
              \<lparr>x = 9 / 2, y = 6, vx = 171 / 500, vy = 57 / 125, radius = 5\<rparr>]"
    by (simp add: collidePair_eq example_collision example_dist)
  have "centreDist \<lparr>x = 0, y = 0, vx = 1, vy = 0, radius = 5\<rparr> \<lparr>x = 3, y = 4, vx = 0, vy = 0, radius = 5\<rparr>
        < radius \<lparr>x = 0, y = 0, vx = 1, vy = 0, radius = 5\<rparr> + radius \<lparr>x = 3, y = 4, vx = 0, vy = 0, radius = 5\<rparr>"
    by (simp add: example_dist)
  then show ?thesis
    using collidePair_touching [of 0 1, OF _ _ _ _ e] e example_dist by simp
qed

theorem collidePair_just_touching_witness:
  "centreDist \<lparr>x = 0, y = 0, vx = 1, vy = 0, radius = 5\<rparr> \<lparr>x = 6, y = 8, vx = -1, vy = 0, radius = 5\<rparr> = 5 + 5
   \<and> normalRelVel \<lparr>x = 0, y = 0, vx = 1, vy = 0, radius = 5\<rparr> \<lparr>x = 6, y = 8, vx = -1, vy = 0, radius = 5\<rparr> < 0
   \<and> collidePair 0 1 [\<lparr>x = 0, y = 0, vx = 1, vy = 0, radius = 5\<rparr>, \<lparr>x = 6, y = 8, vx = -1, vy = 0, radius = 5\<rparr>]
       = Inr [\<lparr>x = 0, y = 0, vx = 1, vy = 0, radius = 5\<rparr>, \<lparr>x = 6, y = 8, vx = -1, vy = 0, radius = 5\<rparr>]"
proof -
  have d: "centreDist \<lparr>x = 0, y = 0, vx = 1, vy = 0, radius = 5\<rparr> \<lparr>x = 6, y = 8, vx = -1, vy = 0, radius = 5\<rparr> = 10"
    by (simp add: centreDist_def sqrt_100)
  have "normalRelVel \<lparr>x = 0, y = 0, vx = 1, vy = 0, radius = 5\<rparr> \<lparr>x = 6, y = 8, vx = -1, vy = 0, radius = 5\<rparr> < 0"
    by (simp add: normalRelVel_def d)
  then show ?thesis
    using collidePair_just_touching [of "[\<lparr>x = 0, y = 0, vx = 1, vy = 0, radius = 5\<rparr>,
                                          \<lparr>x = 6, y = 8, vx = -1, vy = 0, radius = 5\<rparr>]" 0 1] d
    by simp
qed

theorem collidePair_coincident_witness:
  "centreDist \<lparr>x = 7, y = 7, vx = 1, vy = 0, radius = 5\<rparr> \<lparr>x = 7, y = 7, vx = 0, vy = 1, radius = 5\<rparr> = 0
   \<and> collidePair 0 1 [\<lparr>x = 7, y = 7, vx = 1, vy = 0, radius = 5\<rparr>, \<lparr>x = 7, y = 7, vx = 0, vy = 1, radius = 5\<rparr>]
       = Inl (NaN_separation 0 1)"
proof -
  have d: "centreDist \<lparr>x = 7, y = 7, vx = 1, vy = 0, radius = 5\<rparr> \<lparr>x = 7, y = 7, vx = 0, vy = 1, radius = 5\<rparr> = 0"
    by (simp add: centreDist_def)
  show ?thesis
    using collidePair_coincident [of "[\<lparr>x = 7, y = 7, vx = 1, vy = 0, radius = 5\<rparr>,
                                       \<lparr>x = 7, y = 7, vx = 0, vy = 1, radius = 5\<rparr>]" 0 1] d
    by simp
qed

text \<open>
  C31. The nested loop as written, with its counters \<open>i\<close> and \<open>j\<close> and the
  length read at every test, computes the same result as the pass over the
  enumerated pairs: started at \<open>i = 0, j = 1\<close> it is \<open>particleCollisions\<close>, on
  every ensemble, faults included.
\<close>

theorem pairLoop_particleCollisions: "pairLoop 0 1 ps = particleCollisions ps"
  by (simp only: pairLoop_collideAll particleCollisions_def pairs_pairsFrom)

end
