(* ===== verification/Thermostat.thy ===== *)
theory Thermostat
  imports Particle
begin

text \<open>
  The thermostat of \<open>updateParticles\<close> in \<open>src/src/components/SimulationCanvas.js\<close>
  (lines 119--130): the sum of the speeds is accumulated in a loop, averaged over
  the ensemble, and every velocity is multiplied by \<open>desiredAvgSpeed / (avgSpeed || 1)\<close>.
  The JavaScript \<open>avgSpeed || 1\<close> replaces a falsy average (\<open>0\<close>, or \<open>NaN\<close> for
  the empty ensemble, where \<open>0 / 0\<close> is \<open>NaN\<close>) by \<open>1\<close>; in HOL \<open>0 / 0 = 0\<close>, so
  the guard \<open>avgSpeed = 0\<close> covers both. The target \<open>desiredAvgSpeed\<close> is
  computed by the caller (line 71) and passed in.
\<close>

definition thermostat :: "real \<Rightarrow> ensemble \<Rightarrow> ensemble" where
  "thermostat desiredAvgSpeed ps =
     (let sumSpeed = fold (\<lambda>p acc. acc + speed p) ps 0;
          avgSpeed = sumSpeed / real (length ps);
          scale = desiredAvgSpeed / (if avgSpeed = 0 then 1 else avgSpeed) in
      map (\<lambda>p. p\<lparr>vx := vx p * scale, vy := vy p * scale\<rparr>) ps)"

text \<open>The ensemble's mean speed, the quantity the spec says the thermostat pins.\<close>

definition meanSpeed :: "ensemble \<Rightarrow> real" where
  "meanSpeed ps = sum_list (map speed ps) / real (length ps)"

definition at_rest :: "ensemble \<Rightarrow> bool" where
  "at_rest ps \<longleftrightarrow> (\<forall>p \<in> set ps. vx p = 0 \<and> vy p = 0)"

subsection \<open>Lemmas\<close>

lemma speed_nonneg [simp]: "0 \<le> speed p"
  by (simp add: speed_def sqrt_sum_sq_nonneg)

lemma speed_eq_0_iff: "speed p = 0 \<longleftrightarrow> vx p = 0 \<and> vy p = 0"
  by (simp add: speed_def sqrt_sum_sq_eq_0_iff)

lemma speed_scale [simp]:
  "speed (p\<lparr>vx := vx p * c, vy := vy p * c\<rparr>) = \<bar>c\<bar> * speed p"
  by (simp add: speed_def sqrt_sum_sq_scale)

text \<open>The accumulation loop computes the mean speed.\<close>

lemma thermostat_eq:
  "thermostat d ps =
     (let scale = d / (if meanSpeed ps = 0 then 1 else meanSpeed ps) in
      map (\<lambda>p. p\<lparr>vx := vx p * scale, vy := vy p * scale\<rparr>) ps)"
  by (simp add: thermostat_def meanSpeed_def fold_add_sum_list Let_def)

lemma meanSpeed_nonneg: "0 \<le> meanSpeed ps"
  by (simp add: meanSpeed_def sum_list_map_nonneg)

lemma meanSpeed_eq_0_iff:
  "ps \<noteq> [] \<Longrightarrow> meanSpeed ps = 0 \<longleftrightarrow> at_rest ps"
proof -
  assume ne: "ps \<noteq> []"
  have "sum_list (map speed ps) = 0 \<longleftrightarrow> (\<forall>p \<in> set ps. speed p = 0)"
    by (rule trans [OF sum_list_nonneg_eq_0_iff]) auto
  with ne show ?thesis
    by (simp add: meanSpeed_def at_rest_def speed_eq_0_iff)
qed

lemma meanSpeed_scale:
  "meanSpeed (map (\<lambda>p. p\<lparr>vx := vx p * c, vy := vy p * c\<rparr>) ps) = \<bar>c\<bar> * meanSpeed ps"
  by (simp add: meanSpeed_def comp_def sum_list_map_scale)

lemma length_thermostat [simp]: "length (thermostat d ps) = length ps"
  by (simp add: thermostat_def Let_def)

lemma thermostat_frame:
  "map x (thermostat d ps) = map x ps \<and> map y (thermostat d ps) = map y ps
   \<and> map radius (thermostat d ps) = map radius ps"
  by (simp add: thermostat_def Let_def comp_def)


lemma meanSpeed_thermostat:
  "meanSpeed (thermostat d ps) = (if meanSpeed ps = 0 then 0 else \<bar>d\<bar>)"
proof -
  have eq: "meanSpeed (thermostat d ps)
            = \<bar>d / (if meanSpeed ps = 0 then 1 else meanSpeed ps)\<bar> * meanSpeed ps"
    unfolding thermostat_eq Let_def by (rule meanSpeed_scale)
  show ?thesis
  proof (cases "meanSpeed ps = 0")
    case True
    then show ?thesis by (simp add: eq)
  next
    case False
    have "0 < meanSpeed ps" using False meanSpeed_nonneg [of ps] by simp
    with False show ?thesis by (simp add: eq abs_divide)
  qed
qed

lemma at_rest_thermostat: "at_rest ps \<Longrightarrow> at_rest (thermostat d ps)"
  by (auto simp: at_rest_def thermostat_def Let_def)


subsection \<open>Properties\<close>

text \<open>
  C5. When some particle moves, the thermostat pass sets the ensemble's mean
  speed to exactly the (non-negative) target \<open>desiredAvgSpeed\<close>.
\<close>

theorem thermostat_mean_speed:
  "0 \<le> d \<Longrightarrow> \<not> at_rest ps \<Longrightarrow> meanSpeed (thermostat d ps) = d"
proof -
  assume d: "0 \<le> d" and moving: "\<not> at_rest ps"
  then have "ps \<noteq> []" by (auto simp: at_rest_def)
  with moving have "meanSpeed ps \<noteq> 0" by (simp add: meanSpeed_eq_0_iff)
  with d show ?thesis by (simp add: meanSpeed_thermostat)
qed

theorem thermostat_mean_speed_witness:
  "0 \<le> (1 :: real) \<and> \<not> at_rest [\<lparr>x = 0, y = 0, vx = 6, vy = 8, radius = 5\<rparr>]
   \<and> meanSpeed (thermostat 1 [\<lparr>x = 0, y = 0, vx = 6, vy = 8, radius = 5\<rparr>]) = 1"
proof -
  have "\<not> at_rest [\<lparr>x = 0, y = 0, vx = 6, vy = 8, radius = 5\<rparr>]"
    by (simp add: at_rest_def)
  then show ?thesis using thermostat_mean_speed [of 1] by simp
qed

text \<open>
  The zero guard (\<open>avgSpeed || 1\<close>): on an ensemble at rest the thermostat
  leaves every particle unchanged, at rest. (HOL's \<open>x / 0 = 0\<close> would give the
  same without the guard; in JavaScript the guard is what avoids \<open>0 / 0 = NaN\<close>.)
\<close>

theorem thermostat_zero_guard: "at_rest ps \<Longrightarrow> thermostat d ps = ps"
  by (auto simp: at_rest_def thermostat_def Let_def intro: map_idI)

theorem thermostat_zero_guard_witness:
  "at_rest [\<lparr>x = 1, y = 2, vx = 0, vy = 0, radius = 5\<rparr>]
   \<and> thermostat 7 [\<lparr>x = 1, y = 2, vx = 0, vy = 0, radius = 5\<rparr>] = [\<lparr>x = 1, y = 2, vx = 0, vy = 0, radius = 5\<rparr>]"
proof -
  have r: "at_rest [\<lparr>x = 1, y = 2, vx = 0, vy = 0, radius = 5\<rparr>]"
    by (simp add: at_rest_def)
  show ?thesis using r thermostat_zero_guard [OF r] by simp
qed

end
