(* ===== verification/Kinetics.thy ===== *)
theory Kinetics
  imports Collision Thermostat
begin

text \<open>
  The kinetics engine of \<open>src/src/components/SimulationCanvas.js\<close> as a whole:
  the one-time initialisation of the ensemble (lines 19--37), one animation
  frame of \<open>updateParticles\<close> without its drawing code (lines 70--130), and the
  component's state (the refs \<open>tempRef\<close> and \<open>particlesRef\<close>) as a step relation
  whose steps are the temperature effect (lines 9--11) and a frame.
  \<open>Math.random()\<close> is a parameter: a function from the loop index to the three
  numbers in \<open>[0, 1)\<close> drawn for that particle.
\<close>

subsection \<open>Initialisation (lines 19--37)\<close>

text \<open>
  \<open>Math.sqrt\<close> of a negative temperature is \<open>NaN\<close>; the model reports it as the
  fault \<open>NaN_speed\<close> (the component is mounted with the slider's value, at least
  100, so this branch is not taken by the application).
\<close>

definition initParticle :: "temperature \<Rightarrow> real \<times> real \<times> real \<Rightarrow> particle" where
  "initParticle currentTemp rnd =
     (case rnd of (r1, r2, r3) \<Rightarrow>
       let x0 = r1 * width; y0 = r2 * height; angle = r3 * 2 * pi;
           sp = baseSpeedFactor * sqrt currentTemp in
       \<lparr>x = x0, y = y0, vx = sp * cos angle, vy = sp * sin angle, radius = 5\<rparr>)"

definition initParticles :: "temperature \<Rightarrow> (nat \<Rightarrow> real \<times> real \<times> real) \<Rightarrow> fault + ensemble" where
  "initParticles currentTemp rnd =
     (if currentTemp < 0 then Inl NaN_speed
      else Inr (map (\<lambda>i. initParticle currentTemp (rnd i)) [0..<numParticles]))"

text \<open>The effect runs on every mount but fills the ref only while it is empty (line 23).\<close>

definition initEffect ::
  "ensemble \<Rightarrow> temperature \<Rightarrow> (nat \<Rightarrow> real \<times> real \<times> real) \<Rightarrow> fault + ensemble" where
  "initEffect current currentTemp rnd =
     (if length current = 0 then initParticles currentTemp rnd else Inr current)"

subsection \<open>One frame (lines 70--130)\<close>

text \<open>
  Integration, walls, pairwise collisions, thermostat, in the source's order.
  \<open>desiredAvgSpeed\<close> is computed first (line 71); for a negative temperature it
  is \<open>NaN\<close> and the thermostat writes \<open>NaN\<close> into every velocity, which the
  model reports as \<open>NaN_speed\<close>.
\<close>

definition updateParticles :: "temperature \<Rightarrow> ensemble \<Rightarrow> fault + ensemble" where
  "updateParticles currentTemp particles =
     (if particles \<noteq> [] \<and> currentTemp < 0 then Inl NaN_speed
      else
        let desiredAvgSpeed = baseSpeedFactor * sqrt currentTemp;
            moved = wallCollisions (updatePositions particles) in
        case particleCollisions moved of
          Inl e \<Rightarrow> Inl e
        | Inr collided \<Rightarrow> Inr (thermostat desiredAvgSpeed collided))"

subsection \<open>The component's state\<close>

record sim =
  tempRef :: temperature
  particlesRef :: ensemble

text \<open>
  The temperature prop comes from the slider of \<open>App\<close> (\<open>min = 100\<close>,
  \<open>max = 500\<close>). A frame that faults leaves the model: there is no step out of it.
\<close>

definition slider_range :: "temperature \<Rightarrow> bool" where
  "slider_range t \<longleftrightarrow> 100 \<le> t \<and> t \<le> 500"

definition random_unit :: "(nat \<Rightarrow> real \<times> real \<times> real) \<Rightarrow> bool" where
  "random_unit rnd \<longleftrightarrow>
     (\<forall>i. case rnd i of (a, b, c) \<Rightarrow> 0 \<le> a \<and> a < 1 \<and> 0 \<le> b \<and> b < 1 \<and> 0 \<le> c \<and> c < 1)"

inductive sim_step :: "sim \<Rightarrow> sim \<Rightarrow> bool" where
  set_temperature: "slider_range t \<Longrightarrow> sim_step s (s\<lparr>tempRef := t\<rparr>)"
| frame: "updateParticles (tempRef s) (particlesRef s) = Inr ps' \<Longrightarrow>
          sim_step s (s\<lparr>particlesRef := ps'\<rparr>)"

inductive sim_reachable :: "sim \<Rightarrow> bool" where
  mount: "slider_range t \<Longrightarrow> random_unit rnd \<Longrightarrow> initParticles t rnd = Inr ps \<Longrightarrow>
          sim_reachable \<lparr>tempRef = t, particlesRef = ps\<rparr>"
| step: "sim_reachable s \<Longrightarrow> sim_step s s' \<Longrightarrow> sim_reachable s'"

inductive_cases sim_step_cases: "sim_step s s'"


text \<open>
  The box every particle stays in: each pair resolution moves a particle by less
  than one radius (5) along each axis, a particle takes part in 49 pairs, and the
  walls put it in \<open>[5, 395]\<close> before the pairs are resolved.
\<close>

definition in_arena :: "particle \<Rightarrow> bool" where
  "in_arena p \<longleftrightarrow> -240 \<le> x p \<and> x p \<le> 640 \<and> -240 \<le> y p \<and> y p \<le> 640"

definition sim_inv :: "sim \<Rightarrow> bool" where
  "sim_inv s \<longleftrightarrow> slider_range (tempRef s) \<and> length (particlesRef s) = numParticles
     \<and> (\<forall>p \<in> set (particlesRef s). radius p = 5 \<and> in_arena p)"

subsection \<open>A frame: shape of a successful result\<close>

lemma updateParticles_Inr:
  assumes "updateParticles T ps = Inr ps'"
  obtains collided where
    "particleCollisions (wallCollisions (updatePositions ps)) = Inr collided"
    and "ps' = thermostat (baseSpeedFactor * sqrt T) collided"
    and "ps \<noteq> [] \<Longrightarrow> 0 \<le> T"
proof -
  have T: "ps \<noteq> [] \<Longrightarrow> 0 \<le> T"
    using assms by (auto simp: updateParticles_def split: if_splits)
  show ?thesis
  proof (cases "particleCollisions (wallCollisions (updatePositions ps))")
    case (Inl e)
    with assms show ?thesis by (simp add: updateParticles_def Let_def split: if_splits)
  next
    case (Inr collided)
    with assms have "ps' = thermostat (baseSpeedFactor * sqrt T) collided"
      by (simp add: updateParticles_def Let_def split: if_splits)
    from Inr this T show ?thesis by (rule that)
  qed
qed

lemma map_radius_moved:
  "map radius (wallCollisions (updatePositions ps)) = map radius ps"
  by (simp add: wallCollisions_def updatePositions_def comp_def)

lemma nth_moved:
  "k < length ps \<Longrightarrow> wallCollisions (updatePositions ps) ! k = wallCollide (move (ps ! k))"
  by (simp add: wallCollisions_def updatePositions_def)

lemma updateParticles_frame:
  assumes "updateParticles T ps = Inr ps'"
  shows "length ps' = length ps \<and> map radius ps' = map radius ps"
proof -
  obtain collided where c: "particleCollisions (wallCollisions (updatePositions ps)) = Inr collided"
    and ps': "ps' = thermostat (baseSpeedFactor * sqrt T) collided"
    using assms by (rule updateParticles_Inr)
  have "length collided = length ps \<and> map radius collided = map radius ps"
    using collideAll_frame [OF ordered_pairs_pairs c [unfolded particleCollisions_def]]
    by (simp add: map_radius_moved)
  then show ?thesis using thermostat_frame [of _ collided] by (simp add: ps')
qed

lemma fits_move [simp]: "fits (move p) = fits p"
  by (simp add: fits_def)

lemma updateParticles_position_bound:
  assumes "updateParticles T ps = Inr ps'" and "radii_within B ps"
    and "\<forall>p \<in> set ps. fits p" and "k < length ps"
  shows "radius (ps ! k) - B * real (length ps - 1) \<le> x (ps' ! k)
       \<and> x (ps' ! k) \<le> width - radius (ps ! k) + B * real (length ps - 1)
       \<and> radius (ps ! k) - B * real (length ps - 1) \<le> y (ps' ! k)
       \<and> y (ps' ! k) \<le> height - radius (ps ! k) + B * real (length ps - 1)"
proof -
  let ?m = "wallCollisions (updatePositions ps)"
  obtain collided where c: "particleCollisions ?m = Inr collided"
    and ps': "ps' = thermostat (baseSpeedFactor * sqrt T) collided"
    using assms(1) by (rule updateParticles_Inr)
  have len: "length ?m = length ps" by simp
  have "radii_within B ?m"
    using assms(2) radii_within_cong [OF map_radius_moved] by blast
  then have disp: "\<bar>x (collided ! k) - x (?m ! k)\<bar> \<le> B * real (length ps - 1)
                 \<and> \<bar>y (collided ! k) - y (?m ! k)\<bar> \<le> B * real (length ps - 1)"
    using particleCollisions_displacement [OF _ c, of B k] assms(4) by simp
  have "contained (?m ! k)" and r: "radius (?m ! k) = radius (ps ! k)"
    using assms(3,4) wallCollide_contained [of "move (ps ! k)"] by (simp_all add: nth_moved)
  then have box: "radius (ps ! k) \<le> x (?m ! k) \<and> x (?m ! k) \<le> width - radius (ps ! k)
                \<and> radius (ps ! k) \<le> y (?m ! k) \<and> y (?m ! k) \<le> height - radius (ps ! k)"
    by (simp add: contained_def)
  have "length collided = length ps"
    using collideAll_frame [OF ordered_pairs_pairs c [unfolded particleCollisions_def]] by simp
  moreover have "map x ps' = map x collided" and "map y ps' = map y collided"
    using thermostat_frame [of "baseSpeedFactor * sqrt T" collided] by (simp_all add: ps')
  ultimately have "x (ps' ! k) = x (collided ! k) \<and> y (ps' ! k) = y (collided ! k)"
    using assms(4) by (metis nth_map length_map)
  with disp box show ?thesis by linarith
qed

text \<open>
  C2. After every frame the thermostat has pinned the mean speed of the
  ensemble to \<open>baseSpeedFactor * sqrt T\<close>, unless the collisions left every
  particle at rest, in which case the ensemble stays at rest.
\<close>

theorem updateParticles_mean_speed:
  assumes "updateParticles T ps = Inr ps'"
  shows "meanSpeed ps' = baseSpeedFactor * sqrt T \<or> at_rest ps'"
proof -
  obtain collided where c: "particleCollisions (wallCollisions (updatePositions ps)) = Inr collided"
    and ps': "ps' = thermostat (baseSpeedFactor * sqrt T) collided"
    and T: "ps \<noteq> [] \<Longrightarrow> 0 \<le> T"
    using assms by (rule updateParticles_Inr) blast
  have len: "length collided = length ps"
    using collideAll_frame [OF ordered_pairs_pairs c [unfolded particleCollisions_def]] by simp
  show ?thesis
  proof (cases "collided = []")
    case True
    then show ?thesis by (simp add: ps' thermostat_def at_rest_def)
  next
    case False
    then have "ps \<noteq> []" using len by auto
    then have "0 \<le> baseSpeedFactor * sqrt T"
      using T by (simp add: baseSpeedFactor_def)
    then show ?thesis
      using meanSpeed_eq_0_iff [OF False] at_rest_thermostat [of collided]
      by (auto simp: ps' meanSpeed_thermostat)
  qed
qed


subsection \<open>The invariant of the component's state\<close>

lemma initParticles_inv:
  assumes "random_unit rnd" and "initParticles t rnd = Inr ps"
  shows "length ps = numParticles \<and> (\<forall>p \<in> set ps. radius p = 5 \<and> in_arena p)"
proof -
  have ps: "ps = map (\<lambda>i. initParticle t (rnd i)) [0..<numParticles]"
    using assms(2) by (simp add: initParticles_def split: if_splits)
  have "radius (initParticle t (rnd i)) = 5 \<and> in_arena (initParticle t (rnd i))" for i
  proof -
    obtain a b c where r: "rnd i = (a, b, c)" by (cases "rnd i") auto
    then have "0 \<le> a \<and> a < 1 \<and> 0 \<le> b \<and> b < 1"
      using assms(1) by (auto simp: random_unit_def dest: spec [of _ i])
    then show ?thesis
      by (simp add: r initParticle_def in_arena_def model_consts Let_def)
  qed
  then show ?thesis by (auto simp: ps)
qed

lemma frame_inv:
  assumes "length ps = numParticles" and "\<forall>p \<in> set ps. radius p = 5 \<and> in_arena p"
    and "updateParticles T ps = Inr ps'"
  shows "length ps' = numParticles \<and> (\<forall>p \<in> set ps'. radius p = 5 \<and> in_arena p)"
proof -
  note fr = updateParticles_frame [OF assms(3)]
  have r5: "\<forall>k < length ps. radius (ps ! k) = 5"
    using assms(2) by (simp add: all_set_conv_all_nth)
  have "radii_within 5 ps"
    using assms(2) by (auto simp: radii_within_def)
  moreover have "\<forall>p \<in> set ps. fits p"
    using assms(2) by (simp add: fits_def model_consts)
  ultimately have "radius (ps' ! k) = 5 \<and> in_arena (ps' ! k)" if k: "k < length ps" for k
  proof -
    have "radius (ps ! k) = 5" using r5 k by simp
    moreover have "radius (ps' ! k) = radius (ps ! k)"
      using fr k by (metis nth_map)
    moreover note updateParticles_position_bound [OF assms(3) \<open>radii_within 5 ps\<close>
                    \<open>\<forall>p \<in> set ps. fits p\<close> k]
    ultimately show ?thesis
      using assms(1) by (simp add: in_arena_def model_consts)
  qed
  then show ?thesis
    using fr assms(1) by (simp add: all_set_conv_all_nth)
qed

lemma sim_step_inv: "sim_step s s' \<Longrightarrow> sim_inv s \<Longrightarrow> sim_inv s'"
proof (induction rule: sim_step.induct)
  case (set_temperature t s)
  then show ?case by (simp add: sim_inv_def)
next
  case (frame s ps')
  then show ?case using frame_inv [of "particlesRef s" "tempRef s" ps'] by (simp add: sim_inv_def)
qed


subsection \<open>Properties\<close>

text \<open>
  C1. In every reachable state of the component the ensemble has exactly
  \<open>numParticles\<close> particles, all of radius 5, the temperature is in the
  slider's range, and every centre lies in the box \<open>[-240, 640]\<^sup>2\<close>: the
  walls and the bounded separation keep particles from escaping arbitrarily far.
\<close>

theorem sim_reachable_inv: "sim_reachable s \<Longrightarrow> sim_inv s"
proof (induction rule: sim_reachable.induct)
  case (mount t rnd ps)
  then show ?case using initParticles_inv [OF mount(2,3)] by (simp add: sim_inv_def)
next
  case (step s s')
  from step.hyps(2) step.IH show ?case by (rule sim_step_inv)
qed

theorem sim_reachable_inv_witness:
  "sim_reachable \<lparr>tempRef = 300, particlesRef = map (\<lambda>i. initParticle 300 (0, 0, 0)) [0..<numParticles]\<rparr>
   \<and> sim_inv \<lparr>tempRef = 300, particlesRef = map (\<lambda>i. initParticle 300 (0, 0, 0)) [0..<numParticles]\<rparr>"
proof -
  have r: "sim_reachable \<lparr>tempRef = 300, particlesRef = map (\<lambda>i. initParticle 300 (0, 0, 0)) [0..<numParticles]\<rparr>"
    by (rule sim_reachable.mount [where rnd = "\<lambda>_. (0, 0, 0)"])
       (simp_all add: slider_range_def random_unit_def initParticles_def)
  then show ?thesis using sim_reachable_inv [OF r] by simp
qed

theorem updateParticles_mean_speed_witness:
  "updateParticles 4 [\<lparr>x = 200, y = 200, vx = 3, vy = 4, radius = 5\<rparr>]
     = Inr [\<lparr>x = 203, y = 204, vx = 3 / 5, vy = 4 / 5, radius = 5\<rparr>]
   \<and> (meanSpeed [\<lparr>x = 203, y = 204, vx = 3 / 5, vy = 4 / 5, radius = 5\<rparr>] = baseSpeedFactor * sqrt 4
      \<or> at_rest [\<lparr>x = 203, y = 204, vx = 3 / 5, vy = 4 / 5, radius = 5\<rparr>])"
proof -
  have e: "updateParticles 4 [\<lparr>x = 200, y = 200, vx = 3, vy = 4, radius = 5\<rparr>]
             = Inr [\<lparr>x = 203, y = 204, vx = 3 / 5, vy = 4 / 5, radius = 5\<rparr>]"
    by (simp add: updateParticles_def Let_def wallCollisions_def updatePositions_def move_def
        wallCollide_def wallX_def wallY_def particleCollisions_def pairs_def
        thermostat_def speed_def model_consts sqrt_25)
  show ?thesis using e updateParticles_mean_speed [OF e] by simp
qed

text \<open>
  C3. The spec's wall containment ("after each step every position lies in
  \<open>[radius, W - radius]\<close>") does not hold of the code: the pair separation runs
  after the wall clamp, so a particle resting on the left wall and overlapped by a
  neighbour is pushed through the wall, here to \<open>x = 3/2 < 5\<close>.
\<close>

theorem updateParticles_breaks_containment:
  "let a = \<lparr>x = 5, y = 200, vx = 0, vy = 0, radius = 5\<rparr>;
       b = \<lparr>x = 8, y = 200, vx = 0, vy = 0, radius = 5\<rparr> in
   contained a \<and> contained b
   \<and> updateParticles 100 [a, b] = Inr [a\<lparr>x := 3 / 2\<rparr>, b\<lparr>x := 23 / 2\<rparr>]
   \<and> \<not> contained (a\<lparr>x := 3 / 2\<rparr>)"
  by (simp add: updateParticles_def Let_def wallCollisions_def updatePositions_def move_def
      wallCollide_def wallX_def wallY_def particleCollisions_def pairs_def collidePair_def
      handleCollision_def thermostat_def speed_def contained_def model_consts sqrt_9)


text \<open>
  C14. The spec's "no persistent interpenetration" fails: the pairs are resolved
  one after the other in a single pass, so a later separation can push a
  particle back into one resolved earlier. Three particles in a row end the
  frame with the first two only \<open>17/2 < 10\<close> apart.
\<close>

theorem updateParticles_leaves_overlap:
  "let a = \<lparr>x = 100, y = 200, vx = 0, vy = 0, radius = 5\<rparr>;
       b = \<lparr>x = 108, y = 200, vx = 0, vy = 0, radius = 5\<rparr>;
       c = \<lparr>x = 116, y = 200, vx = 0, vy = 0, radius = 5\<rparr> in
   updateParticles 100 [a, b, c] = Inr [a\<lparr>x := 99\<rparr>, b\<lparr>x := 215 / 2\<rparr>, c\<lparr>x := 235 / 2\<rparr>]
   \<and> centreDist (a\<lparr>x := 99\<rparr>) (b\<lparr>x := 215 / 2\<rparr>) < radius a + radius b"
proof -
  have s: "sqrt (64 :: real) = 8" "sqrt (289 :: real) = 17" "sqrt (49 :: real) = 7"
          "sqrt (289 / 4 :: real) = 17 / 2"
    by (rule real_sqrt_unique; simp add: power2_eq_square)+
  show ?thesis
    by (simp add: updateParticles_def Let_def wallCollisions_def updatePositions_def move_def
        wallCollide_def wallX_def wallY_def particleCollisions_def pairs_def collidePair_def
        handleCollision_def thermostat_def speed_def centreDist_def model_consts s)
qed

text \<open>
  C15. Every particle is created with speed \<open>baseSpeedFactor * sqrt T\<close> for the
  mount temperature \<open>T\<close>, whatever direction \<open>Math.random\<close> picks.
\<close>

theorem initParticles_speed:
  "initParticles T rnd = Inr ps \<Longrightarrow> \<forall>p \<in> set ps. speed p = baseSpeedFactor * sqrt T"
proof -
  assume init: "initParticles T rnd = Inr ps"
  then have T: "0 \<le> T" and ps: "ps = map (\<lambda>i. initParticle T (rnd i)) [0..<numParticles]"
    by (simp_all add: initParticles_def split: if_splits)
  have "speed (initParticle T r) = baseSpeedFactor * sqrt T" for r
  proof -
    obtain a b c where r: "r = (a, b, c)" by (cases r) auto
    let ?s = "baseSpeedFactor * sqrt T" and ?t = "c * 2 * pi"
    have "speed (initParticle T r) = sqrt ((cos ?t * ?s) * (cos ?t * ?s) + (sin ?t * ?s) * (sin ?t * ?s))"
      by (simp add: r initParticle_def speed_def Let_def algebra_simps)
    also have "\<dots> = \<bar>?s\<bar> * sqrt (cos ?t * cos ?t + sin ?t * sin ?t)"
      by (rule sqrt_sum_sq_scale)
    also have "\<dots> = ?s"
      using T by (simp add: baseSpeedFactor_def flip: power2_eq_square)
    finally show ?thesis .
  qed
  then show ?thesis by (simp add: ps)
qed

theorem initParticles_speed_witness:
  "initParticles 4 (\<lambda>_. (0, 0, 0)) = Inr (map (\<lambda>i. initParticle 4 (0, 0, 0)) [0..<numParticles])
   \<and> list_all (\<lambda>p. speed p = baseSpeedFactor * sqrt 4) (map (\<lambda>i. initParticle 4 (0, 0, 0)) [0..<numParticles])"
proof -
  have e: "initParticles 4 (\<lambda>_. (0, 0, 0)) = Inr (map (\<lambda>i. initParticle 4 (0, 0, 0)) [0..<numParticles])"
    by (simp add: initParticles_def)
  show ?thesis using initParticles_speed [OF e] e by (simp add: list_all_iff)
qed

text \<open>
  C16. A frame faults only where the JavaScript would compute \<open>NaN\<close>: a negative
  temperature on a non-empty ensemble (\<open>Math.sqrt\<close> at line 71), or a pair
  \<open>(i, j)\<close> of the loop, \<open>i < j < n\<close>, that overlaps with coincident centres in
  the ensemble the pass has produced when it reaches that pair (the \<open>0 / 0\<close>
  of lines 109--110).
\<close>

theorem updateParticles_fault:
  "updateParticles T ps = Inl e \<Longrightarrow>
   (e = NaN_speed \<and> ps \<noteq> [] \<and> T < 0)
   \<or> (\<exists>i j pre post qs. e = NaN_separation i j \<and> i < j \<and> j < length ps
        \<and> pairs (length ps) = pre @ (i, j) # post
        \<and> collideAll pre (wallCollisions (updatePositions ps)) = Inr qs
        \<and> x (qs ! i) = x (qs ! j) \<and> y (qs ! i) = y (qs ! j) \<and> 0 < radius (qs ! i) + radius (qs ! j))"
proof -
  assume f: "updateParticles T ps = Inl e"
  show ?thesis
  proof (cases "ps \<noteq> [] \<and> T < 0")
    case True
    with f show ?thesis by (simp add: updateParticles_def)
  next
    case False
    with f have "collideAll (pairs (length ps)) (wallCollisions (updatePositions ps)) = Inl e"
      by (auto simp: updateParticles_def particleCollisions_def Let_def split: sum.splits)
    from collideAll_fault_at [OF this] obtain pre i j post qs
      where p: "pairs (length ps) = pre @ (i, j) # post"
        and q: "collideAll pre (wallCollisions (updatePositions ps)) = Inr qs"
        and c: "collidePair i j qs = Inl e" by blast
    have "(i, j) \<in> set (pairs (length ps))" unfolding p by simp
    then have "i < j \<and> j < length ps" by (simp add: set_pairs)
    with p q collidePair_fault [OF c] show ?thesis by blast
  qed
qed

theorem updateParticles_fault_witness:
  "updateParticles 100 [\<lparr>x = 7, y = 7, vx = 1, vy = 0, radius = 5\<rparr>, \<lparr>x = 7, y = 7, vx = 1, vy = 0, radius = 5\<rparr>]
     = Inl (NaN_separation 0 1)
   \<and> (\<exists>i j pre post qs. NaN_separation 0 1 = NaN_separation i j \<and> i < j \<and> j < (2 :: nat)
        \<and> pairs 2 = pre @ (i, j) # post
        \<and> collideAll pre (wallCollisions (updatePositions
             [\<lparr>x = 7, y = 7, vx = 1, vy = 0, radius = 5\<rparr>, \<lparr>x = 7, y = 7, vx = 1, vy = 0, radius = 5\<rparr>])) = Inr qs
        \<and> x (qs ! i) = x (qs ! j) \<and> y (qs ! i) = y (qs ! j) \<and> 0 < radius (qs ! i) + radius (qs ! j))"
proof -
  have e: "updateParticles 100 [\<lparr>x = 7, y = 7, vx = 1, vy = 0, radius = 5\<rparr>, \<lparr>x = 7, y = 7, vx = 1, vy = 0, radius = 5\<rparr>]
     = Inl (NaN_separation 0 1)"
    by (simp add: updateParticles_def Let_def wallCollisions_def updatePositions_def move_def
        wallCollide_def wallX_def wallY_def particleCollisions_def pairs_def collidePair_def model_consts)
  show ?thesis using updateParticles_fault [OF e] e by (simp add: numeral_2_eq_2)
qed

end
