(* ===== verification/Canvas.thy ===== *)
theory Canvas
  imports Kinetics
begin

text \<open>
  The animation of \<open>src/src/components/SimulationCanvas.js\<close>: what one frame
  draws (lines 63--68 and 133--151) and how the frames are scheduled
  (\<open>requestAnimationFrame\<close> at lines 154 and 157, \<open>cancelAnimationFrame\<close> in
  the cleanup at line 158). The canvas is the list of drawing commands of the
  last frame; colours, gradient stops and shadows are constant styling and
  are not modelled. The browser's frame queue is a list of request handles;
  \<open>animationRef.current\<close> is the last handle requested. A frame whose
  update computes \<open>NaN\<close> is recorded as a fault: the JavaScript goes on
  animating \<open>NaN\<close> positions, the model stops following the particles.
\<close>

datatype canvasCmd =
    ClearRect real real real real
  | FillRect real real real real
  | StrokeRect real real real real
  | FillDisc real real real real

subsection \<open>One frame\<close>

definition drawBackground :: "canvasCmd list" where
  "drawBackground = [ClearRect 0 0 width height, FillRect 0 0 width height, StrokeRect 0 0 width height]"

text \<open>A disc of the particle's radius, filled with a radial gradient from \<open>0.2 r\<close> to \<open>r\<close>.\<close>

definition drawParticle :: "particle \<Rightarrow> canvasCmd" where
  "drawParticle p = FillDisc (x p) (y p) (radius p * 0.2) (radius p)"

definition drawFrame :: "ensemble \<Rightarrow> canvasCmd list" where
  "drawFrame ps = drawBackground @ map drawParticle ps"

text \<open>The callback \<open>updateParticles\<close> of lines 62--155: background, update, particles.\<close>

definition animationFrame :: "temperature \<Rightarrow> ensemble \<Rightarrow> fault + ensemble \<times> canvasCmd list" where
  "animationFrame currentTemp particles =
     (case updateParticles currentTemp particles of
        Inl e \<Rightarrow> Inl e
      | Inr ps' \<Rightarrow> Inr (ps', drawFrame ps'))"

subsection \<open>Scheduling\<close>

datatype phase = Fresh | Running | Stopped

record canvasState =
  cvSim :: sim
  animationRef :: nat
  rafQueue :: "nat list"
  nextHandle :: nat
  phase :: phase
  canvas :: "canvasCmd list"
  faulted :: "fault option"

definition requestFrame :: "canvasState \<Rightarrow> canvasState" where
  "requestFrame s =
     s\<lparr>rafQueue := rafQueue s @ [nextHandle s], animationRef := nextHandle s, nextHandle := Suc (nextHandle s)\<rparr>"

definition cancelFrame :: "nat \<Rightarrow> canvasState \<Rightarrow> canvasState" where
  "cancelFrame h s = s\<lparr>rafQueue := removeAll h (rafQueue s)\<rparr>"

definition runFrame :: "canvasState \<Rightarrow> canvasState" where
  "runFrame s =
     (if faulted s \<noteq> None then s
      else case animationFrame (tempRef (cvSim s)) (particlesRef (cvSim s)) of
        Inl e \<Rightarrow> s\<lparr>faulted := Some e\<rparr>
      | Inr (ps', cmds) \<Rightarrow> s\<lparr>cvSim := (cvSim s)\<lparr>particlesRef := ps'\<rparr>, canvas := cmds\<rparr>)"

text \<open>The browser fires the oldest pending request; the callback ends by requesting the next frame.\<close>

definition fireFrame :: "canvasState \<Rightarrow> canvasState option" where
  "fireFrame s =
     (case rafQueue s of
        [] \<Rightarrow> None
      | h # q \<Rightarrow> Some (requestFrame (runFrame (s\<lparr>rafQueue := q\<rparr>))))"

fun fireFrames :: "nat \<Rightarrow> canvasState \<Rightarrow> canvasState option" where
  "fireFrames 0 s = Some s"
| "fireFrames (Suc n) s = (case fireFrame s of None \<Rightarrow> None | Some s' \<Rightarrow> fireFrames n s')"

text \<open>Before mounting: the refs' initial values (\<open>useRef(null)\<close> is handle 0).\<close>

definition canvasInit :: "temperature \<Rightarrow> canvasState" where
  "canvasInit temperature =
     \<lparr>cvSim = \<lparr>tempRef = temperature, particlesRef = []\<rparr>, animationRef = 0, rafQueue = [],
      nextHandle = 1, phase = Fresh, canvas = [], faulted = None\<rparr>"

text \<open>
  Mounting runs the effects in order: the particles are created (lines 22--37)
  and the first frame is requested (line 157). Unmounting runs the cleanup.
\<close>

inductive canvas_step :: "canvasState \<Rightarrow> canvasState \<Rightarrow> bool" where
  mount: "phase s = Fresh \<Longrightarrow> random_unit rnd \<Longrightarrow>
          initEffect (particlesRef (cvSim s)) (tempRef (cvSim s)) rnd = Inr ps \<Longrightarrow>
          canvas_step s (requestFrame (s\<lparr>cvSim := (cvSim s)\<lparr>particlesRef := ps\<rparr>, phase := Running\<rparr>))"
| fire: "fireFrame s = Some s' \<Longrightarrow> canvas_step s s'"
| temperature: "slider_range t \<Longrightarrow> canvas_step s (s\<lparr>cvSim := (cvSim s)\<lparr>tempRef := t\<rparr>\<rparr>)"
| unmount: "phase s = Running \<Longrightarrow> canvas_step s ((cancelFrame (animationRef s) s)\<lparr>phase := Stopped\<rparr>)"

inductive canvas_reachable :: "canvasState \<Rightarrow> bool" where
  init: "slider_range t \<Longrightarrow> canvas_reachable (canvasInit t)"
| step: "canvas_reachable s \<Longrightarrow> canvas_step s s' \<Longrightarrow> canvas_reachable s'"

definition canvas_inv :: "canvasState \<Rightarrow> bool" where
  "canvas_inv s \<longleftrightarrow>
     rafQueue s = (if phase s = Running then [animationRef s] else [])
     \<and> slider_range (tempRef (cvSim s))
     \<and> (phase s = Fresh \<longrightarrow> particlesRef (cvSim s) = [] \<and> canvas s = [] \<and> faulted s = None)
     \<and> (phase s \<noteq> Fresh \<longrightarrow> sim_inv (cvSim s))
     \<and> (faulted s = None \<longrightarrow> canvas s = [] \<or> canvas s = drawFrame (particlesRef (cvSim s)))"

text \<open>A disc of the picture with the particle's radius 5, centred in the arena of \<open>sim_inv\<close>.\<close>

fun discInArena :: "canvasCmd \<Rightarrow> bool" where
  "discInArena (FillDisc cx cy r0 r) \<longleftrightarrow> r = 5 \<and> r0 = 1 \<and> -240 \<le> cx \<and> cx \<le> 640 \<and> -240 \<le> cy \<and> cy \<le> 640"
| "discInArena _ \<longleftrightarrow> False"

subsection \<open>Lemmas\<close>

lemma runFrame_fields [simp]:
  "rafQueue (runFrame s) = rafQueue s" "phase (runFrame s) = phase s"
  "animationRef (runFrame s) = animationRef s" "nextHandle (runFrame s) = nextHandle s"
  "tempRef (cvSim (runFrame s)) = tempRef (cvSim s)"
  by (simp_all add: runFrame_def animationFrame_def split: sum.splits prod.splits)

lemma fireFrame_Some:
  "fireFrame s = Some s' \<Longrightarrow> \<exists>h q. rafQueue s = h # q \<and> s' = requestFrame (runFrame (s\<lparr>rafQueue := q\<rparr>))"
  by (auto simp: fireFrame_def split: list.splits)

lemma runFrame_inv:
  assumes "sim_inv (cvSim s)"
  shows "sim_inv (cvSim (runFrame s))
         \<and> (faulted (runFrame s) = None \<longrightarrow> faulted s = None \<and>
              canvas (runFrame s) = drawFrame (particlesRef (cvSim (runFrame s))))"
proof (cases "faulted s = None")
  case True
  show ?thesis
  proof (cases "updateParticles (tempRef (cvSim s)) (particlesRef (cvSim s))")
    case (Inl e)
    with True assms show ?thesis by (simp add: runFrame_def animationFrame_def)
  next
    case (Inr ps')
    have "length ps' = numParticles \<and> (\<forall>p \<in> set ps'. radius p = 5 \<and> in_arena p)"
      using assms Inr by (intro frame_inv) (simp_all add: sim_inv_def)
    with True assms Inr show ?thesis by (simp add: runFrame_def animationFrame_def sim_inv_def)
  qed
next
  case False
  then have "runFrame s = s" by (simp add: runFrame_def)
  with False assms show ?thesis by auto
qed

lemma canvas_inv_init: "slider_range t \<Longrightarrow> canvas_inv (canvasInit t)"
  by (simp add: canvas_inv_def canvasInit_def)

lemma canvas_step_inv: "canvas_step s s' \<Longrightarrow> canvas_inv s \<Longrightarrow> canvas_inv s'"
proof (induction rule: canvas_step.induct)
  case (mount s rnd ps)
  then have "particlesRef (cvSim s) = []" "rafQueue s = []" "slider_range (tempRef (cvSim s))"
    by (simp_all add: canvas_inv_def)
  with mount.hyps(3) have "initParticles (tempRef (cvSim s)) rnd = Inr ps" by (simp add: initEffect_def)
  from initParticles_inv [OF mount.hyps(2) this] mount.prems mount.hyps(1)
  show ?case by (simp add: canvas_inv_def requestFrame_def sim_inv_def \<open>rafQueue s = []\<close>
                           \<open>slider_range (tempRef (cvSim s))\<close>)
next
  case (fire s s')
  from fireFrame_Some [OF fire.hyps] obtain h q where
    hq: "rafQueue s = h # q" and s': "s' = requestFrame (runFrame (s\<lparr>rafQueue := q\<rparr>))" by blast
  with fire.prems have run: "phase s = Running" and q: "q = []"
    by (auto simp: canvas_inv_def split: if_splits)
  with fire.prems have si: "sim_inv (cvSim (s\<lparr>rafQueue := q\<rparr>))" by (simp add: canvas_inv_def)
  note r = runFrame_inv [OF si]
  show ?case
    using r run q fire.prems by (auto simp: s' canvas_inv_def requestFrame_def sim_inv_def)
next
  case (temperature t s)
  then show ?case by (auto simp: canvas_inv_def sim_inv_def)
next
  case (unmount s)
  then show ?case by (simp add: canvas_inv_def cancelFrame_def)
qed

lemma canvas_inv_reachable: "canvas_reachable s \<Longrightarrow> canvas_inv s"
proof (induction rule: canvas_reachable.induct)
  case (init t)
  then show ?case by (rule canvas_inv_init)
next
  case (step s s')
  from step.hyps(2) step.IH show ?case by (rule canvas_step_inv)
qed

lemma fireFrame_running:
  assumes "canvas_inv s" and "phase s = Running"
  shows "\<exists>s'. fireFrame s = Some s' \<and> phase s' = Running"
  using assms by (simp add: canvas_inv_def fireFrame_def requestFrame_def)

lemma mounted_example_reachable:
  "canvas_reachable (requestFrame ((canvasInit 300)\<lparr>cvSim := \<lparr>tempRef = 300, particlesRef = map (\<lambda>i. initParticle 300 (0, 0, 0)) [0..<numParticles]\<rparr>, phase := Running\<rparr>))"
proof -
  have i: "canvas_reachable (canvasInit 300)" by (rule canvas_reachable.init) (simp add: slider_range_def)
  have rnd: "random_unit (\<lambda>_. (0, 0, 0))" by (simp add: random_unit_def)
  have "initEffect (particlesRef (cvSim (canvasInit 300))) (tempRef (cvSim (canvasInit 300))) (\<lambda>_. (0, 0, 0))
        = Inr (map (\<lambda>i. initParticle 300 (0, 0, 0)) [0..<numParticles])"
    by (simp add: initEffect_def initParticles_def canvasInit_def)
  from canvas_step.mount [OF _ rnd this] have "canvas_step (canvasInit 300) (requestFrame ((canvasInit 300)\<lparr>cvSim := \<lparr>tempRef = 300, particlesRef = map (\<lambda>i. initParticle 300 (0, 0, 0)) [0..<numParticles]\<rparr>, phase := Running\<rparr>))"
    by (simp add: canvasInit_def)
  with i show ?thesis by (rule canvas_reachable.step)
qed

subsection \<open>Properties\<close>

text \<open>
  C34. In every reachable state of the animation (created at a slider
  temperature, then mounting, frames, temperature changes and unmounting in
  any order) the browser holds exactly one frame request while the component
  is mounted, the one \<open>animationRef\<close> names, and none otherwise; the
  simulation keeps its invariant once mounted; and, unless a frame faulted,
  the canvas is blank or shows the current particles.
\<close>

theorem canvas_reachable_inv: "canvas_reachable s \<Longrightarrow> canvas_inv s"
  by (rule canvas_inv_reachable)

theorem canvas_reachable_inv_witness:
  "canvas_reachable (requestFrame ((canvasInit 300)\<lparr>cvSim := \<lparr>tempRef = 300, particlesRef = map (\<lambda>i. initParticle 300 (0, 0, 0)) [0..<numParticles]\<rparr>, phase := Running\<rparr>)) \<and> canvas_inv (requestFrame ((canvasInit 300)\<lparr>cvSim := \<lparr>tempRef = 300, particlesRef = map (\<lambda>i. initParticle 300 (0, 0, 0)) [0..<numParticles]\<rparr>, phase := Running\<rparr>))"
  using canvas_reachable_inv [OF mounted_example_reachable] mounted_example_reachable by simp

text \<open>
  C35. The animation never stops by itself: from every reachable state of a
  mounted component, any number of frames can fire one after the other, each
  callback requesting the next, and the component stays mounted.
\<close>

theorem animation_continues:
  "canvas_reachable s \<Longrightarrow> phase s = Running \<Longrightarrow>
   \<exists>s'. fireFrames n s = Some s' \<and> phase s' = Running \<and> canvas_reachable s'"
proof (induction n arbitrary: s)
  case 0
  then show ?case by simp
next
  case (Suc n)
  from fireFrame_running [OF canvas_inv_reachable [OF Suc.prems(1)] Suc.prems(2)]
  obtain s1 where s1: "fireFrame s = Some s1" "phase s1 = Running" by blast
  have "canvas_reachable s1" using Suc.prems(1) canvas_step.fire [OF s1(1)] by (rule canvas_reachable.step)
  from Suc.IH [OF this s1(2)] s1(1) show ?case by simp
qed

theorem animation_continues_witness:
  "canvas_reachable (requestFrame ((canvasInit 300)\<lparr>cvSim := \<lparr>tempRef = 300, particlesRef = map (\<lambda>i. initParticle 300 (0, 0, 0)) [0..<numParticles]\<rparr>, phase := Running\<rparr>)) \<and> phase (requestFrame ((canvasInit 300)\<lparr>cvSim := \<lparr>tempRef = 300, particlesRef = map (\<lambda>i. initParticle 300 (0, 0, 0)) [0..<numParticles]\<rparr>, phase := Running\<rparr>)) = Running
   \<and> (\<exists>s'. fireFrames 3 (requestFrame ((canvasInit 300)\<lparr>cvSim := \<lparr>tempRef = 300, particlesRef = map (\<lambda>i. initParticle 300 (0, 0, 0)) [0..<numParticles]\<rparr>, phase := Running\<rparr>)) = Some s' \<and> phase s' = Running)"
  using animation_continues [OF mounted_example_reachable, of 3] mounted_example_reachable
  by (auto simp: requestFrame_def)

text \<open>
  C36. After unmounting, the cleanup has cancelled the pending request: no
  frame can fire, and every further step (only temperature changes remain)
  leaves the component unmounted.
\<close>

theorem no_frame_after_unmount:
  "canvas_reachable s \<Longrightarrow> phase s = Stopped \<Longrightarrow> canvas_step s s' \<Longrightarrow>
   fireFrame s = None \<and> phase s' = Stopped \<and> fireFrame s' = None"
proof -
  assume r: "canvas_reachable s" and st: "phase s = Stopped" and step: "canvas_step s s'"
  have q: "rafQueue s = []" using canvas_inv_reachable [OF r] st by (simp add: canvas_inv_def)
  have r': "canvas_reachable s'" using r step by (rule canvas_reachable.step)
  from step st q have st': "phase s' = Stopped"
    by (cases rule: canvas_step.cases) (simp_all add: fireFrame_def)
  have "rafQueue s' = []" using canvas_inv_reachable [OF r'] st' by (simp add: canvas_inv_def)
  with q st' show ?thesis by (simp add: fireFrame_def)
qed

theorem no_frame_after_unmount_witness:
  "canvas_reachable ((cancelFrame (animationRef (requestFrame ((canvasInit 300)\<lparr>cvSim := \<lparr>tempRef = 300, particlesRef = map (\<lambda>i. initParticle 300 (0, 0, 0)) [0..<numParticles]\<rparr>, phase := Running\<rparr>))) (requestFrame ((canvasInit 300)\<lparr>cvSim := \<lparr>tempRef = 300, particlesRef = map (\<lambda>i. initParticle 300 (0, 0, 0)) [0..<numParticles]\<rparr>, phase := Running\<rparr>)))\<lparr>phase := Stopped\<rparr>)
   \<and> fireFrame ((cancelFrame (animationRef (requestFrame ((canvasInit 300)\<lparr>cvSim := \<lparr>tempRef = 300, particlesRef = map (\<lambda>i. initParticle 300 (0, 0, 0)) [0..<numParticles]\<rparr>, phase := Running\<rparr>))) (requestFrame ((canvasInit 300)\<lparr>cvSim := \<lparr>tempRef = 300, particlesRef = map (\<lambda>i. initParticle 300 (0, 0, 0)) [0..<numParticles]\<rparr>, phase := Running\<rparr>)))\<lparr>phase := Stopped\<rparr>) = None"
proof -
  let ?u = "(cancelFrame (animationRef (requestFrame ((canvasInit 300)\<lparr>cvSim := \<lparr>tempRef = 300, particlesRef = map (\<lambda>i. initParticle 300 (0, 0, 0)) [0..<numParticles]\<rparr>, phase := Running\<rparr>))) (requestFrame ((canvasInit 300)\<lparr>cvSim := \<lparr>tempRef = 300, particlesRef = map (\<lambda>i. initParticle 300 (0, 0, 0)) [0..<numParticles]\<rparr>, phase := Running\<rparr>)))\<lparr>phase := Stopped\<rparr>"
  have "canvas_step (requestFrame ((canvasInit 300)\<lparr>cvSim := \<lparr>tempRef = 300, particlesRef = map (\<lambda>i. initParticle 300 (0, 0, 0)) [0..<numParticles]\<rparr>, phase := Running\<rparr>)) ?u" by (rule canvas_step.unmount) (simp add: requestFrame_def)
  with mounted_example_reachable have r: "canvas_reachable ?u" by (rule canvas_reachable.step)
  have "canvas_step ?u (?u\<lparr>cvSim := (cvSim ?u)\<lparr>tempRef := 400\<rparr>\<rparr>)"
    by (rule canvas_step.temperature) (simp add: slider_range_def)
  from no_frame_after_unmount [OF r _ this] r show ?thesis by simp
qed

text \<open>
  C37. What a frame shows: unless a frame faulted, the canvas of a reachable
  state is blank or consists of the background (three commands) and exactly
  one disc per particle, each of radius 5 with a gradient from radius 1,
  centred in the arena \<open>[-240, 640]\<^sup>2\<close>.
\<close>

theorem canvas_picture:
  "canvas_reachable s \<Longrightarrow> faulted s = None \<Longrightarrow>
   canvas s = [] \<or> (canvas s = drawFrame (particlesRef (cvSim s)) \<and> length (canvas s) = 3 + numParticles
                    \<and> list_all discInArena (drop 3 (canvas s)))"
proof -
  assume r: "canvas_reachable s" and f: "faulted s = None"
  note inv = canvas_inv_reachable [OF r]
  show ?thesis
  proof (cases "canvas s = []")
    case False
    with inv f have c: "canvas s = drawFrame (particlesRef (cvSim s))" and nf: "phase s \<noteq> Fresh"
      by (auto simp: canvas_inv_def)
    from inv nf have "sim_inv (cvSim s)" by (simp add: canvas_inv_def)
    then have "length (particlesRef (cvSim s)) = numParticles"
      and "\<forall>p \<in> set (particlesRef (cvSim s)). radius p = 5 \<and> in_arena p" by (simp_all add: sim_inv_def)
    with c show ?thesis
      by (auto simp: drawFrame_def drawBackground_def drawParticle_def list_all_iff in_arena_def)
  qed simp
qed

theorem canvas_picture_witness:
  "canvas_reachable (requestFrame ((canvasInit 300)\<lparr>cvSim := \<lparr>tempRef = 300, particlesRef = map (\<lambda>i. initParticle 300 (0, 0, 0)) [0..<numParticles]\<rparr>, phase := Running\<rparr>)) \<and> faulted (requestFrame ((canvasInit 300)\<lparr>cvSim := \<lparr>tempRef = 300, particlesRef = map (\<lambda>i. initParticle 300 (0, 0, 0)) [0..<numParticles]\<rparr>, phase := Running\<rparr>)) = None \<and> canvas (requestFrame ((canvasInit 300)\<lparr>cvSim := \<lparr>tempRef = 300, particlesRef = map (\<lambda>i. initParticle 300 (0, 0, 0)) [0..<numParticles]\<rparr>, phase := Running\<rparr>)) = []"
  using canvas_picture [OF mounted_example_reachable] mounted_example_reachable
  by (simp add: requestFrame_def canvasInit_def)

end
