(* ===== verification/Distribution.thy ===== *)
theory Distribution
  imports Prelude
begin

text \<open>
  The energy-distribution model of \<open>src/src/components/MBDistributionChart.js\<close>
  (lines 75--102): the fixed energy grid \<open>0, 1, \<dots>, 600\<close>, the effective
  temperature \<open>T_eff = 0.5 T + 50\<close>, and the modified Maxwell--Boltzmann density
  \<open>mbDistribution\<close> with its \<open>T_eff \<le> 0\<close> guard. \<open>Math.pow(b, 1.5)\<close> with a
  positive base is \<open>b powr 1.5\<close>; \<open>Math.sqrt\<close>, \<open>Math.exp\<close> and \<open>Math.PI\<close> are
  \<open>sqrt\<close>, \<open>exp\<close> and \<open>pi\<close>. The density is only evaluated at non-negative
  energies (the grid, and the mean energy, see \<open>Summary\<close>); there JavaScript's
  \<open>Math.sqrt\<close> and HOL's \<open>sqrt\<close> agree.
\<close>

definition N :: nat where [model_consts]: "N = 600"
definition totalParticles :: real where [model_consts]: "totalParticles = 50"
definition sharpness :: real where [model_consts]: "sharpness = 2"

text \<open>\<open>Array.from({length: N + 1}, (_, i) => i)\<close> (lines 77--80).\<close>

definition energies :: "energy list" where
  "energies = map real [0..<Suc N]"

definition effectiveTemperature :: "temperature \<Rightarrow> real" where
  "effectiveTemperature T = 0.5 * T + 50"

definition mbDistribution :: "energy \<Rightarrow> temperature \<Rightarrow> real" where
  "mbDistribution E T =
     (let T_eff = effectiveTemperature T in
      if T_eff \<le> 0 then 0
      else
        let norm = (2 / sqrt pi) * (sharpness / T_eff) powr 1.5 in
        0.72 * norm * sqrt E * exp (- E / T_eff) * totalParticles)"

text \<open>\<open>energies.map((E) => ({x: E, y: mbDistribution(E, T)}))\<close> (lines 115, 133--136, 238--241).\<close>

definition dynamicData :: "temperature \<Rightarrow> energy_point list" where
  "dynamicData T = map (\<lambda>E. (E, mbDistribution E T)) energies"

subsection \<open>The shape of the density\<close>

text \<open>
  Up to a positive factor the density is \<open>g a E = sqrt E * exp (- E / a)\<close> with
  \<open>a = T_eff\<close>; \<open>g a\<close> has its unique maximum over \<open>E \<ge> 0\<close> at \<open>E = a / 2\<close>.
\<close>

definition shape :: "real \<Rightarrow> real \<Rightarrow> real" where
  "shape a E = sqrt E * exp (- E / a)"

definition densityFactor :: "real \<Rightarrow> real" where
  "densityFactor a = 0.72 * ((2 / sqrt pi) * (sharpness / a) powr 1.5) * totalParticles"

lemma mbDistribution_shape:
  "0 < effectiveTemperature T \<Longrightarrow>
   mbDistribution E T = densityFactor (effectiveTemperature T) * shape (effectiveTemperature T) E"
  by (simp add: mbDistribution_def densityFactor_def shape_def Let_def ac_simps)

lemma densityFactor_pos: "0 < a \<Longrightarrow> 0 < densityFactor a"
  by (simp add: densityFactor_def model_consts)

lemma mbDistribution_guard_eq:
  "effectiveTemperature T \<le> 0 \<Longrightarrow> mbDistribution E T = 0"
  by (simp add: mbDistribution_def)

lemma effectiveTemperature_pos_iff: "0 < effectiveTemperature T \<longleftrightarrow> -100 < T"
  unfolding effectiveTemperature_def by linarith

lemma shape_nonneg: "0 \<le> E \<Longrightarrow> 0 \<le> shape a E"
  by (simp add: shape_def)

lemma shape_pos: "0 < E \<Longrightarrow> 0 < shape a E"
  by (simp add: shape_def)

lemma shape_0 [simp]: "shape a 0 = 0"
  by (simp add: shape_def)

text \<open>\<open>u < exp (u - 1)\<close> for \<open>u > 0\<close>, \<open>u \<noteq> 1\<close>: the strict form of \<open>ln u \<le> u - 1\<close>.\<close>

lemma lt_exp_minus_one:
  assumes "0 < u" and "u \<noteq> 1"
  shows "u < exp (u - (1 :: real))"
proof -
  have "ln u \<le> u - 1" using assms(1) by (rule ln_le_minus_one)
  moreover have "ln u \<noteq> u - 1" using assms ln_eq_minus_one by blast
  ultimately have "ln u < u - 1" by simp
  then have "exp (ln u) < exp (u - 1)" by simp
  with assms(1) show ?thesis by simp
qed

lemma shape_sq:
  "0 \<le> E \<Longrightarrow> (shape a E)\<^sup>2 = E * exp (- 2 * E / a)"
proof -
  assume "0 \<le> E"
  then have "(shape a E)\<^sup>2 = E * (exp (- E / a) * exp (- E / a))"
    by (simp add: shape_def power_mult_distrib power2_eq_square)
  also have "exp (- E / a) * exp (- E / a) = exp (- 2 * E / a)"
    by (simp flip: exp_add)
  finally show ?thesis .
qed

lemma u_exp_neg_lt: "0 < u \<Longrightarrow> u \<noteq> 1 \<Longrightarrow> u * exp (- u) < exp (- (1 :: real))"
proof -
  assume u: "0 < u" "u \<noteq> 1"
  have "u * exp (- u) < exp (u - 1) * exp (- u)"
    using lt_exp_minus_one [OF u] by simp
  also have "\<dots> = exp (- 1)"
    by (simp flip: exp_add)
  finally show ?thesis .
qed

lemma shape_sq_scaled:
  "0 < a \<Longrightarrow> 0 \<le> E \<Longrightarrow> a / 2 * ((2 * E / a) * exp (- (2 * E / a))) = (shape a E)\<^sup>2"
  by (simp add: shape_sq)

lemma shape_sq_peak: "0 < a \<Longrightarrow> a / 2 * exp (- 1) = (shape a (a / 2))\<^sup>2"
  by (simp add: shape_sq)

lemma shape_unique_max:
  assumes "0 < a" and "0 \<le> E" and "E \<noteq> a / 2"
  shows "shape a E < shape a (a / 2)"
proof (cases "E = 0")
  case True
  with assms(1) show ?thesis by (simp add: shape_pos)
next
  case False
  have u: "0 < 2 * E / a" "2 * E / a \<noteq> 1"
    using assms False by (auto simp: field_simps)
  have "a / 2 * ((2 * E / a) * exp (- (2 * E / a))) < a / 2 * exp (- 1)"
    by (rule mult_strict_left_mono [OF u_exp_neg_lt [OF u]]) (simp add: assms(1))
  then have "(shape a E)\<^sup>2 < (shape a (a / 2))\<^sup>2"
    by (simp only: shape_sq_scaled [OF assms(1,2)] shape_sq_peak [OF assms(1)])
  moreover have "0 \<le> shape a (a / 2)"
    using assms(1) by (simp add: shape_nonneg)
  ultimately show ?thesis
    by (simp add: power_less_imp_less_base)
qed


lemma mbDistribution_nonneg: "0 \<le> E \<Longrightarrow> 0 \<le> mbDistribution E T"
proof (cases "0 < effectiveTemperature T")
  case True
  assume "0 \<le> E"
  then show ?thesis
    using True by (simp add: mbDistribution_shape densityFactor_pos shape_nonneg less_imp_le)
next
  case False
  then show ?thesis by (simp add: mbDistribution_guard_eq)
qed

lemma mbDistribution_pos_aux: "0 < E \<Longrightarrow> -100 < T \<Longrightarrow> 0 < mbDistribution E T"
  by (simp add: mbDistribution_shape effectiveTemperature_pos_iff densityFactor_pos shape_pos)

lemma set_energies: "set energies = real ` {0..N}"
  by (auto simp: energies_def)

lemma energies_nonneg: "E \<in> set energies \<Longrightarrow> 0 \<le> E"
  by (auto simp: energies_def)

lemma energies_le_N: "E \<in> set energies \<Longrightarrow> E \<le> 600"
  by (auto simp: energies_def N_def)

lemma dynamicData_nonneg: "pt \<in> set (dynamicData T) \<Longrightarrow> 0 \<le> snd pt"
  using energies_nonneg mbDistribution_nonneg by (auto simp: dynamicData_def)

text \<open>The density has its unique maximum over the non-negative energies at \<open>T_eff / 2\<close>.\<close>

lemma mbDistribution_unique_peak:
  assumes "-100 < T" and "0 \<le> E" and "E \<noteq> effectiveTemperature T / 2"
  shows "mbDistribution E T < mbDistribution (effectiveTemperature T / 2) T"
proof -
  have a: "0 < effectiveTemperature T" using assms(1) by (simp add: effectiveTemperature_pos_iff)
  have "shape (effectiveTemperature T) E < shape (effectiveTemperature T) (effectiveTemperature T / 2)"
    using shape_unique_max [OF a assms(2,3)] .
  then show ?thesis
    using a densityFactor_pos [OF a] by (simp add: mbDistribution_shape)
qed

subsection \<open>Properties\<close>

text \<open>
  The generated curve has one point per grid energy \<open>0, 1, \<dots>, 600\<close>, the
  \<open>i\<close>-th being \<open>(i, mbDistribution i T)\<close>, and no point has a negative density,
  whatever the temperature (the \<open>T_eff \<le> 0\<close> guard returns 0).
\<close>

theorem dynamicData_points:
  "length (dynamicData T) = 601
   \<and> (\<forall>i < 601. dynamicData T ! i = (real i, mbDistribution (real i) T))
   \<and> list_all (\<lambda>pt. 0 \<le> snd pt) (dynamicData T)"
  using dynamicData_nonneg [of _ T]
  by (auto simp: dynamicData_def energies_def N_def list_all_iff)

theorem dynamicData_points_witness:
  "length (dynamicData 300) = 601 \<and> dynamicData 300 ! 100 = (100, mbDistribution 100 300)"
  using dynamicData_points [of 300] by simp

text \<open>
  For every temperature whose effective temperature is positive the density
  vanishes exactly at \<open>E = 0\<close> (the \<open>sqrt E\<close> factor) and is strictly
  positive at every positive energy.
\<close>

theorem mbDistribution_zero_iff:
  "-100 < T \<Longrightarrow> 0 \<le> E \<Longrightarrow> mbDistribution E T = 0 \<longleftrightarrow> E = 0"
proof -
  assume T: "-100 < T" and E: "0 \<le> E"
  show ?thesis
  proof
    assume z: "mbDistribution E T = 0"
    show "E = 0"
    proof (rule ccontr)
      assume "E \<noteq> 0"
      with E have "0 < E" by simp
      with T z show False using mbDistribution_pos_aux [of E T] by simp
    qed
  next
    assume "E = 0"
    with T show "mbDistribution E T = 0"
      by (simp add: mbDistribution_shape effectiveTemperature_pos_iff)
  qed
qed

theorem mbDistribution_zero_iff_witness:
  "-100 < (300 :: real) \<and> 0 \<le> (1 :: real) \<and> (mbDistribution 1 300 = 0 \<longleftrightarrow> (1 :: real) = 0)"
  using mbDistribution_zero_iff [of 300 1] by simp

end
