(* ===== verification/Fixed.thy ===== *)
theory Fixed
  imports Prelude
begin

text \<open>
  \<open>Number.prototype.toFixed(2)\<close>, which \<open>handleRecordData\<close>
  (\<open>src/src/components/MBDistributionChart.js\<close>, lines 260--261) applies to the
  percentage before storing it, modelled from the ECMAScript definition: the
  sign is taken first, then \<open>n\<close> is the integer nearest to \<open>100 |x|\<close>, the larger
  one on a tie, printed with at least one integer digit, a point and two
  decimals. \<open>toFixed2\<close> is the signed number of hundredths the string denotes;
  \<open>toFixedString\<close> the string. Numbers of magnitude \<open>10\<^sup>2\<^sup>1\<close> and more, which
  \<open>toFixed\<close> prints in exponent form, do not occur (the percentage is at most
  100) and are not modelled. The digit reader \<open>digitsValue\<close> is shared
  with \<open>parseFloat\<close> (theory \<open>App\<close>).
\<close>

definition toFixed2 :: "real \<Rightarrow> int" where
  "toFixed2 v = (if v < 0 then - round (- v * 100) else round (v * 100))"

subsection \<open>Printing\<close>

fun decDigits :: "nat \<Rightarrow> nat list" where
  "decDigits n = (if n < 10 then [n] else decDigits (n div 10) @ [n mod 10])"

declare decDigits.simps [simp del]

definition digitChar :: "nat \<Rightarrow> char" where
  "digitChar d = char_of (48 + d)"

definition showHundredths :: "nat \<Rightarrow> string" where
  "showHundredths n =
     map digitChar (decDigits (n div 100)) @ ''.'' @ [digitChar (n mod 100 div 10), digitChar (n mod 10)]"

definition toFixedString :: "real \<Rightarrow> string" where
  "toFixedString v = (if v < 0 then ''-'' else []) @ showHundredths (nat \<bar>toFixed2 v\<bar>)"

subsection \<open>Reading digits\<close>

definition isDigit :: "char \<Rightarrow> bool" where
  "isDigit c \<longleftrightarrow> 48 \<le> (of_char c :: nat) \<and> (of_char c :: nat) \<le> 57"

definition digitVal :: "char \<Rightarrow> nat" where
  "digitVal c = of_char c - 48"

definition digitsValue :: "string \<Rightarrow> nat" where
  "digitsValue cs = foldl (\<lambda>acc c. 10 * acc + digitVal c) 0 cs"

subsection \<open>Lemmas\<close>

lemma decDigits_small: "\<forall>d \<in> set (decDigits n). d < 10"
proof (induction n rule: decDigits.induct)
  case (1 n)
  then show ?case by (subst decDigits.simps) auto
qed

lemma decDigits_ne: "decDigits n \<noteq> []"
  by (subst decDigits.simps) simp

lemma digitChar_props:
  assumes "d < 10"
  shows "isDigit (digitChar d) \<and> digitVal (digitChar d) = d \<and> digitChar d \<noteq> CHR ''.'' \<and> digitChar d \<noteq> CHR ''-''"
proof -
  have "of_char (digitChar d) = (48 + d :: nat)"
    using assms by (simp add: digitChar_def of_char_of)
  then show ?thesis
    using assms by (auto simp: isDigit_def digitVal_def dest: arg_cong [where f = "of_char :: char \<Rightarrow> nat"])
qed

lemma digitsValue_snoc: "digitsValue (cs @ [c]) = 10 * digitsValue cs + digitVal c"
  by (simp add: digitsValue_def)

lemma digitsValue_decDigits: "digitsValue (map digitChar (decDigits n)) = n"
proof (induction n rule: decDigits.induct)
  case (1 n)
  show ?case
  proof (cases "n < 10")
    case True
    then show ?thesis using digitChar_props [OF True]
      by (subst decDigits.simps) (simp add: digitsValue_def)
  next
    case False
    have "n mod 10 < 10" by simp
    with False "1.IH" show ?thesis
      using digitChar_props [of "n mod 10"]
      by (subst decDigits.simps) (simp add: digitsValue_snoc)
  qed
qed

lemma toFixed2_sign: "(v < 0 \<longrightarrow> toFixed2 v \<le> 0) \<and> (\<not> v < 0 \<longrightarrow> 0 \<le> toFixed2 v)"
proof -
  have "\<And>u :: real. 0 \<le> u \<Longrightarrow> 0 \<le> round u"
    by (metis round_0 round_mono)
  then show ?thesis by (simp add: toFixed2_def)
qed

lemma toFixed2_mono: "v \<le> w \<Longrightarrow> toFixed2 v \<le> toFixed2 w"
  using toFixed2_sign [of v] toFixed2_sign [of w]
  by (auto simp: toFixed2_def intro: round_mono)

end
