(* ===== verification/Summary.thy ===== *)
theory Summary
  imports Distribution Fixed
begin

text \<open>
  The summary statistics of \<open>src/src/components/MBDistributionChart.js\<close>: the
  most probable energy (the \<open>forEach\<close> loop of lines 170--177, repeated at
  lines 242--249), the density-weighted mean energy (lines 193--199), the share
  of the density at or above the activation threshold (lines 250--255), the
  threshold chosen by the catalyst toggle (lines 229 and 251), and
  \<open>handleRecordData\<close> (lines 237--263), which appends one row to the recorded
  data. The two \<open>toFixed(2)\<close> strings of a row are kept as the number of
  hundredths they denote (\<open>toFixed2\<close> of theory \<open>Fixed\<close>, whose
  \<open>toFixedString\<close> prints them and reads back to that number). The loops are folds over the list of chart points \<open>(E, f E)\<close>; the
  initial \<open>maxY = -Infinity\<close> of the mode loop is \<open>None\<close>.
\<close>

subsection \<open>Most probable energy (lines 170--177)\<close>

fun exceedsMax :: "real \<Rightarrow> real option \<Rightarrow> bool" where
  "exceedsMax v None = True"
| "exceedsMax v (Some m) = (m < v)"

definition modeStep :: "energy_point \<Rightarrow> real option \<times> energy \<Rightarrow> real option \<times> energy" where
  "modeStep pt acc =
     (case pt of (px, py) \<Rightarrow> case acc of (maxY, E_mode) \<Rightarrow>
        if exceedsMax py maxY then (Some py, px) else (maxY, E_mode))"

definition findMode :: "energy \<Rightarrow> energy_point list \<Rightarrow> real option \<times> energy" where
  "findMode E0 pts = fold modeStep pts (None, E0)"

subsection \<open>Mean energy (lines 193--199)\<close>

definition meanEnergy :: "energy_point list \<Rightarrow> energy" where
  "meanEnergy pts =
     (case fold (\<lambda>(px, py) (sumE, sumF). (sumE + px * py, sumF + py)) pts (0, 0) of
        (sumE, sumF) \<Rightarrow> if sumF \<noteq> 0 then sumE / sumF else 0)"

subsection \<open>Share above the activation threshold (lines 250--255)\<close>

definition activationThreshold :: "bool \<Rightarrow> energy" where
  "activationThreshold showCatalyst = (if showCatalyst then 300 else 400)"

definition percentageAbove :: "energy \<Rightarrow> energy_point list \<Rightarrow> real" where
  "percentageAbove threshold pts =
     (let totalArea = foldl (\<lambda>s pt. s + snd pt) 0 pts;
          regionArea = foldl (\<lambda>s pt. s + snd pt) 0 (filter (\<lambda>pt. threshold \<le> fst pt) pts) in
      if totalArea \<noteq> 0 then regionArea / totalArea * 100 else 0)"

subsection \<open>Recording a row (lines 237--263)\<close>

record dataRecord =
  recTemperature :: temperature
  mostProbableEnergy :: energy
  percentageAboveFixed :: int
  rateOfReaction :: int

definition handleRecordData :: "temperature \<Rightarrow> bool \<Rightarrow> dataRecord list \<Rightarrow> dataRecord list" where
  "handleRecordData temperature showCatalyst recordedData =
     (let pts = dynamicData temperature;
          E_mode = snd (findMode (energies ! 0) pts);
          threshold = activationThreshold showCatalyst;
          pctAbove = percentageAbove threshold pts;
          newRecord = \<lparr>recTemperature = temperature, mostProbableEnergy = E_mode,
                       percentageAboveFixed = toFixed2 pctAbove, rateOfReaction = toFixed2 pctAbove\<rparr> in
      recordedData @ [newRecord])"

subsection \<open>Reference definitions\<close>

definition maxDensity :: "energy_point list \<Rightarrow> real" where
  "maxDensity pts = Max (set (map snd pts))"

definition firstArgmax :: "energy_point list \<Rightarrow> energy" where
  "firstArgmax pts = fst (hd (filter (\<lambda>pt. snd pt = maxDensity pts) pts))"

subsection \<open>The mode loop computes the maximum and its first position\<close>

lemma maxDensity_snoc:
  "xs \<noteq> [] \<Longrightarrow> maxDensity (xs @ [pt]) = max (maxDensity xs) (snd pt)"
  by (simp add: maxDensity_def max.commute)

lemma maxDensity_ge: "pt \<in> set xs \<Longrightarrow> snd pt \<le> maxDensity xs"
  by (simp add: maxDensity_def)

lemma maxDensity_in: "xs \<noteq> [] \<Longrightarrow> \<exists>pt \<in> set xs. snd pt = maxDensity xs"
proof -
  assume "xs \<noteq> []"
  then have "maxDensity xs \<in> set (map snd xs)"
    unfolding maxDensity_def by (intro Max_in) auto
  then show ?thesis by force
qed

lemma findMode_snoc: "findMode E0 (xs @ [pt]) = modeStep pt (findMode E0 xs)"
  by (simp add: findMode_def)

lemma findMode_correct:
  "pts \<noteq> [] \<Longrightarrow> findMode E0 pts = (Some (maxDensity pts), firstArgmax pts)"
proof (induction pts rule: rev_induct)
  case Nil
  then show ?case by simp
next
  case (snoc pt xs)
  obtain px py where pt: "pt = (px, py)" by fastforce
  show ?case
  proof (cases "xs = []")
    case True
    then show ?thesis
      by (simp add: findMode_def modeStep_def pt maxDensity_def firstArgmax_def)
  next
    case False
    let ?M = "maxDensity xs"
    have IH: "findMode E0 xs = (Some ?M, firstArgmax xs)" using snoc.IH False by simp
    show ?thesis
    proof (cases "?M < py")
      case True
      then have "filter (\<lambda>q. snd q = py) xs = []"
        using maxDensity_ge [of _ xs] by (fastforce simp: filter_empty_conv)
      then show ?thesis
        using True False by (simp add: findMode_snoc IH modeStep_def pt maxDensity_snoc firstArgmax_def)
    next
      case not: False
      then have m: "maxDensity (xs @ [pt]) = ?M"
        using False by (simp add: maxDensity_snoc pt)
      have "filter (\<lambda>q. snd q = ?M) xs \<noteq> []"
        using maxDensity_in [OF False] by (auto simp: filter_empty_conv)
      then have "firstArgmax (xs @ [pt]) = firstArgmax xs"
        by (simp add: firstArgmax_def m)
      then show ?thesis
        using not m by (simp add: findMode_snoc IH modeStep_def pt)
    qed
  qed
qed


lemma hd_filter_index:
  "filter P xs \<noteq> [] \<Longrightarrow>
   \<exists>k < length xs. hd (filter P xs) = xs ! k \<and> P (xs ! k) \<and> (\<forall>i < k. \<not> P (xs ! i))"
proof (induction xs)
  case Nil
  then show ?case by simp
next
  case (Cons a xs)
  show ?case
  proof (cases "P a")
    case True
    then show ?thesis by auto
  next
    case False
    with Cons.prems have "filter P xs \<noteq> []" by simp
    with Cons.IH obtain k where k: "k < length xs" "hd (filter P xs) = xs ! k" "P (xs ! k)"
      "\<forall>i < k. \<not> P (xs ! i)" by blast
    have "\<forall>i < Suc k. \<not> P ((a # xs) ! i)"
      using False k(4) by (auto simp: less_Suc_eq_0_disj)
    with False k(1-3) show ?thesis by (intro exI [of _ "Suc k"]) simp
  qed
qed

lemma mode_of_map:
  assumes "k \<in> set es" and "\<forall>e \<in> set es. e \<noteq> k \<longrightarrow> g e < g k"
  shows "maxDensity (map (\<lambda>E. (E, g E)) es) = g k \<and> firstArgmax (map (\<lambda>E. (E, g E)) es) = k"
proof -
  have M: "maxDensity (map (\<lambda>E. (E, g E)) es) = g k"
    unfolding maxDensity_def
  proof (rule Max_eqI)
    fix v
    assume "v \<in> set (map snd (map (\<lambda>E. (E, g E)) es))"
    then obtain e where "e \<in> set es" "v = g e" by auto
    with assms(2) show "v \<le> g k" by (cases "e = k") (auto simp: less_imp_le)
  qed (use assms(1) in auto)
  have "filter (\<lambda>E. g E = g k) es = filter (\<lambda>E. E = k) es"
    using assms(2) by (intro filter_cong) auto
  moreover have "filter (\<lambda>E. E = k) es \<noteq> []"
    using assms(1) by (auto simp: filter_empty_conv)
  moreover have "\<forall>e \<in> set (filter (\<lambda>E. E = k) es). e = k" by simp
  ultimately have hd: "hd (filter (\<lambda>E. g E = g k) es) = k" and ne: "filter (\<lambda>E. g E = g k) es \<noteq> []"
    by (metis list.set_sel(1))+
  have "filter (\<lambda>pt. snd pt = g k) (map (\<lambda>E. (E, g E)) es)
        = map (\<lambda>E. (E, g E)) (filter (\<lambda>E. g E = g k) es)"
    by (simp add: filter_map comp_def)
  with hd ne have "firstArgmax (map (\<lambda>E. (E, g E)) es) = k"
    by (simp add: firstArgmax_def M hd_map)
  with M show ?thesis by simp
qed

lemma dynamicData_ne: "dynamicData T \<noteq> []"
  by (simp add: dynamicData_def energies_def)

lemma findMode_dynamicData_eq:
  assumes "-100 < T" and "effectiveTemperature T / 2 \<in> set energies"
  shows "findMode E0 (dynamicData T)
         = (Some (mbDistribution (effectiveTemperature T / 2) T), effectiveTemperature T / 2)"
proof -
  have "\<forall>e \<in> set energies. e \<noteq> effectiveTemperature T / 2
          \<longrightarrow> mbDistribution e T < mbDistribution (effectiveTemperature T / 2) T"
    using assms(1) energies_nonneg mbDistribution_unique_peak by blast
  from mode_of_map [OF assms(2) this]
  have "maxDensity (dynamicData T) = mbDistribution (effectiveTemperature T / 2) T"
    and "firstArgmax (dynamicData T) = effectiveTemperature T / 2"
    unfolding dynamicData_def by blast+
  then show ?thesis by (simp only: findMode_correct [OF dynamicData_ne])
qed

lemma meanEnergy_fold:
  "fold (\<lambda>(px, py) (sumE, sumF). (sumE + px * py, sumF + py)) pts (a, b)
   = (a + sum_list (map (\<lambda>pt. fst pt * snd pt) pts), b + sum_list (map snd pts))"
  by (induction pts arbitrary: a b) (auto simp: algebra_simps)

lemma meanEnergy_eq:
  "meanEnergy pts =
     (if sum_list (map snd pts) \<noteq> 0
      then sum_list (map (\<lambda>pt. fst pt * snd pt) pts) / sum_list (map snd pts) else 0)"
  by (simp add: meanEnergy_def meanEnergy_fold)

lemma meanEnergy_bounds:
  assumes "\<forall>pt \<in> set pts. 0 \<le> snd pt \<and> lo \<le> fst pt \<and> fst pt \<le> hi" and "lo \<le> 0" and "0 \<le> hi"
  shows "lo \<le> meanEnergy pts \<and> meanEnergy pts \<le> hi"
proof (cases "sum_list (map snd pts) = 0")
  case True
  with assms(2,3) show ?thesis by (simp add: meanEnergy_eq)
next
  case False
  let ?F = "sum_list (map snd pts)" and ?S = "sum_list (map (\<lambda>pt. fst pt * snd pt) pts)"
  have "0 \<le> ?F" using assms(1) by (intro sum_list_map_nonneg) auto
  with False have F: "0 < ?F" by simp
  have "sum_list (map (\<lambda>pt. lo * snd pt) pts) \<le> ?S"
    using assms(1) by (intro sum_list_map_mono) (simp add: mult_right_mono)
  then have lo: "lo * ?F \<le> ?S" by (simp add: sum_list_map_scale)
  have "?S \<le> sum_list (map (\<lambda>pt. hi * snd pt) pts)"
    using assms(1) by (intro sum_list_map_mono) (simp add: mult_right_mono)
  then have hi: "?S \<le> hi * ?F" by (simp add: sum_list_map_scale)
  from lo hi F False show ?thesis
    by (simp add: meanEnergy_eq pos_le_divide_eq pos_divide_le_eq)
qed

lemma percentageAbove_eq:
  "percentageAbove th pts =
     (if sum_list (map snd pts) \<noteq> 0
      then sum_list (map snd (filter (\<lambda>pt. th \<le> fst pt) pts)) / sum_list (map snd pts) * 100 else 0)"
  by (simp add: percentageAbove_def foldl_add_sum_list)

lemma percentageAbove_bounds:
  assumes "\<forall>pt \<in> set pts. 0 \<le> snd pt"
  shows "0 \<le> percentageAbove th pts \<and> percentageAbove th pts \<le> 100"
proof -
  let ?F = "sum_list (map snd pts)" and ?R = "sum_list (map snd (filter (\<lambda>pt. th \<le> fst pt) pts))"
  have R: "0 \<le> ?R" using assms by (intro sum_list_map_nonneg) auto
  have RF: "?R \<le> ?F" using assms by (intro sum_list_map_filter_le) auto
  show ?thesis
  proof (cases "?F = 0")
    case True
    then show ?thesis by (simp add: percentageAbove_eq)
  next
    case False
    with R RF have "0 < ?F" by simp
    with R RF show ?thesis
      by (simp add: percentageAbove_eq pos_divide_le_eq)
  qed
qed

lemma percentageAbove_antimono:
  assumes "\<forall>pt \<in> set pts. 0 \<le> snd pt" and "th1 \<le> th2"
  shows "percentageAbove th2 pts \<le> percentageAbove th1 pts"
proof -
  let ?F = "sum_list (map snd pts)"
  have "filter (\<lambda>pt. th2 \<le> fst pt) (filter (\<lambda>pt. th1 \<le> fst pt) pts) = filter (\<lambda>pt. th2 \<le> fst pt) pts"
    using assms(2) by (auto simp: filter_filter intro: filter_cong)
  then have "sum_list (map snd (filter (\<lambda>pt. th2 \<le> fst pt) pts))
             \<le> sum_list (map snd (filter (\<lambda>pt. th1 \<le> fst pt) pts))"
    using sum_list_map_filter_le [of "filter (\<lambda>pt. th1 \<le> fst pt) pts" snd "\<lambda>pt. th2 \<le> fst pt"] assms(1)
    by auto
  moreover have "0 \<le> ?F" using assms(1) by (intro sum_list_map_nonneg) auto
  ultimately show ?thesis
    by (auto simp: percentageAbove_eq divide_right_mono)
qed


lemma point_in_dynamicData:
  "n \<le> 600 \<Longrightarrow> (real n, mbDistribution (real n) T) \<in> set (dynamicData T)"
  by (auto simp: dynamicData_def set_energies N_def)

lemma percentageAbove_strict:
  assumes "\<forall>pt \<in> set pts. 0 \<le> snd pt"
    and "a \<in> set pts" "th \<le> fst a" "0 < snd a"
    and "b \<in> set pts" "fst b < th" "0 < snd b"
  shows "0 < percentageAbove th pts \<and> percentageAbove th pts < 100"
proof -
  let ?R = "sum_list (map snd (filter (\<lambda>pt. th \<le> fst pt) pts))"
    and ?C = "sum_list (map snd (filter (\<lambda>pt. \<not> th \<le> fst pt) pts))"
  have R: "0 < ?R" using assms(1-4) by (intro sum_list_map_pos [of _ _ a]) auto
  have C: "0 < ?C" using assms(1,5-7) by (intro sum_list_map_pos [of _ _ b]) auto
  have F: "sum_list (map snd pts) = ?R + ?C" by (rule sum_list_map_filter_split)
  have "0 < ?R + ?C" using R C by simp
  with R C F show ?thesis
    by (simp add: percentageAbove_eq pos_divide_less_eq)
qed

lemma percentageAbove_strict_antimono:
  assumes "\<forall>pt \<in> set pts. 0 \<le> snd pt" and "th1 \<le> th2"
    and "b \<in> set pts" "th1 \<le> fst b" "fst b < th2" "0 < snd b"
  shows "percentageAbove th2 pts < percentageAbove th1 pts"
proof -
  let ?S1 = "filter (\<lambda>pt. th1 \<le> fst pt) pts"
  let ?R1 = "sum_list (map snd ?S1)" and ?R2 = "sum_list (map snd (filter (\<lambda>pt. th2 \<le> fst pt) pts))"
    and ?M = "sum_list (map snd (filter (\<lambda>pt. \<not> th2 \<le> fst pt) ?S1))"
  have "filter (\<lambda>pt. th2 \<le> fst pt) ?S1 = filter (\<lambda>pt. th2 \<le> fst pt) pts"
    using assms(2) by (auto simp: filter_filter intro: filter_cong)
  then have split: "?R1 = ?R2 + ?M"
    using sum_list_map_filter_split [of snd ?S1 "\<lambda>pt. th2 \<le> fst pt"] by simp
  have M: "0 < ?M" using assms by (intro sum_list_map_pos [of _ _ b]) auto
  have "0 \<le> ?R2" using assms(1) by (intro sum_list_map_nonneg) auto
  moreover have "?R1 \<le> sum_list (map snd pts)"
    using assms(1) by (intro sum_list_map_filter_le) auto
  ultimately have F: "0 < sum_list (map snd pts)" using split M by linarith
  from split M have "?R2 < ?R1" by simp
  with F show ?thesis by (simp add: percentageAbove_eq divide_strict_right_mono)
qed

lemma percentageAbove_curve_bounds:
  "0 \<le> percentageAbove th (dynamicData T) \<and> percentageAbove th (dynamicData T) \<le> 100"
  using dynamicData_nonneg by (intro percentageAbove_bounds) blast

lemma handleRecordData_last:
  "handleRecordData T c rs =
     rs @ [\<lparr>recTemperature = T,
            mostProbableEnergy = snd (findMode (energies ! 0) (dynamicData T)),
            percentageAboveFixed = toFixed2 (percentageAbove (activationThreshold c) (dynamicData T)),
            rateOfReaction = toFixed2 (percentageAbove (activationThreshold c) (dynamicData T))\<rparr>]"
  by (simp add: handleRecordData_def Let_def)

lemma curve_has_density_at:
  "-100 < T \<Longrightarrow> 0 < n \<Longrightarrow> n \<le> 600 \<Longrightarrow>
   (real n, mbDistribution (real n) T) \<in> set (dynamicData T) \<and> 0 < mbDistribution (real n) T"
  by (simp add: point_in_dynamicData mbDistribution_pos_aux)

lemma dynamicData_cold:
  "T \<le> -100 \<Longrightarrow> dynamicData T = map (\<lambda>E. (E, 0)) energies"
  by (simp add: dynamicData_def mbDistribution_guard_eq effectiveTemperature_def)

lemma energies_hd: "energies \<noteq> [] \<and> hd energies = 0"
  by (simp add: energies_def hd_map hd_upt del: upt_Suc)

subsection \<open>Properties\<close>

text \<open>
  C19. Recording a row at a temperature above \<open>-100\<close> whose curve peak
  \<open>T_eff / 2 = T / 4 + 25\<close> lies on the energy grid stores that peak as the most
  probable energy: the scan of the chart points finds the analytic maximum of
  the Maxwell--Boltzmann density.
\<close>

theorem handleRecordData_mode:
  assumes "-100 < T" and "effectiveTemperature T / 2 \<in> set energies"
  shows "mostProbableEnergy (last (handleRecordData T c rs)) = T / 4 + 25"
  using findMode_dynamicData_eq [OF assms]
  by (simp add: handleRecordData_last effectiveTemperature_def)

theorem handleRecordData_mode_witness:
  "-100 < (300 :: real) \<and> effectiveTemperature 300 / 2 \<in> set energies
   \<and> mostProbableEnergy (last (handleRecordData 300 False [])) = 100"
proof -
  have g: "effectiveTemperature 300 / 2 \<in> set energies"
    using point_in_dynamicData [of 100 300]
    by (auto simp: effectiveTemperature_def set_energies N_def image_iff intro: bexI [of _ 100])
  show ?thesis using handleRecordData_mode [of 300, OF _ g] g by simp
qed

text \<open>
  C20. The mode loop of lines 242--249 (with \<open>maxY = -Infinity\<close> and the strict
  test \<open>point.y > maxY\<close>) returns, on a non-empty list of chart points, the
  density and the energy of the first point of maximal density.
\<close>

theorem findMode_first_argmax:
  "pts \<noteq> [] \<Longrightarrow>
   \<exists>k < length pts. findMode E0 pts = (Some (snd (pts ! k)), fst (pts ! k))
     \<and> (\<forall>i < length pts. snd (pts ! i) \<le> snd (pts ! k))
     \<and> (\<forall>i < k. snd (pts ! i) < snd (pts ! k))"
proof -
  assume ne: "pts \<noteq> []"
  let ?P = "\<lambda>pt. snd pt = maxDensity pts"
  have "filter ?P pts \<noteq> []"
    using maxDensity_in [OF ne] by (auto simp: filter_empty_conv)
  then obtain k where k: "k < length pts" "hd (filter ?P pts) = pts ! k" "?P (pts ! k)"
    "\<forall>i < k. \<not> ?P (pts ! i)"
    using hd_filter_index by blast
  have le: "\<forall>i < length pts. snd (pts ! i) \<le> snd (pts ! k)"
    using k(3) by (auto intro: maxDensity_ge)
  with k(1,4) have "\<forall>i < k. snd (pts ! i) < snd (pts ! k)"
    using k(3) by (auto simp: order_less_le)
  with k le show ?thesis
    by (intro exI [of _ k]) (simp add: findMode_correct [OF ne] firstArgmax_def)
qed

theorem findMode_first_argmax_witness:
  "[(0, 1), (1, 3), (2, 3), (3, 2 :: real)] \<noteq> []
   \<and> findMode 0 [(0, 1), (1, 3), (2, 3), (3, 2 :: real)] = (Some 3, 1)"
  using findMode_first_argmax [of "[(0, 1), (1, 3), (2, 3), (3, 2 :: real)]" 0]
  by (simp add: findMode_def modeStep_def)


text \<open>
  C21. \<open>handleRecordData\<close> appends exactly one row to the recorded data; the row
  carries the temperature, and its rate of reaction is the same rounded
  percentage as its percentage above the threshold, a number of hundredths
  between 0 and 10000.
\<close>

theorem handleRecordData_appends:
  "\<exists>r. handleRecordData T c rs = rs @ [r] \<and> recTemperature r = T
     \<and> rateOfReaction r = percentageAboveFixed r
     \<and> 0 \<le> rateOfReaction r \<and> rateOfReaction r \<le> 10000"
proof -
  let ?p = "percentageAbove (activationThreshold c) (dynamicData T)"
  have "toFixed2 0 \<le> toFixed2 ?p" and "toFixed2 ?p \<le> toFixed2 100"
    using percentageAbove_curve_bounds [of "activationThreshold c" T] by (simp_all add: toFixed2_mono)
  then show ?thesis by (simp add: handleRecordData_last toFixed2_def)
qed

text \<open>
  C22. Above \<open>-100\<close> degrees every threshold between 1 and 600 splits the
  distribution strictly: a positive share of the density lies at or above it
  and a positive share below it, so the percentage is strictly between 0 and 100.
\<close>

theorem percentageAbove_strict_bounds:
  assumes "-100 < T" and "1 < th" and "th \<le> 600"
  shows "0 < percentageAbove th (dynamicData T) \<and> percentageAbove th (dynamicData T) < 100"
proof -
  have a: "(600, mbDistribution 600 T) \<in> set (dynamicData T) \<and> 0 < mbDistribution 600 T"
    using curve_has_density_at [OF assms(1), of 600] by simp
  have b: "(1, mbDistribution 1 T) \<in> set (dynamicData T) \<and> 0 < mbDistribution 1 T"
    using curve_has_density_at [OF assms(1), of 1] by simp
  show ?thesis
    using dynamicData_nonneg a b assms(2,3)
    by (intro percentageAbove_strict [where a = "(600, mbDistribution 600 T)"
                                         and b = "(1, mbDistribution 1 T)"]) auto
qed

theorem percentageAbove_strict_bounds_witness:
  "-100 < (300 :: real) \<and> 1 < (400 :: real) \<and> (400 :: real) \<le> 600
   \<and> 0 < percentageAbove 400 (dynamicData 300) \<and> percentageAbove 400 (dynamicData 300) < 100"
  using percentageAbove_strict_bounds [of 300 400] by simp

text \<open>
  C23. The catalyst lowers the activation threshold from 400 to 300: above
  \<open>-100\<close> degrees the share of the density above the threshold is strictly
  larger with the catalyst, and the recorded rate is never smaller.
\<close>

theorem catalyst_raises_rate:
  assumes "-100 < T"
  shows "percentageAbove (activationThreshold False) (dynamicData T)
           < percentageAbove (activationThreshold True) (dynamicData T)
         \<and> rateOfReaction (last (handleRecordData T False rs))
           \<le> rateOfReaction (last (handleRecordData T True rs'))"
proof -
  have b: "(300, mbDistribution 300 T) \<in> set (dynamicData T) \<and> 0 < mbDistribution 300 T"
    using curve_has_density_at [OF assms, of 300] by simp
  have "percentageAbove 400 (dynamicData T) < percentageAbove 300 (dynamicData T)"
    using dynamicData_nonneg b
    by (intro percentageAbove_strict_antimono [where b = "(300, mbDistribution 300 T)"]) auto
  then show ?thesis
    by (simp add: activationThreshold_def handleRecordData_last toFixed2_mono)
qed

theorem catalyst_raises_rate_witness:
  "-100 < (300 :: real)
   \<and> percentageAbove (activationThreshold False) (dynamicData 300)
       < percentageAbove (activationThreshold True) (dynamicData 300)"
  using catalyst_raises_rate [of 300] by simp

text \<open>
  The density-weighted mean energy of lines 193--199 lies on the energy
  axis of the chart, between 0 and 600, at every temperature (including the
  guarded case where the curve is zero and the mean is reported as 0).
\<close>

theorem meanEnergy_curve_bounds:
  "0 \<le> meanEnergy (dynamicData T) \<and> meanEnergy (dynamicData T) \<le> 600"
  using dynamicData_nonneg
  by (intro meanEnergy_bounds) (auto simp: dynamicData_def energies_nonneg energies_le_N)

text \<open>
  C26. At or below \<open>-100\<close> degrees the effective temperature is not positive,
  the guard of \<open>getMaxwellBoltzmannDistribution\<close> makes the whole curve zero,
  and the recorded row reports energy 0 (the first chart point wins the mode
  scan) and a rate of 0.
\<close>

theorem handleRecordData_cold:
  "T \<le> -100 \<Longrightarrow>
   last (handleRecordData T c rs)
     = \<lparr>recTemperature = T, mostProbableEnergy = 0, percentageAboveFixed = 0, rateOfReaction = 0\<rparr>"
proof -
  assume T: "T \<le> -100"
  let ?pts = "map (\<lambda>E. (E, 0 :: real)) energies"
  have ne: "?pts \<noteq> []" by (simp add: energies_def)
  have M: "maxDensity ?pts = 0"
    using ne by (simp add: maxDensity_def comp_def)
  have "filter (\<lambda>pt. snd pt = maxDensity ?pts) ?pts = ?pts"
    by (simp add: M filter_True)
  then have "firstArgmax ?pts = 0"
    using energies_hd by (simp add: firstArgmax_def hd_map)
  then have "snd (findMode (energies ! 0) (dynamicData T)) = 0"
    by (simp add: dynamicData_cold [OF T] findMode_correct [OF ne])
  moreover have "percentageAbove th (dynamicData T) = 0" for th
    by (simp add: dynamicData_cold [OF T] percentageAbove_eq comp_def)
  ultimately show ?thesis by (simp add: handleRecordData_last toFixed2_def)
qed

theorem handleRecordData_cold_witness:
  "(-150 :: real) \<le> -100
   \<and> last (handleRecordData (-150) True [])
       = \<lparr>recTemperature = -150, mostProbableEnergy = 0, percentageAboveFixed = 0, rateOfReaction = 0\<rparr>"
  using handleRecordData_cold [of "-150" True "[]"] by simp

end
