(* ===== verification/Chart.thy ===== *)
theory Chart
  imports Summary
begin

text \<open>
  The chart component and the application shell of
  \<open>src/src/components/MBDistributionChart.js\<close>. The component's React state
  (the four toggles and the recorded rows, lines 67--73) and the application's
  state (\<open>temperature\<close> and \<open>snapshots\<close>, lines 423--424) are one record
  \<open>ui\<close>; the Chart.js object behind \<open>chartRef\<close> is a list of datasets and the
  options of the activation plugin. An event handler only sets state; React
  then runs, in declaration order, each effect whose dependency list changed
  (effects 1--4, lines 131--235), and each effect patches the chart in place.
  An access to \<open>datasets[0]\<close> of an empty dataset list is the fault
  \<open>UndefinedDataset\<close>.
\<close>

datatype dslabel = TempLabel temperature | MostProbableLabel | AverageLabel

datatype colour = Black | Blue | Red | RGB int int int

record dataset =
  dsLabel :: dslabel
  dsData :: "energy_point list"
  dsColour :: colour
  dsOrder :: nat

record activationOptions =
  showActivationOpt :: bool
  yMaxOpt :: real
  activationX :: energy
  xMaxOpt :: energy

record chart =
  datasets :: "dataset list"
  activationPlugin :: activationOptions

datatype uiError = UndefinedDataset

subsection \<open>Datasets (lines 105--128)\<close>

definition getColorForTemperature :: "temperature \<Rightarrow> colour" where
  "getColorForTemperature T =
     (let ratio = (T - 100) / (500 - 100);
          red = round (ratio * 255);
          blue = round ((1 - ratio) * 255) in
      RGB red 0 blue)"

definition initialDynamicDataset :: "temperature \<Rightarrow> dataset" where
  "initialDynamicDataset temperature =
     \<lparr>dsLabel = TempLabel temperature, dsData = dynamicData temperature, dsColour = Black, dsOrder = 2\<rparr>"

definition activationOptionsOf :: "bool \<Rightarrow> bool \<Rightarrow> activationOptions" where
  "activationOptionsOf showActivation showCatalyst =
     \<lparr>showActivationOpt = showActivation, yMaxOpt = 0.5,
      activationX = (if showCatalyst then 300 else 400), xMaxOpt = 600\<rparr>"

subsection \<open>The four effects (lines 131--235)\<close>

text \<open>Effect 1: the dynamic dataset \<open>datasets[0]\<close> follows the temperature.\<close>

definition updateDynamic :: "temperature \<Rightarrow> chart \<Rightarrow> uiError + chart" where
  "updateDynamic temperature c =
     (case datasets c of
        [] \<Rightarrow> Inl UndefinedDataset
      | d # ds \<Rightarrow> Inr (c\<lparr>datasets := d\<lparr>dsData := dynamicData temperature,
                                          dsLabel := TempLabel temperature\<rparr> # ds\<rparr>))"

text \<open>Effect 2: one dataset per snapshot temperature, between the dynamic one and the markers.\<close>

definition snapshotDataset :: "temperature \<Rightarrow> dataset" where
  "snapshotDataset snapT =
     \<lparr>dsLabel = TempLabel snapT, dsData = dynamicData snapT,
      dsColour = getColorForTemperature snapT, dsOrder = 4\<rparr>"

definition updateSnapshots :: "temperature list \<Rightarrow> chart \<Rightarrow> uiError + chart" where
  "updateSnapshots snapshots c =
     (case datasets c of
        [] \<Rightarrow> Inl UndefinedDataset
      | dynamicDataset # _ \<Rightarrow>
          Inr (c\<lparr>datasets := dynamicDataset # map snapshotDataset snapshots
                              @ filter (\<lambda>ds. dsOrder ds = 5) (datasets c)\<rparr>))"

text \<open>
  Effect 3: the markers (datasets of order 5). The mode scan starts from
  \<open>maxY = -Infinity\<close>; on the 601 chart points it always finds a maximum
  (\<open>findMode_Some\<close> below), so the \<open>None\<close> branch, where the source would
  push the point \<open>(energies[0], -Infinity)\<close>, is never taken.
\<close>

definition mostProbableMarker :: "temperature \<Rightarrow> dataset list" where
  "mostProbableMarker temperature =
     (case findMode (energies ! 0) (dynamicData temperature) of
        (Some maxY, E_mode) \<Rightarrow>
          [\<lparr>dsLabel = MostProbableLabel, dsData = [(E_mode, maxY)], dsColour = Blue, dsOrder = 5\<rparr>]
      | (None, _) \<Rightarrow> [])"

definition averageMarker :: "temperature \<Rightarrow> dataset" where
  "averageMarker temperature =
     (let E_mean = meanEnergy (dynamicData temperature) in
      \<lparr>dsLabel = AverageLabel, dsData = [(E_mean, mbDistribution E_mean temperature)],
       dsColour = Red, dsOrder = 5\<rparr>)"

definition markers :: "bool \<Rightarrow> bool \<Rightarrow> temperature \<Rightarrow> dataset list" where
  "markers showMostProbable showAverage temperature =
     (if showMostProbable then mostProbableMarker temperature else [])
     @ (if showAverage then [averageMarker temperature] else [])"

definition updateMarkers :: "bool \<Rightarrow> bool \<Rightarrow> temperature \<Rightarrow> chart \<Rightarrow> uiError + chart" where
  "updateMarkers showMostProbable showAverage temperature c =
     Inr (c\<lparr>datasets := filter (\<lambda>ds. dsOrder ds \<noteq> 5) (datasets c)
                       @ markers showMostProbable showAverage temperature\<rparr>)"

text \<open>Effect 4: the options of the activation plugin.\<close>

definition updateActivation :: "bool \<Rightarrow> bool \<Rightarrow> chart \<Rightarrow> uiError + chart" where
  "updateActivation showActivation showCatalyst c =
     Inr (c\<lparr>activationPlugin := activationOptionsOf showActivation showCatalyst\<rparr>)"

subsection \<open>State and events\<close>

record ui =
  temperature :: temperature
  snapshots :: "temperature list"
  showMostProbable :: bool
  showAverage :: bool
  showActivation :: bool
  showCatalyst :: bool
  recordedData :: "dataRecord list"
  chartRef :: "chart option"

text \<open>\<open>if (chartRef.current) { ... }\<close>: an effect does nothing before the chart exists.\<close>

definition runEffect :: "bool \<Rightarrow> (chart \<Rightarrow> uiError + chart) \<Rightarrow> uiError + chart option \<Rightarrow> uiError + chart option" where
  "runEffect changed f r =
     (case r of
        Inl e \<Rightarrow> Inl e
      | Inr None \<Rightarrow> Inr None
      | Inr (Some c) \<Rightarrow> if changed then (case f c of Inl e \<Rightarrow> Inl e | Inr c' \<Rightarrow> Inr (Some c')) else Inr (Some c))"

text \<open>After a render, effects run in declaration order, each if one of its dependencies changed.\<close>

definition runEffects :: "bool \<Rightarrow> ui \<Rightarrow> ui \<Rightarrow> uiError + ui" where
  "runEffects mount old new =
     (let T = temperature new;
          r1 = runEffect (mount \<or> T \<noteq> temperature old) (updateDynamic T) (Inr (chartRef new));
          r2 = runEffect (mount \<or> snapshots new \<noteq> snapshots old) (updateSnapshots (snapshots new)) r1;
          r3 = runEffect (mount \<or> showMostProbable new \<noteq> showMostProbable old
                           \<or> showAverage new \<noteq> showAverage old \<or> T \<noteq> temperature old)
                 (updateMarkers (showMostProbable new) (showAverage new) T) r2;
          r4 = runEffect (mount \<or> showActivation new \<noteq> showActivation old
                           \<or> showCatalyst new \<noteq> showCatalyst old \<or> T \<noteq> temperature old)
                 (updateActivation (showActivation new) (showCatalyst new)) r3 in
      case r4 of Inl e \<Rightarrow> Inl e | Inr ref \<Rightarrow> Inr (new\<lparr>chartRef := ref\<rparr>))"

datatype event =
    TemperatureChange real
  | Snapshot
  | ToggleMostProbable
  | ToggleAverage
  | ToggleActivation
  | ToggleCatalyst
  | RecordData

text \<open>The handlers: lines 426--432 of the application, the toggle buttons, \<open>handleRecordData\<close>.\<close>

fun handleEvent :: "event \<Rightarrow> ui \<Rightarrow> ui" where
  "handleEvent (TemperatureChange v) s = s\<lparr>temperature := v\<rparr>"
| "handleEvent Snapshot s = s\<lparr>snapshots := snapshots s @ [temperature s]\<rparr>"
| "handleEvent ToggleMostProbable s = s\<lparr>showMostProbable := \<not> showMostProbable s\<rparr>"
| "handleEvent ToggleAverage s = s\<lparr>showAverage := \<not> showAverage s\<rparr>"
| "handleEvent ToggleActivation s = s\<lparr>showActivation := \<not> showActivation s\<rparr>"
| "handleEvent ToggleCatalyst s = s\<lparr>showCatalyst := \<not> showCatalyst s\<rparr>"
| "handleEvent RecordData s =
     s\<lparr>recordedData := handleRecordData (temperature s) (showCatalyst s) (recordedData s)\<rparr>"

definition uiStep :: "event \<Rightarrow> ui \<Rightarrow> uiError + ui" where
  "uiStep ev s = runEffects False s (handleEvent ev s)"

fun runEvents :: "event list \<Rightarrow> ui \<Rightarrow> uiError + ui" where
  "runEvents [] s = Inr s"
| "runEvents (ev # evs) s = (case uiStep ev s of Inl e \<Rightarrow> Inl e | Inr s' \<Rightarrow> runEvents evs s')"

text \<open>
  Mounting: the initial state of both components, the chart built from the
  initial \<open>chartData\<close> and \<open>options\<close> (lines 126--128 and 267--296), then every
  effect once.
\<close>

definition initialUI :: ui where
  "initialUI =
     \<lparr>temperature = 300, snapshots = [], showMostProbable = False, showAverage = False,
      showActivation = False, showCatalyst = False, recordedData = [], chartRef = None\<rparr>"

definition mountUI :: "ui \<Rightarrow> uiError + ui" where
  "mountUI s =
     (let s' = s\<lparr>chartRef := Some \<lparr>datasets = [initialDynamicDataset (temperature s)],
                                    activationPlugin = activationOptionsOf (showActivation s) (showCatalyst s)\<rparr>\<rparr> in
      runEffects True s' s')"

subsection \<open>What the chart should show\<close>

text \<open>The declarative view of the state: the datasets and plugin options a fresh render would build.\<close>

definition renderDatasets :: "ui \<Rightarrow> dataset list" where
  "renderDatasets s =
     initialDynamicDataset (temperature s) # map snapshotDataset (snapshots s)
     @ markers (showMostProbable s) (showAverage s) (temperature s)"

definition renderChart :: "ui \<Rightarrow> chart" where
  "renderChart s =
     \<lparr>datasets = renderDatasets s, activationPlugin = activationOptionsOf (showActivation s) (showCatalyst s)\<rparr>"

definition chartConsistent :: "ui \<Rightarrow> bool" where
  "chartConsistent s \<longleftrightarrow> chartRef s = Some (renderChart s)"

text \<open>
  Chart.js draws the datasets by their \<open>order\<close>: a well-formed chart has the
  dynamic curve (order 2) first and only once, then snapshots (4) and
  markers (5), in non-decreasing order.
\<close>

definition wellOrdered :: "dataset list \<Rightarrow> bool" where
  "wellOrdered ds \<longleftrightarrow>
     sorted (map dsOrder ds)
     \<and> (case ds of [] \<Rightarrow> False | d # rest \<Rightarrow> dsOrder d = 2 \<and> list_all (\<lambda>e. dsOrder e \<in> {4, 5}) rest)"

subsection \<open>Lemmas\<close>

lemma markers_order: "ds \<in> set (markers a b T) \<Longrightarrow> dsOrder ds = 5"
  by (auto simp: markers_def mostProbableMarker_def averageMarker_def Let_def split: prod.splits option.splits)

lemma filter_markers [simp]:
  "filter (\<lambda>ds. dsOrder ds = 5) (markers a b T) = markers a b T"
  "filter (\<lambda>ds. dsOrder ds \<noteq> 5) (markers a b T) = []"
  using markers_order by (auto simp: filter_id_conv filter_empty_conv)

lemma order_fixed [simp]:
  "dsOrder (initialDynamicDataset T) = 2" "dsOrder (snapshotDataset T) = 4"
  by (simp_all add: initialDynamicDataset_def snapshotDataset_def)

lemma filter_snapshots [simp]:
  "filter (\<lambda>ds. dsOrder ds = 5) (map snapshotDataset xs) = []"
  "filter (\<lambda>ds. dsOrder ds \<noteq> 5) (map snapshotDataset xs) = map snapshotDataset xs"
  by (induction xs) simp_all

lemma retarget_dynamic [simp]:
  "(initialDynamicDataset T)\<lparr>dsData := dynamicData T', dsLabel := TempLabel T'\<rparr> = initialDynamicDataset T'"
  by (simp add: initialDynamicDataset_def)

lemma renderChart_cong:
  "temperature s' = temperature s \<Longrightarrow> snapshots s' = snapshots s \<Longrightarrow>
   showMostProbable s' = showMostProbable s \<Longrightarrow> showAverage s' = showAverage s \<Longrightarrow>
   showActivation s' = showActivation s \<Longrightarrow> showCatalyst s' = showCatalyst s \<Longrightarrow>
   renderChart s' = renderChart s"
  by (simp add: renderChart_def renderDatasets_def)

lemmas effect_defs = runEffect_def updateDynamic_def updateSnapshots_def updateMarkers_def updateActivation_def

text \<open>Every effect run on a consistent chart brings it to the render of the new state.\<close>

lemma runEffects_consistent:
  assumes "chartRef new = Some (renderChart old)"
  shows "runEffects False old new = Inr (new\<lparr>chartRef := Some (renderChart new)\<rparr>)"
  using assms
  by (simp add: runEffects_def Let_def effect_defs renderChart_def renderDatasets_def)

lemma chartRef_handleEvent [simp]: "chartRef (handleEvent ev s) = chartRef s"
  by (cases ev) simp_all

lemma uiStep_consistent:
  "chartConsistent s \<Longrightarrow> uiStep ev s = Inr ((handleEvent ev s)\<lparr>chartRef := Some (renderChart (handleEvent ev s))\<rparr>)"
  unfolding uiStep_def chartConsistent_def by (rule runEffects_consistent) simp


lemma mountUI_eq: "mountUI s = Inr (s\<lparr>chartRef := Some (renderChart s)\<rparr>)"
  by (simp add: mountUI_def runEffects_def Let_def effect_defs renderChart_def renderDatasets_def)

lemma chartConsistent_rendered [simp]: "chartConsistent (s\<lparr>chartRef := Some (renderChart s)\<rparr>)"
  by (simp add: chartConsistent_def renderChart_def renderDatasets_def)

lemma handleEvent_chartRef:
  "handleEvent ev (s\<lparr>chartRef := r\<rparr>) = (handleEvent ev s)\<lparr>chartRef := r\<rparr>"
  by (cases ev) simp_all

lemma fold_handleEvent_chartRef:
  "fold handleEvent evs (s\<lparr>chartRef := r\<rparr>) = (fold handleEvent evs s)\<lparr>chartRef := r\<rparr>"
  by (induction evs arbitrary: s) (simp_all add: handleEvent_chartRef)

lemma renderChart_chartRef [simp]: "renderChart (s\<lparr>chartRef := r\<rparr>) = renderChart s"
  by (simp add: renderChart_def renderDatasets_def)

lemma runEvents_rendered:
  "chartConsistent s \<Longrightarrow>
   runEvents evs s = Inr ((fold handleEvent evs s)\<lparr>chartRef := Some (renderChart (fold handleEvent evs s))\<rparr>)"
proof (induction evs arbitrary: s)
  case Nil
  then show ?case by (simp add: chartConsistent_def)
next
  case (Cons ev evs)
  let ?s1 = "(handleEvent ev s)\<lparr>chartRef := Some (renderChart (handleEvent ev s))\<rparr>"
  have "runEvents (ev # evs) s = runEvents evs ?s1"
    by (simp add: uiStep_consistent [OF Cons.prems])
  also have "\<dots> = Inr ((fold handleEvent evs ?s1)\<lparr>chartRef := Some (renderChart (fold handleEvent evs ?s1))\<rparr>)"
    by (rule Cons.IH) simp
  finally show ?case by (simp add: fold_handleEvent_chartRef)
qed

lemma recordedData_handleEvent:
  "recordedData (handleEvent ev s) =
     (if ev = RecordData then handleRecordData (temperature s) (showCatalyst s) (recordedData s) else recordedData s)"
  by (cases ev) simp_all

lemma length_handleRecordData [simp]: "length (handleRecordData T c rs) = Suc (length rs)"
  by (simp add: handleRecordData_def Let_def)

lemma recordedData_fold:
  "\<exists>new. recordedData (fold handleEvent evs s) = recordedData s @ new
     \<and> length new = length (filter (\<lambda>ev. ev = RecordData) evs)"
proof (induction evs arbitrary: s)
  case Nil
  then show ?case by simp
next
  case (Cons ev evs)
  from Cons.IH [of "handleEvent ev s"] obtain new where
    "recordedData (fold handleEvent evs (handleEvent ev s)) = recordedData (handleEvent ev s) @ new"
    "length new = length (filter (\<lambda>ev. ev = RecordData) evs)" by blast
  then show ?case
    by (cases "ev = RecordData") (auto simp: recordedData_handleEvent handleRecordData_def Let_def)
qed

lemma colour_channel_bounds:
  assumes "0 \<le> ratio" and "ratio \<le> 1"
  shows "0 \<le> round (ratio * 255) \<and> round (ratio * (255 :: real)) \<le> 255"
proof -
  have "ratio * 255 - 1 / 2 < of_int (round (ratio * 255))" "of_int (round (ratio * 255)) \<le> ratio * 255 + (1 :: real) / 2"
    by (rule of_int_round_gt of_int_round_le)+
  with assms have "- 1 < real_of_int (round (ratio * 255))" "real_of_int (round (ratio * 255)) < 256"
    by simp_all
  then show ?thesis by linarith
qed

lemma round_complement:
  "255 \<le> round a + round (255 - a) \<and> round a + round (255 - (a :: real)) \<le> 256"
proof -
  have "a - 1 / 2 < of_int (round a)" "(255 - a) - 1 / 2 < of_int (round (255 - a))"
    and "of_int (round a) \<le> a + 1 / 2" "of_int (round (255 - a)) \<le> (255 - a) + (1 :: real) / 2"
    by (rule of_int_round_gt of_int_round_le)+
  then have "254 < real_of_int (round a + round (255 - a))" "real_of_int (round a + round (255 - a)) \<le> 256"
    by simp_all
  then show ?thesis by linarith
qed


subsection \<open>Properties\<close>

text \<open>
  C27. The chart refines its declarative render: after mounting, any sequence
  of user events (temperature changes, snapshots, toggles, recording) runs
  without touching an undefined dataset, and the Chart.js object patched in
  place by the four effects holds exactly the datasets and plugin options a
  fresh render of the final state would build (dynamic curve, one curve per
  snapshot in order, the enabled markers).
\<close>

theorem chart_refines_render:
  "mountUI s = Inr s0 \<Longrightarrow>
   runEvents evs s0 = Inr ((fold handleEvent evs s)\<lparr>chartRef := Some (renderChart (fold handleEvent evs s))\<rparr>)"
proof -
  assume "mountUI s = Inr s0"
  then have s0: "s0 = s\<lparr>chartRef := Some (renderChart s)\<rparr>" by (simp add: mountUI_eq)
  have "runEvents evs s0 = Inr ((fold handleEvent evs s0)\<lparr>chartRef := Some (renderChart (fold handleEvent evs s0))\<rparr>)"
    unfolding s0 by (rule runEvents_rendered) simp
  then show ?thesis by (simp add: s0 fold_handleEvent_chartRef)
qed

theorem chart_refines_render_witness:
  "mountUI initialUI = Inr (initialUI\<lparr>chartRef := Some (renderChart initialUI)\<rparr>)
   \<and> runEvents [TemperatureChange 400, Snapshot, ToggleAverage, ToggleCatalyst]
       (initialUI\<lparr>chartRef := Some (renderChart initialUI)\<rparr>)
     = Inr \<lparr>temperature = 400, snapshots = [400], showMostProbable = False, showAverage = True,
            showActivation = False, showCatalyst = True, recordedData = [],
            chartRef = Some \<lparr>datasets = [initialDynamicDataset 400, snapshotDataset 400, averageMarker 400],
                             activationPlugin = \<lparr>showActivationOpt = False, yMaxOpt = 0.5,
                                                   activationX = 300, xMaxOpt = 600\<rparr>\<rparr>\<rparr>"
  using chart_refines_render [of initialUI "initialUI\<lparr>chartRef := Some (renderChart initialUI)\<rparr>"
                                 "[TemperatureChange 400, Snapshot, ToggleAverage, ToggleCatalyst]"]
  by (simp add: mountUI_eq initialUI_def renderChart_def renderDatasets_def markers_def activationOptionsOf_def)

text \<open>
  C28. Recorded rows are never lost or rewritten: along any run from a
  consistent state, the recorded data only grows at its end, by exactly one
  row per \<open>RecordData\<close> event.
\<close>

theorem recordedData_append_only:
  "chartConsistent s \<Longrightarrow> runEvents evs s = Inr s' \<Longrightarrow>
   \<exists>new. recordedData s' = recordedData s @ new \<and> length new = length (filter (\<lambda>ev. ev = RecordData) evs)"
proof -
  assume c: "chartConsistent s" and r: "runEvents evs s = Inr s'"
  have "s' = (fold handleEvent evs s)\<lparr>chartRef := Some (renderChart (fold handleEvent evs s))\<rparr>"
    using r runEvents_rendered [OF c, of evs] by simp
  then have "recordedData s' = recordedData (fold handleEvent evs s)" by simp
  with recordedData_fold [of evs s] show ?thesis by simp
qed

theorem recordedData_append_only_witness:
  "chartConsistent (initialUI\<lparr>chartRef := Some (renderChart initialUI)\<rparr>)
   \<and> (\<exists>s'. runEvents [RecordData, ToggleCatalyst, RecordData] (initialUI\<lparr>chartRef := Some (renderChart initialUI)\<rparr>)
             = Inr s' \<and> length (recordedData s') = 2)"
proof -
  let ?s = "initialUI\<lparr>chartRef := Some (renderChart initialUI)\<rparr>"
    and ?evs = "[RecordData, ToggleCatalyst, RecordData]"
  let ?s' = "(fold handleEvent ?evs ?s)\<lparr>chartRef := Some (renderChart (fold handleEvent ?evs ?s))\<rparr>"
  have c: "chartConsistent ?s" by simp
  have r: "runEvents ?evs ?s = Inr ?s'" by (rule runEvents_rendered [OF c])
  from recordedData_append_only [OF c r] obtain new where
    "recordedData ?s' = recordedData ?s @ new" "length new = 2" by auto
  then have "length (recordedData ?s') = 2" by (simp add: initialUI_def)
  with c r show ?thesis by blast
qed

text \<open>
  C29. On the slider's range \<open>100..500\<close> the snapshot colour
  \<open>rgb(red,0,blue)\<close> has both channels in \<open>0..255\<close>, and the two channels add
  up to 255, or to 256 when both products end in exactly one half and
  \<open>Math.round\<close> rounds both up (at 140 K the colour is \<open>rgb(26,0,230)\<close>).
\<close>

theorem getColorForTemperature_bounds:
  assumes "100 \<le> T" and "T \<le> 500"
  shows "\<exists>red blue. getColorForTemperature T = RGB red 0 blue
           \<and> 0 \<le> red \<and> red \<le> 255 \<and> 0 \<le> blue \<and> blue \<le> 255
           \<and> 255 \<le> red + blue \<and> red + blue \<le> 256"
proof -
  let ?r = "(T - 100) / (500 - 100)"
  have r: "0 \<le> ?r" "?r \<le> 1" using assms by simp_all
  have "(1 - ?r) * 255 = 255 - ?r * 255" by (simp add: algebra_simps)
  then show ?thesis
    using colour_channel_bounds [OF r] colour_channel_bounds [of "1 - ?r"] r round_complement [of "?r * 255"]
    by (simp add: getColorForTemperature_def Let_def)
qed

theorem getColorForTemperature_bounds_witness:
  "100 \<le> (140 :: real) \<and> (140 :: real) \<le> 500 \<and> getColorForTemperature 140 = RGB 26 0 230"
  using getColorForTemperature_bounds [of 140]
  by (simp add: getColorForTemperature_def round_def)

text \<open>
  C40. Every chart the component shows is well-formed: along any run from a
  consistent state the Chart.js datasets keep the dynamic curve first and
  alone with order 2, followed by snapshot curves and markers in
  non-decreasing order.
\<close>

theorem chart_wellOrdered:
  "chartConsistent s \<Longrightarrow> runEvents evs s = Inr s' \<Longrightarrow>
   \<exists>c. chartRef s' = Some c \<and> wellOrdered (datasets c)"
proof -
  assume c: "chartConsistent s" and r: "runEvents evs s = Inr s'"
  let ?f = "fold handleEvent evs s"
  have s': "s' = ?f\<lparr>chartRef := Some (renderChart ?f)\<rparr>"
    using r runEvents_rendered [OF c, of evs] by simp
  have "sorted (map dsOrder (markers a b T))" "list_all (\<lambda>e. dsOrder e \<in> {4, 5}) (markers a b T)" for a b T
    using markers_order [of _ a b T] by (auto simp: sorted_iff_nth_mono list_all_iff)
  then show ?thesis
    using markers_order by (auto simp: s' renderChart_def renderDatasets_def wellOrdered_def sorted_append map_replicate_const
                                       list_all_iff comp_def)
qed

theorem chart_wellOrdered_witness:
  "chartConsistent (initialUI\<lparr>chartRef := Some (renderChart initialUI)\<rparr>)
   \<and> (\<exists>s'. runEvents [ToggleMostProbable, Snapshot] (initialUI\<lparr>chartRef := Some (renderChart initialUI)\<rparr>) = Inr s')"
proof -
  let ?s = "initialUI\<lparr>chartRef := Some (renderChart initialUI)\<rparr>"
  have c: "chartConsistent ?s" by simp
  have r: "runEvents [ToggleMostProbable, Snapshot] ?s
           = Inr ((fold handleEvent [ToggleMostProbable, Snapshot] ?s)
                   \<lparr>chartRef := Some (renderChart (fold handleEvent [ToggleMostProbable, Snapshot] ?s))\<rparr>)"
    by (rule runEvents_rendered [OF c])
  from chart_wellOrdered [OF c r] c r show ?thesis by blast
qed

subsection \<open>The snapshot button, the toggles and the recorded mode\<close>

lemma findMode_dynamicData_point:
  "findMode (energies ! 0) (dynamicData T)
     = (Some (mbDistribution (firstArgmax (dynamicData T)) T), firstArgmax (dynamicData T))"
proof -
  let ?pts = "dynamicData T"
  let ?pt = "hd (filter (\<lambda>pt. snd pt = maxDensity ?pts) ?pts)"
  have "filter (\<lambda>pt. snd pt = maxDensity ?pts) ?pts \<noteq> []"
    using maxDensity_in [OF dynamicData_ne [of T]] by (auto simp: filter_empty_conv)
  then have "?pt \<in> set ?pts" and m: "snd ?pt = maxDensity ?pts"
    using hd_in_set [of "filter (\<lambda>pt. snd pt = maxDensity ?pts) ?pts"] by auto
  then have "snd ?pt = mbDistribution (fst ?pt) T" by (auto simp: dynamicData_def)
  with m have "maxDensity ?pts = mbDistribution (firstArgmax ?pts) T" by (simp add: firstArgmax_def)
  with findMode_correct [OF dynamicData_ne [of T]] show ?thesis by simp
qed

lemma toggle_involutive:
  "ev \<in> {ToggleMostProbable, ToggleAverage, ToggleActivation, ToggleCatalyst} \<Longrightarrow>
   handleEvent ev (handleEvent ev s) = s"
  by auto

text \<open>
  C25. The Snapshot button adds exactly one curve to the chart: in a
  consistent state the datasets split into the dynamic curve with the earlier
  snapshot curves, then the markers; the step inserts between them the curve
  of the current temperature in its snapshot colour, appends the temperature
  to the snapshots, and leaves every other dataset and the plugin's options
  as they were.
\<close>

theorem snapshot_adds_one_curve:
  assumes "chartConsistent s"
  shows "\<exists>s' c c' pre post. uiStep Snapshot s = Inr s' \<and> chartRef s = Some c \<and> chartRef s' = Some c'
     \<and> datasets c = pre @ post \<and> datasets c' = pre @ snapshotDataset (temperature s) # post
     \<and> length pre = Suc (length (snapshots s)) \<and> (\<forall>d \<in> set post. dsOrder d = 5)
     \<and> snapshots s' = snapshots s @ [temperature s] \<and> activationPlugin c' = activationPlugin c"
proof -
  let ?pre = "initialDynamicDataset (temperature s) # map snapshotDataset (snapshots s)"
  let ?post = "markers (showMostProbable s) (showAverage s) (temperature s)"
  have c: "chartRef s = Some (renderChart s)" using assms by (simp add: chartConsistent_def)
  have "\<forall>d \<in> set ?post. dsOrder d = 5" using markers_order by blast
  let ?s' = "(handleEvent Snapshot s)\<lparr>chartRef := Some (renderChart (handleEvent Snapshot s))\<rparr>"
  have "uiStep Snapshot s = Inr ?s'" by (rule uiStep_consistent [OF assms])
  with c \<open>\<forall>d \<in> set ?post. dsOrder d = 5\<close> show ?thesis
    by (intro exI [of _ ?s'] exI [of _ "renderChart s"] exI [of _ "renderChart (handleEvent Snapshot s)"]
        exI [of _ ?pre] exI [of _ ?post]) (simp add: renderChart_def renderDatasets_def)
qed

theorem snapshot_adds_one_curve_witness:
  "\<exists>s' c c' pre post. uiStep Snapshot (initialUI\<lparr>chartRef := Some (renderChart initialUI)\<rparr>) = Inr s'
     \<and> chartRef (initialUI\<lparr>chartRef := Some (renderChart initialUI)\<rparr>) = Some c \<and> chartRef s' = Some c'
     \<and> datasets c = pre @ post \<and> datasets c' = pre @ snapshotDataset 300 # post
     \<and> length pre = Suc 0 \<and> (\<forall>d \<in> set post. dsOrder d = 5)
     \<and> snapshots s' = [300] \<and> activationPlugin c' = activationPlugin c"
  using snapshot_adds_one_curve [OF chartConsistent_rendered [of initialUI]] by (simp add: initialUI_def)

text \<open>
  C32. Each of the four toggle buttons undoes itself: from a consistent state,
  pressing the same toggle twice runs the effects twice and returns exactly
  the state it started from, the chart included (effect 3 removes the markers
  it added, effect 4 restores the plugin's options).
\<close>

theorem toggle_twice_restores:
  assumes "chartConsistent s"
    and "ev \<in> {ToggleMostProbable, ToggleAverage, ToggleActivation, ToggleCatalyst}"
  shows "runEvents [ev, ev] s = Inr s"
proof -
  have "fold handleEvent [ev, ev] s = s" using toggle_involutive [OF assms(2)] by simp
  with runEvents_rendered [OF assms(1), of "[ev, ev]"] assms(1) show ?thesis
    by (simp add: chartConsistent_def)
qed

theorem toggle_twice_restores_witness:
  "chartConsistent (initialUI\<lparr>chartRef := Some (renderChart initialUI)\<rparr>)
   \<and> ToggleMostProbable \<in> {ToggleMostProbable, ToggleAverage, ToggleActivation, ToggleCatalyst}
   \<and> runEvents [ToggleMostProbable, ToggleMostProbable] (initialUI\<lparr>chartRef := Some (renderChart initialUI)\<rparr>)
       = Inr (initialUI\<lparr>chartRef := Some (renderChart initialUI)\<rparr>)"
  using toggle_twice_restores [OF chartConsistent_rendered [of initialUI], of ToggleMostProbable] by simp

text \<open>
  C33. The table and the chart agree on the most probable energy: with the
  Most Probable toggle on, recording data in a consistent state appends a row
  for the current temperature, and the chart then shows the blue Most
  Probable marker exactly at the row's energy, on the curve. The two values
  come from two separate scans in the source (effect 3 and
  \<open>handleRecordData\<close>).
\<close>

theorem recorded_mode_matches_marker:
  assumes "chartConsistent s" and "showMostProbable s"
  shows "\<exists>s' c. uiStep RecordData s = Inr s' \<and> chartRef s' = Some c
     \<and> recTemperature (last (recordedData s')) = temperature s
     \<and> \<lparr>dsLabel = MostProbableLabel,
         dsData = [(mostProbableEnergy (last (recordedData s')),
                    mbDistribution (mostProbableEnergy (last (recordedData s'))) (temperature s))],
         dsColour = Blue, dsOrder = 5\<rparr> \<in> set (datasets c)"
  using uiStep_consistent [OF assms(1), of RecordData] assms(2)
  by (simp add: renderChart_def renderDatasets_def markers_def mostProbableMarker_def
      findMode_dynamicData_point handleRecordData_def Let_def)

theorem recorded_mode_matches_marker_witness:
  "\<exists>s' c. uiStep RecordData ((initialUI\<lparr>showMostProbable := True\<rparr>)\<lparr>chartRef := Some (renderChart (initialUI\<lparr>showMostProbable := True\<rparr>))\<rparr>) = Inr s'
     \<and> chartRef s' = Some c \<and> recTemperature (last (recordedData s')) = 300
     \<and> \<lparr>dsLabel = MostProbableLabel,
         dsData = [(mostProbableEnergy (last (recordedData s')),
                    mbDistribution (mostProbableEnergy (last (recordedData s'))) 300)],
         dsColour = Blue, dsOrder = 5\<rparr> \<in> set (datasets c)"
  using recorded_mode_matches_marker [OF chartConsistent_rendered [of "initialUI\<lparr>showMostProbable := True\<rparr>"]]
  by (simp add: initialUI_def)

end
