(* ===== verification/Plugin.thy ===== *)
theory Plugin
  imports Chart
begin

text \<open>
  The activation plugin of \<open>src/src/components/MBDistributionChart.js\<close>
  (\<open>afterDatasetsDraw\<close>, lines 23--59), which Chart.js calls after drawing the
  datasets. Its output is the list of 2D-context path commands it issues; the
  scales' \<open>getPixelForValue\<close> are parameters \<open>xPx\<close> and \<open>yPx\<close>, and the fill and
  stroke styles are constant styling, not modelled. Each \<open>return\<close> before
  drawing is the empty list.
\<close>

datatype pathCmd =
    Save | Restore | BeginPath | ClosePath | Fill | Stroke
  | MoveTo real real
  | LineTo real real
  | SetLineDash "real list"

text \<open>The drawing itself (lines 37--57), for the points at or above the activation energy.\<close>

definition activationDrawing ::
  "(real \<Rightarrow> real) \<Rightarrow> (real \<Rightarrow> real) \<Rightarrow> activationOptions \<Rightarrow> energy_point list \<Rightarrow> pathCmd list" where
  "activationDrawing xPx yPx options regionPoints =
     (let xActivation = xPx (activationX options);
          yZero = yPx 0;
          xMax = xPx (xMaxOpt options);
          yMax = (if yMaxOpt options = 0 then 0.5 else yMaxOpt options) in
      [Save, BeginPath, MoveTo xActivation yZero]
      @ map (\<lambda>pt. LineTo (xPx (fst pt)) (yPx (snd pt))) regionPoints
      @ [LineTo xMax yZero, LineTo xActivation yZero, ClosePath, Fill,
         BeginPath, SetLineDash [4, 4], MoveTo xActivation (yPx 0), LineTo xActivation (yPx yMax),
         Stroke, Restore])"

definition afterDatasetsDraw ::
  "chart \<Rightarrow> (real \<Rightarrow> real) \<Rightarrow> (real \<Rightarrow> real) \<Rightarrow> activationOptions \<Rightarrow> pathCmd list" where
  "afterDatasetsDraw c xPx yPx options =
     (if \<not> showActivationOpt options then []
      else case datasets c of
        [] \<Rightarrow> []
      | dynamicDataset # _ \<Rightarrow>
          (let regionPoints = filter (\<lambda>pt. activationX options \<le> fst pt) (dsData dynamicDataset) in
           if regionPoints = [] then [] else activationDrawing xPx yPx options regionPoints))"

subsection \<open>Lemmas\<close>

lemma activationDrawing_ne: "activationDrawing xPx yPx options pts \<noteq> []"
  by (simp add: activationDrawing_def Let_def)

lemma region_ne:
  "th \<le> 600 \<Longrightarrow> filter (\<lambda>pt. th \<le> fst pt) (dynamicData T) \<noteq> []"
  unfolding filter_empty_conv using point_in_dynamicData [of 600 T] by force

subsection \<open>Properties\<close>

text \<open>
  C38. The shading shows what the recorded rate measures: in every consistent
  state with the activation toggle on, the plugin's threshold is the one
  \<open>handleRecordData\<close> uses (300 with the catalyst, 400 without), the plugin
  never returns early, and the polygon it fills runs through exactly the chart
  points of the current curve at or above that threshold, the points whose
  density \<open>percentageAbove\<close> sums.
\<close>

theorem plugin_shades_rate_region:
  assumes "chartConsistent s" and "showActivation s"
  shows "\<exists>c. chartRef s = Some c
           \<and> activationX (activationPlugin c) = activationThreshold (showCatalyst s)
           \<and> afterDatasetsDraw c xPx yPx (activationPlugin c)
               = activationDrawing xPx yPx (activationPlugin c)
                   (filter (\<lambda>pt. activationThreshold (showCatalyst s) \<le> fst pt) (dynamicData (temperature s)))
           \<and> afterDatasetsDraw c xPx yPx (activationPlugin c) \<noteq> []"
proof -
  have th: "activationThreshold (showCatalyst s) \<le> 600" by (simp add: activationThreshold_def)
  show ?thesis
    using assms region_ne [OF th, of "temperature s"] activationDrawing_ne
    by (simp add: chartConsistent_def renderChart_def renderDatasets_def activationOptionsOf_def
                  activationThreshold_def afterDatasetsDraw_def initialDynamicDataset_def Let_def)
qed

theorem plugin_shades_rate_region_witness:
  "chartConsistent ((initialUI\<lparr>showActivation := True\<rparr>)\<lparr>chartRef := Some (renderChart (initialUI\<lparr>showActivation := True\<rparr>))\<rparr>)
   \<and> showActivation ((initialUI\<lparr>showActivation := True\<rparr>)\<lparr>chartRef := Some (renderChart (initialUI\<lparr>showActivation := True\<rparr>))\<rparr>)
   \<and> afterDatasetsDraw (renderChart (initialUI\<lparr>showActivation := True\<rparr>)) (\<lambda>E. E) (\<lambda>f. f)
       (activationPlugin (renderChart (initialUI\<lparr>showActivation := True\<rparr>)))
     = activationDrawing (\<lambda>E. E) (\<lambda>f. f) (activationPlugin (renderChart (initialUI\<lparr>showActivation := True\<rparr>)))
         (filter (\<lambda>pt. 400 \<le> fst pt) (dynamicData 300))"
proof -
  let ?s = "(initialUI\<lparr>showActivation := True\<rparr>)\<lparr>chartRef := Some (renderChart (initialUI\<lparr>showActivation := True\<rparr>))\<rparr>"
  have c: "chartConsistent ?s" by (rule chartConsistent_rendered)
  have a: "showActivation ?s" by simp
  from plugin_shades_rate_region [OF c a, of "\<lambda>E. E" "\<lambda>f. f"] c a show ?thesis
    by (simp add: initialUI_def activationThreshold_def)
qed

text \<open>
  C39. The plugin draws nothing exactly in its three early-return cases: the
  toggle is off, there is no dataset 0, or no point of dataset 0 lies at or
  above the activation energy; otherwise it draws the closed polygon and the
  dashed line.
\<close>

theorem afterDatasetsDraw_early_return:
  "afterDatasetsDraw c xPx yPx options = [] \<longleftrightarrow>
     \<not> showActivationOpt options \<or> datasets c = []
     \<or> filter (\<lambda>pt. activationX options \<le> fst pt) (dsData (hd (datasets c))) = []"
  by (cases "datasets c") (simp_all add: afterDatasetsDraw_def Let_def activationDrawing_ne)

theorem afterDatasetsDraw_early_return_witness:
  "afterDatasetsDraw \<lparr>datasets = [], activationPlugin = activationOptionsOf True False\<rparr> (\<lambda>E. E) (\<lambda>f. f)
     (activationOptionsOf True False) = []
   \<and> datasets \<lparr>datasets = [], activationPlugin = activationOptionsOf True False\<rparr> = []"
  using afterDatasetsDraw_early_return [of "\<lparr>datasets = [], activationPlugin = activationOptionsOf True False\<rparr>"
                                          "\<lambda>E. E" "\<lambda>f. f" "activationOptionsOf True False"]
  by simp

end
