(* ===== verification/View.thy ===== *)
theory View
  imports Plugin
begin

text \<open>
  The markup the chart component renders besides the chart
  (\<open>src/src/components/MBDistributionChart.js\<close>, lines 318--413): the five
  control buttons, whose colours show the state of the four toggles, and the
  table of recorded rows. A JavaScript number is printed by \<open>String(n)\<close>;
  the model prints integers (the slider's temperatures and the grid's
  energies are integers) and leaves other numbers unprinted (\<open>None\<close>).
\<close>

subsection \<open>Control buttons (lines 318--389)\<close>

record buttonView =
  btnLabel :: string
  btnBackground :: string
  btnColour :: string

definition toggleStyle :: "string \<Rightarrow> string \<Rightarrow> bool \<Rightarrow> buttonView" where
  "toggleStyle label colour active =
     \<lparr>btnLabel = label, btnBackground = (if active then colour else ''#fff''),
      btnColour = (if active then ''#fff'' else colour)\<rparr>"

definition controlButtons :: "ui \<Rightarrow> buttonView list" where
  "controlButtons s =
     [toggleStyle ''Most Probable Energy'' ''#007BFF'' (showMostProbable s),
      toggleStyle ''Average Energy'' ''#DC3545'' (showAverage s),
      toggleStyle ''Activation Energy'' ''#28a745'' (showActivation s),
      toggleStyle ''Catalyst'' ''#8A2BE2'' (showCatalyst s),
      \<lparr>btnLabel = ''Record Data'', btnBackground = ''#fff'', btnColour = ''#6c757d''\<rparr>]"

text \<open>A button is drawn filled when its background is not white.\<close>

definition filled :: "buttonView \<Rightarrow> bool" where
  "filled b \<longleftrightarrow> btnBackground b \<noteq> ''#fff''"

subsection \<open>The table of recorded rows (lines 390--413)\<close>

definition intString :: "int \<Rightarrow> string" where
  "intString i = (if i < 0 then ''-'' else []) @ map digitChar (decDigits (nat \<bar>i\<bar>))"

definition numberString :: "real \<Rightarrow> string option" where
  "numberString v = (if real_of_int \<lfloor>v\<rfloor> = v then Some (intString \<lfloor>v\<rfloor>) else None)"

text \<open>The row keeps the two \<open>toFixed(2)\<close> strings as hundredths; this prints them again.\<close>

definition hundredthsString :: "int \<Rightarrow> string" where
  "hundredthsString n = (if n < 0 then ''-'' else []) @ showHundredths (nat \<bar>n\<bar>)"

definition tableHeader :: "string list" where
  "tableHeader = [''Temperature (K)'', ''Most Probable Energy'', ''Percentage Above Activation'', ''Rate of Reaction'']"

definition tableRow :: "dataRecord \<Rightarrow> string option list" where
  "tableRow row =
     [numberString (recTemperature row), numberString (mostProbableEnergy row),
      Some (hundredthsString (percentageAboveFixed row) @ ''%''), Some (hundredthsString (rateOfReaction row))]"

definition tableRows :: "dataRecord list \<Rightarrow> string option list list" where
  "tableRows rows = map tableRow rows"

subsection \<open>The options passed to the chart (lines 266--301)\<close>

text \<open>
  The axes' ranges and the plugin's options of the \<open>options\<close> object;
  responsiveness, animation, titles and the legend's look are not modelled.
  The plugin's options are written here a second time in the source (effect 4
  writes them too); the model keeps both copies.
\<close>

record axis =
  axisMin :: real
  axisMax :: real

record chartOptions =
  xAxis :: axis
  yAxis :: axis
  pluginOptions :: activationOptions

definition renderPluginOptions :: "bool \<Rightarrow> bool \<Rightarrow> activationOptions" where
  "renderPluginOptions activationShown catalystOn =
     \<lparr>showActivationOpt = activationShown, yMaxOpt = 0.5,
      activationX = (if catalystOn then 300 else 400), xMaxOpt = 600\<rparr>"

definition renderOptions :: "ui \<Rightarrow> chartOptions" where
  "renderOptions s =
     \<lparr>xAxis = \<lparr>axisMin = 0, axisMax = 600\<rparr>, yAxis = \<lparr>axisMin = 0, axisMax = 0.5\<rparr>,
      pluginOptions = renderPluginOptions (showActivation s) (showCatalyst s)\<rparr>"

subsection \<open>Lemmas\<close>

lemma numberString_int [simp]: "numberString (real_of_int k) = Some (intString k)"
  by (simp add: numberString_def)

lemma numberString_nat [simp]: "numberString (real n) = Some (intString (int n))"
  using numberString_int [of "int n"] by simp

lemma toFixedString_nonneg: "0 \<le> v \<Longrightarrow> toFixedString v = hundredthsString (toFixed2 v)"
  using toFixed2_sign [of v] by (simp add: toFixedString_def hundredthsString_def)

lemma firstArgmax_in: "pts \<noteq> [] \<Longrightarrow> firstArgmax pts \<in> fst ` set pts"
proof -
  assume ne: "pts \<noteq> []"
  have "filter (\<lambda>pt. snd pt = maxDensity pts) pts \<noteq> []"
    using maxDensity_in [OF ne] by (auto simp: filter_empty_conv)
  then have "hd (filter (\<lambda>pt. snd pt = maxDensity pts) pts) \<in> set pts"
    using hd_in_set by fastforce
  then show ?thesis by (simp add: firstArgmax_def)
qed

lemma recorded_mode_on_grid:
  "\<exists>n \<le> 600. snd (findMode (energies ! 0) (dynamicData T)) = real n"
proof -
  have "firstArgmax (dynamicData T) \<in> fst ` set (dynamicData T)"
    by (rule firstArgmax_in [OF dynamicData_ne])
  then have "firstArgmax (dynamicData T) \<in> set energies"
    by (auto simp: dynamicData_def)
  then show ?thesis
    by (auto simp: findMode_correct [OF dynamicData_ne] set_energies N_def)
qed

lemma mostProbableMarker_label: "dsLabel ` set (mostProbableMarker T) = {MostProbableLabel}"
  by (simp add: mostProbableMarker_def findMode_correct [OF dynamicData_ne])

lemma render_labels:
  "dsLabel ` set (renderDatasets s) =
     {TempLabel (temperature s)} \<union> TempLabel ` set (snapshots s)
     \<union> (if showMostProbable s then {MostProbableLabel} else {})
     \<union> (if showAverage s then {AverageLabel} else {})"
  by (auto simp: renderDatasets_def markers_def initialDynamicDataset_def snapshotDataset_def
                 averageMarker_def Let_def mostProbableMarker_label image_Un image_image)

subsection \<open>Properties\<close>

text \<open>
  C6. The control buttons tell the truth about the chart: in every consistent
  state, the "Most Probable Energy" and "Average Energy" buttons are filled
  exactly when the chart holds that marker, "Activation Energy" exactly when
  the plugin draws the shading, "Catalyst" exactly when the plugin's activation
  energy is the lowered 300, and "Record Data" never.
\<close>

theorem controlButtons_reflect_chart:
  assumes "chartConsistent s"
  shows "\<exists>c. chartRef s = Some c \<and>
           map filled (controlButtons s) =
             [MostProbableLabel \<in> dsLabel ` set (datasets c), AverageLabel \<in> dsLabel ` set (datasets c),
              afterDatasetsDraw c xPx yPx (activationPlugin c) \<noteq> [], activationX (activationPlugin c) = 300,
              False]"
proof -
  let ?c = "renderChart s"
  have ref: "chartRef s = Some ?c" using assms by (simp add: chartConsistent_def)
  have lab: "dsLabel ` set (datasets ?c) =
     {TempLabel (temperature s)} \<union> TempLabel ` set (snapshots s)
     \<union> (if showMostProbable s then {MostProbableLabel} else {})
     \<union> (if showAverage s then {AverageLabel} else {})"
    by (simp add: renderChart_def render_labels)
  have "activationX (activationPlugin ?c) \<le> 600"
    by (simp add: renderChart_def activationOptionsOf_def)
  from region_ne [OF this, of "temperature s"]
  have draw: "afterDatasetsDraw ?c xPx yPx (activationPlugin ?c) \<noteq> [] \<longleftrightarrow> showActivation s"
    using activationDrawing_ne
    by (simp add: afterDatasetsDraw_def renderChart_def renderDatasets_def initialDynamicDataset_def
                  activationOptionsOf_def Let_def)
  have cat: "activationX (activationPlugin ?c) = 300 \<longleftrightarrow> showCatalyst s"
    by (simp add: renderChart_def activationOptionsOf_def)
  show ?thesis
    using ref lab draw cat by (auto simp: controlButtons_def toggleStyle_def filled_def)
qed

theorem controlButtons_reflect_chart_witness:
  "chartConsistent ((initialUI\<lparr>showCatalyst := True\<rparr>)\<lparr>chartRef := Some (renderChart (initialUI\<lparr>showCatalyst := True\<rparr>))\<rparr>)
   \<and> map filled (controlButtons (initialUI\<lparr>showCatalyst := True\<rparr>)) = [False, False, False, True, False]"
proof -
  let ?s = "(initialUI\<lparr>showCatalyst := True\<rparr>)\<lparr>chartRef := Some (renderChart (initialUI\<lparr>showCatalyst := True\<rparr>))\<rparr>"
  have c: "chartConsistent ?s" by (rule chartConsistent_rendered)
  from controlButtons_reflect_chart [OF c, of "\<lambda>E. E" "\<lambda>f. f"] c show ?thesis
    by (simp add: controlButtons_def toggleStyle_def filled_def initialUI_def)
qed

text \<open>
  C17. The table shows what the source stores: recording a row at an integer
  temperature \<open>k\<close> adds exactly one table row, after the existing ones, whose
  cells are the digits of \<open>k\<close>, the digits of a grid energy in \<open>0..600\<close>, and
  the \<open>toFixed(2)\<close> string of the percentage above the threshold (with a
  percent sign) twice; the record's hundredths print back to that string.
\<close>

theorem tableRows_record:
  "T = real_of_int k \<Longrightarrow>
   \<exists>n \<le> 600. tableRows (handleRecordData T c rs) = tableRows rs @
     [[Some (intString k), Some (intString (int n)),
       Some (toFixedString (percentageAbove (activationThreshold c) (dynamicData T)) @ ''%''),
       Some (toFixedString (percentageAbove (activationThreshold c) (dynamicData T)))]]"
proof -
  assume T: "T = real_of_int k"
  let ?p = "percentageAbove (activationThreshold c) (dynamicData T)"
  obtain n where n: "n \<le> 600" "snd (findMode (energies ! 0) (dynamicData T)) = real n"
    using recorded_mode_on_grid by blast
  have "toFixedString ?p = hundredthsString (toFixed2 ?p)"
    using percentageAbove_curve_bounds [of "activationThreshold c" T] by (simp add: toFixedString_nonneg)
  with n T show ?thesis
    by (intro exI [of _ n]) (simp add: tableRows_def tableRow_def handleRecordData_last)
qed

theorem tableRows_record_witness:
  "(300 :: real) = real_of_int 300
   \<and> (\<exists>n \<le> 600. tableRows (handleRecordData 300 False []) =
        [[Some (intString 300), Some (intString (int n)),
          Some (toFixedString (percentageAbove 400 (dynamicData 300)) @ ''%''),
          Some (toFixedString (percentageAbove 400 (dynamicData 300)))]])"
  using tableRows_record [of 300 300 False "[]"] by (simp add: tableRows_def activationThreshold_def)

text \<open>
  C24. Everything the chart plots lies on its x-axis, and the two copies of
  the plugin's options agree: in every consistent state each point of each
  dataset (the current curve, the snapshot curves, the most probable and the
  average energy markers) has its energy within \<open>[min, max] = [0, 600]\<close> of the
  rendered options, and the plugin options effect 4 stores in the chart are
  those the rendered \<open>options\<close> object passes.
\<close>

theorem chart_points_on_x_axis:
  assumes "chartConsistent s"
  shows "\<exists>c. chartRef s = Some c \<and> activationPlugin c = pluginOptions (renderOptions s)
           \<and> list_all (\<lambda>ds. list_all (\<lambda>pt. axisMin (xAxis (renderOptions s)) \<le> fst pt
                                       \<and> fst pt \<le> axisMax (xAxis (renderOptions s))) (dsData ds))
                (datasets c)"
proof -
  have grid: "0 \<le> fst pt \<and> fst pt \<le> 600" if "pt \<in> set (dynamicData T)" for pt T
    using that energies_nonneg energies_le_N by (auto simp: dynamicData_def)
  have mode: "0 \<le> firstArgmax (dynamicData T) \<and> firstArgmax (dynamicData T) \<le> 600" for T
    using firstArgmax_in [OF dynamicData_ne, of T] grid by force
  have mean: "0 \<le> meanEnergy (dynamicData T) \<and> meanEnergy (dynamicData T) \<le> 600" for T
    by (rule meanEnergy_curve_bounds)
  have "list_all (\<lambda>ds. list_all (\<lambda>pt. 0 \<le> fst pt \<and> fst pt \<le> 600) (dsData ds)) (renderDatasets s)"
    using grid mode mean
    by (auto simp: renderDatasets_def markers_def initialDynamicDataset_def snapshotDataset_def list_all_iff
                   mostProbableMarker_def averageMarker_def Let_def findMode_correct [OF dynamicData_ne])
  then show ?thesis
    using assms by (simp add: chartConsistent_def renderChart_def renderOptions_def renderPluginOptions_def
                              activationOptionsOf_def)
qed

theorem chart_points_on_x_axis_witness:
  "chartConsistent (initialUI\<lparr>chartRef := Some (renderChart initialUI)\<rparr>)
   \<and> activationPlugin (renderChart initialUI) = pluginOptions (renderOptions initialUI)"
  using chart_points_on_x_axis [OF chartConsistent_rendered [of initialUI]] by (simp add: renderOptions_def)

end
