(* ===== verification/App.thy ===== *)
theory App
  imports Canvas View
begin

text \<open>
  The application shell \<open>App.js\<close> (concatenated into
  \<open>src/src/components/MBDistributionChart.js\<close> from line 417). Its state is
  the temperature and the snapshot list, held in the chart component's state
  record \<open>ui\<close>; the simulation's refs are the record \<open>sim\<close>. The slider's
  handler reads the input's string with \<open>parseFloat\<close> (lines 426--428); the
  snapshot button appends the temperature (lines 430--432, the event
  \<open>Snapshot\<close>). The shell renders a label with the temperature, the range
  input and the two children, both given the same temperature (lines 472--526).
\<close>

section \<open>Reading the slider's string\<close>

text \<open>
  \<open>parseFloat\<close> after the ECMAScript definition: leading white space is
  skipped, then the longest prefix that is a decimal literal (sign, digits,
  an optional fraction, an optional exponent) is read; a string with no such
  prefix gives \<open>NaN\<close>. \<open>None\<close> is every non-finite result: \<open>NaN\<close> and the
  \<open>Infinity\<close> prefixes (which have no digits). The value is the exact real
  the literal denotes; rounding to a double is not modelled.
\<close>

definition jsWhiteSpace :: "char \<Rightarrow> bool" where
  "jsWhiteSpace c \<longleftrightarrow> (of_char c :: nat) \<in> {9, 10, 11, 12, 13, 32, 160}"

definition signPart :: "string \<Rightarrow> bool \<times> string" where
  "signPart s =
     (case s of
        c # r \<Rightarrow> if c = CHR ''-'' then (True, r) else if c = CHR ''+'' then (False, r) else (False, s)
      | [] \<Rightarrow> (False, []))"

definition exponentPart :: "string \<Rightarrow> int" where
  "exponentPart s =
     (case s of
        c # r \<Rightarrow>
          if c = CHR ''e'' \<or> c = CHR ''E'' then
            (case signPart r of (neg, r') \<Rightarrow>
               let ds = takeWhile isDigit r' in
               if ds = [] then 0 else if neg then - int (digitsValue ds) else int (digitsValue ds))
          else 0
      | [] \<Rightarrow> 0)"

definition scale10 :: "int \<Rightarrow> real" where
  "scale10 e = (if 0 \<le> e then 10 ^ nat e else 1 / 10 ^ nat (- e))"

definition fractionPart :: "string \<Rightarrow> string \<times> string" where
  "fractionPart s =
     (case s of
        c # r \<Rightarrow> if c = CHR ''.'' then (takeWhile isDigit r, dropWhile isDigit r) else ([], s)
      | [] \<Rightarrow> ([], []))"

definition parseFloat :: "string \<Rightarrow> real option" where
  "parseFloat str =
     (case signPart (dropWhile jsWhiteSpace str) of (neg, s) \<Rightarrow>
        let ip = takeWhile isDigit s in
        case fractionPart (dropWhile isDigit s) of (fp, rest) \<Rightarrow>
          if ip = [] \<and> fp = [] then None
          else
            let m = (real (digitsValue ip) + real (digitsValue fp) / 10 ^ length fp) * scale10 (exponentPart rest) in
            Some (if neg then - m else m))"

section \<open>The application's state and handlers\<close>

datatype appError =
    NonFiniteTemperature      \<comment> \<open>\<open>setTemperature(NaN)\<close>: the string had no number\<close>
  | ChartFault uiError

record app =
  appUI :: ui
  appSim :: sim

definition handleTemperatureChange :: "string \<Rightarrow> appError + event" where
  "handleTemperatureChange str =
     (case parseFloat str of None \<Rightarrow> Inl NonFiniteTemperature | Some v \<Rightarrow> Inr (TemperatureChange v))"

text \<open>
  An event of the shell or of the chart's buttons re-renders both children:
  the chart's effects run (\<open>uiStep\<close>), and the simulation's effect of lines
  9--11 copies the new temperature into \<open>tempRef\<close>.
\<close>

definition appEvent :: "event \<Rightarrow> app \<Rightarrow> appError + app" where
  "appEvent ev a =
     (case uiStep ev (appUI a) of
        Inl e \<Rightarrow> Inl (ChartFault e)
      | Inr u' \<Rightarrow> Inr \<lparr>appUI = u', appSim = (appSim a)\<lparr>tempRef := temperature u'\<rparr>\<rparr>)"

definition sliderInput :: "string \<Rightarrow> app \<Rightarrow> appError + app" where
  "sliderInput str a = (case handleTemperatureChange str of Inl e \<Rightarrow> Inl e | Inr ev \<Rightarrow> appEvent ev a)"

text \<open>
  The strings the range input delivers: \<open>min = 100\<close>, \<open>max = 500\<close>, \<open>step = 1\<close>,
  so the browser's value is an integer of that range, printed as \<open>String\<close>
  prints it.
\<close>

definition rangeValues :: "string list" where
  "rangeValues = map intString [100..500]"

definition buttonEvent :: "event \<Rightarrow> bool" where
  "buttonEvent ev = (case ev of TemperatureChange v \<Rightarrow> False | _ \<Rightarrow> True)"

inductive app_reachable :: "app \<Rightarrow> bool" where
  mount: "mountUI initialUI = Inr u \<Longrightarrow> random_unit rnd \<Longrightarrow> initParticles (temperature initialUI) rnd = Inr ps \<Longrightarrow>
          app_reachable \<lparr>appUI = u, appSim = \<lparr>tempRef = temperature initialUI, particlesRef = ps\<rparr>\<rparr>"
| slider: "app_reachable a \<Longrightarrow> str \<in> set rangeValues \<Longrightarrow> sliderInput str a = Inr a' \<Longrightarrow> app_reachable a'"
| button: "app_reachable a \<Longrightarrow> buttonEvent ev \<Longrightarrow> appEvent ev a = Inr a' \<Longrightarrow> app_reachable a'"
| frame: "app_reachable a \<Longrightarrow> updateParticles (tempRef (appSim a)) (particlesRef (appSim a)) = Inr ps' \<Longrightarrow>
          app_reachable (a\<lparr>appSim := (appSim a)\<lparr>particlesRef := ps'\<rparr>\<rparr>)"

section \<open>The shell's render (lines 472--526)\<close>

text \<open>
  The label's text \<open>Temperature: {temperature} K\<close>, the range input's
  \<open>value\<close>, and the props of the two children. The layout around them
  (containers, heading, styles) shows nothing of the state.
\<close>

record appView =
  labelText :: "string option"
  sliderValue :: real
  canvasTemperature :: temperature
  chartTemperature :: temperature
  chartSnapshots :: "temperature list"

definition temperatureLabel :: "temperature \<Rightarrow> string option" where
  "temperatureLabel T = map_option (\<lambda>s. ''Temperature: '' @ s @ '' K'') (numberString T)"

definition renderApp :: "ui \<Rightarrow> appView" where
  "renderApp s =
     \<lparr>labelText = temperatureLabel (temperature s), sliderValue = temperature s,
      canvasTemperature = temperature s, chartTemperature = temperature s, chartSnapshots = snapshots s\<rparr>"

definition app_inv :: "app \<Rightarrow> bool" where
  "app_inv a \<longleftrightarrow> chartConsistent (appUI a) \<and> sim_inv (appSim a)
     \<and> tempRef (appSim a) = temperature (appUI a) \<and> temperature (appUI a) \<in> \<int>"

section \<open>Lemmas\<close>

lemma digitsValue_Nil [simp]: "digitsValue [] = 0"
  by (simp add: digitsValue_def)

lemma digits_intString:
  "\<forall>c \<in> set (map digitChar (decDigits n)). isDigit c \<and> \<not> jsWhiteSpace c \<and> c \<noteq> CHR ''-'' \<and> c \<noteq> CHR ''+''"
proof
  fix c assume "c \<in> set (map digitChar (decDigits n))"
  then obtain d where d: "d < 10" "c = digitChar d" using decDigits_small [of n] by auto
  then have o: "(of_char c :: nat) = 48 + d" by (simp add: digitChar_def of_char_of)
  have "isDigit c" using digitChar_props [OF d(1)] d(2) by simp
  moreover have "\<not> jsWhiteSpace c" using o d(1) by (auto simp: jsWhiteSpace_def)
  moreover have "c \<noteq> CHR ''-'' \<and> c \<noteq> CHR ''+''"
    using o d(1) by (auto dest: arg_cong [where f = "of_char :: char \<Rightarrow> nat"])
  ultimately show "isDigit c \<and> \<not> jsWhiteSpace c \<and> c \<noteq> CHR ''-'' \<and> c \<noteq> CHR ''+''" by blast
qed

lemma parseFloat_digits:
  "parseFloat (map digitChar (decDigits n)) = Some (real n)"
  "parseFloat (CHR ''-'' # map digitChar (decDigits n)) = Some (- real n)"
proof -
  let ?ds = "map digitChar (decDigits n)"
  have all: "\<forall>c \<in> set ?ds. isDigit c \<and> \<not> jsWhiteSpace c \<and> c \<noteq> CHR ''-'' \<and> c \<noteq> CHR ''+''"
    by (rule digits_intString)
  obtain c r where cr: "?ds = c # r" using decDigits_ne [of n] by (cases "decDigits n") auto
  have c: "\<not> jsWhiteSpace c" "c \<noteq> CHR ''-''" "c \<noteq> CHR ''+''" using all cr by auto
  have tw: "takeWhile isDigit ?ds = ?ds" and dw: "dropWhile isDigit ?ds = []" using all by simp_all
  have v: "digitsValue ?ds = n" by (rule digitsValue_decDigits)
  have m: "\<not> jsWhiteSpace (CHR ''-'')" by (simp add: jsWhiteSpace_def)
  have ne: "?ds \<noteq> []" using decDigits_ne [of n] by simp
  have "dropWhile jsWhiteSpace ?ds = ?ds" and "signPart ?ds = (False, ?ds)"
    using c cr by (simp_all add: signPart_def)
  then show "parseFloat ?ds = Some (real n)"
    using ne by (simp add: parseFloat_def fractionPart_def exponentPart_def scale10_def tw dw v)
  show "parseFloat (CHR ''-'' # ?ds) = Some (- real n)"
    using m ne by (simp add: parseFloat_def signPart_def fractionPart_def exponentPart_def scale10_def tw dw v)
qed

lemma parseFloat_intString: "parseFloat (intString k) = Some (real_of_int k)"
  using parseFloat_digits [of "nat \<bar>k\<bar>"] by (cases "k < 0") (simp_all add: intString_def)

lemma rangeValues_iff: "str \<in> set rangeValues \<longleftrightarrow> (\<exists>k. 100 \<le> k \<and> k \<le> 500 \<and> str = intString k)"
  unfolding rangeValues_def set_map set_upto by auto

lemma sliderInput_intString: "sliderInput (intString k) a = appEvent (TemperatureChange (of_int k)) a"
  by (simp add: sliderInput_def handleTemperatureChange_def parseFloat_intString)

lemma appEvent_consistent:
  "chartConsistent (appUI a) \<Longrightarrow>
   appEvent ev a = Inr \<lparr>appUI = (handleEvent ev (appUI a))\<lparr>chartRef := Some (renderChart (handleEvent ev (appUI a)))\<rparr>,
                        appSim = (appSim a)\<lparr>tempRef := temperature (handleEvent ev (appUI a))\<rparr>\<rparr>"
  by (simp add: appEvent_def uiStep_consistent)

lemma temperature_button: "buttonEvent ev \<Longrightarrow> temperature (handleEvent ev s) = temperature s"
  by (cases ev) (simp_all add: buttonEvent_def)

lemma appEvent_inv:
  assumes "app_inv a" and "appEvent ev a = Inr a'"
    and "slider_range (temperature (handleEvent ev (appUI a)))" and "temperature (handleEvent ev (appUI a)) \<in> \<int>"
  shows "app_inv a'"
proof -
  let ?T = "temperature (handleEvent ev (appUI a))"
  have c: "chartConsistent (appUI a)" and si: "sim_inv (appSim a)" using assms(1) by (simp_all add: app_inv_def)
  have a': "a' = \<lparr>appUI = (handleEvent ev (appUI a))\<lparr>chartRef := Some (renderChart (handleEvent ev (appUI a)))\<rparr>,
                  appSim = (appSim a)\<lparr>tempRef := ?T\<rparr>\<rparr>"
    using assms(2) appEvent_consistent [OF c, of ev] by simp
  have "sim_step (appSim a) ((appSim a)\<lparr>tempRef := ?T\<rparr>)" using assms(3) by (rule sim_step.set_temperature)
  from sim_step_inv [OF this si] a' assms(4) show ?thesis by (simp add: app_inv_def)
qed

lemma app_inv_reachable: "app_reachable a \<Longrightarrow> app_inv a"
proof (induction rule: app_reachable.induct)
  case (mount u rnd ps)
  have "u = initialUI\<lparr>chartRef := Some (renderChart initialUI)\<rparr>" using mount(1) by (simp add: mountUI_eq)
  then have "chartConsistent u \<and> temperature u = 300"
    using chartConsistent_rendered [of initialUI] by (simp add: initialUI_def)
  moreover have "length ps = numParticles \<and> (\<forall>p \<in> set ps. radius p = 5 \<and> in_arena p)"
    using initParticles_inv [OF mount(2,3)] .
  ultimately show ?case by (simp add: app_inv_def sim_inv_def slider_range_def initialUI_def)
next
  case (slider a str a')
  then obtain k where k: "100 \<le> k" "k \<le> 500" "str = intString k" by (auto simp: rangeValues_iff)
  have "appEvent (TemperatureChange (of_int k)) a = Inr a'" using slider.hyps(3) k(3) by (simp add: sliderInput_intString)
  from appEvent_inv [OF slider.IH this] k show ?case by (simp add: slider_range_def)
next
  case (button a ev a')
  from button.IH have t: "tempRef (appSim a) = temperature (appUI a)"
    and r: "slider_range (tempRef (appSim a))" and z: "temperature (appUI a) \<in> \<int>"
    unfolding app_inv_def sim_inv_def by blast+
  from r t have "slider_range (temperature (appUI a))" by simp
  with z appEvent_inv [OF button.IH button.hyps(3)] show ?case by (simp add: temperature_button [OF button.hyps(2)])
next
  case (frame a ps')
  have "sim_step (appSim a) ((appSim a)\<lparr>particlesRef := ps'\<rparr>)" using frame.hyps(2) by (rule sim_step.frame)
  from sim_step_inv [OF this] frame.IH show ?case by (simp add: app_inv_def)
qed

lemma app_mounted:
  "app_reachable \<lparr>appUI = initialUI\<lparr>chartRef := Some (renderChart initialUI)\<rparr>,
                  appSim = \<lparr>tempRef = 300, particlesRef = map (\<lambda>i. initParticle 300 (0, 0, 0)) [0..<numParticles]\<rparr>\<rparr>"
proof -
  have rnd: "random_unit (\<lambda>_. (0, 0, 0))" by (simp add: random_unit_def)
  have "initParticles (temperature initialUI) (\<lambda>_. (0, 0, 0)) = Inr (map (\<lambda>i. initParticle 300 (0, 0, 0)) [0..<numParticles])"
    by (simp add: initParticles_def initialUI_def)
  from app_reachable.mount [OF mountUI_eq rnd this] show ?thesis by (simp add: initialUI_def)
qed

section \<open>Properties\<close>

text \<open>
  C30. In every state the application reaches (mount, then any interleaving
  of slider moves, button clicks and animation frames that do not fault) the
  chart shows the render of the UI state, the simulation keeps its invariant
  (temperature on the slider, 50 particles of radius 5 in the arena), the
  simulation runs at the temperature the slider shows, and that temperature
  is a whole number.
\<close>

theorem app_reachable_inv: "app_reachable a \<Longrightarrow> app_inv a"
  by (rule app_inv_reachable)

theorem app_reachable_inv_witness:
  "app_reachable \<lparr>appUI = initialUI\<lparr>chartRef := Some (renderChart initialUI)\<rparr>,
                  appSim = \<lparr>tempRef = 300, particlesRef = map (\<lambda>i. initParticle 300 (0, 0, 0)) [0..<numParticles]\<rparr>\<rparr>
   \<and> app_inv \<lparr>appUI = initialUI\<lparr>chartRef := Some (renderChart initialUI)\<rparr>,
             appSim = \<lparr>tempRef = 300, particlesRef = map (\<lambda>i. initParticle 300 (0, 0, 0)) [0..<numParticles]\<rparr>\<rparr>"
  using app_mounted app_reachable_inv [OF app_mounted] by simp

text \<open>
  C18. Moving the slider to any of its positions \<open>k\<close> (\<open>100..500\<close>) in a
  reachable state drives both components: \<open>parseFloat\<close> reads the input's
  string back as \<open>k\<close>, the step succeeds into a reachable state whose shell
  shows \<open>Temperature: k K\<close> and passes \<open>k\<close> to both children with the
  snapshots unchanged, the simulation's \<open>tempRef\<close> becomes \<open>k\<close> with the
  particles untouched, and the chart's first dataset is the curve of \<open>k\<close>:
  labelled with \<open>k\<close>, its points the density \<open>dynamicData k\<close>, black, order 2.
\<close>

theorem slider_input_updates_both:
  assumes "app_reachable a" and "100 \<le> k" and "k \<le> 500"
  shows "\<exists>a'. sliderInput (intString k) a = Inr a' \<and> app_reachable a'
     \<and> renderApp (appUI a') = \<lparr>labelText = Some (''Temperature: '' @ intString k @ '' K''),
                                sliderValue = of_int k, canvasTemperature = of_int k,
                                chartTemperature = of_int k, chartSnapshots = snapshots (appUI a)\<rparr>
     \<and> tempRef (appSim a') = of_int k \<and> particlesRef (appSim a') = particlesRef (appSim a)
     \<and> map_option (\<lambda>c. hd (datasets c)) (chartRef (appUI a')) = Some (initialDynamicDataset (of_int k))"
proof -
  let ?u = "handleEvent (TemperatureChange (of_int k)) (appUI a)"
  let ?a' = "\<lparr>appUI = ?u\<lparr>chartRef := Some (renderChart ?u)\<rparr>, appSim = (appSim a)\<lparr>tempRef := temperature ?u\<rparr>\<rparr>"
  have c: "chartConsistent (appUI a)" using app_inv_reachable [OF assms(1)] by (simp add: app_inv_def)
  have step: "sliderInput (intString k) a = Inr ?a'"
    using appEvent_consistent [OF c] by (simp add: sliderInput_intString)
  have "intString k \<in> set rangeValues" using assms(2,3) by (auto simp: rangeValues_iff)
  from app_reachable.slider [OF assms(1) this step] have r: "app_reachable ?a'" .
  have "renderApp (appUI ?a') = \<lparr>labelText = Some (''Temperature: '' @ intString k @ '' K''),
                                sliderValue = of_int k, canvasTemperature = of_int k,
                                chartTemperature = of_int k, chartSnapshots = snapshots (appUI a)\<rparr>"
    by (simp add: renderApp_def temperatureLabel_def)
  with step r show ?thesis by (simp add: renderChart_def renderDatasets_def)
qed

theorem slider_input_updates_both_witness:
  "\<exists>a'. sliderInput (intString 450)
          \<lparr>appUI = initialUI\<lparr>chartRef := Some (renderChart initialUI)\<rparr>,
           appSim = \<lparr>tempRef = 300, particlesRef = map (\<lambda>i. initParticle 300 (0, 0, 0)) [0..<numParticles]\<rparr>\<rparr> = Inr a'
     \<and> app_reachable a' \<and> tempRef (appSim a') = 450
     \<and> labelText (renderApp (appUI a')) = Some (''Temperature: '' @ intString 450 @ '' K'')"
  using slider_input_updates_both [OF app_mounted, of 450] by auto

end
