(* ===== verification/Spec2Isabelle.thy ===== *)
theory Spec2Isabelle
  imports App
begin

text \<open>
  \<^bold>\<open>A verified model of the Maxwell--Boltzmann simulation.\<close>
  The program is a React application of two components and a shell.
  \<open>src/src/components/SimulationCanvas.js\<close> animates 50 hard discs in a
  400 by 400 box at the slider's temperature;
  \<open>src/src/components/MBDistributionChart.js\<close> draws the Maxwell--Boltzmann
  energy density of that temperature with Chart.js, adds snapshot curves and
  markers, and records rows of summary statistics; the same file also holds
  \<open>App.js\<close> (from line 417), whose state is the temperature and the list of
  snapshot temperatures and which passes the temperature to both components.

  \<^bold>\<open>Modelling conventions.\<close> JavaScript numbers are HOL reals: rounding of
  doubles is not modelled, so the theorems speak of the exact arithmetic the
  code denotes. Where the code computes \<open>NaN\<close> the model returns a value of
  the error type \<open>fault\<close> (\<open>Inl\<close> of a sum), and an access to
  \<open>datasets[0]\<close> of an empty list is \<open>UndefinedDataset\<close>. Loops are \<open>map\<close>,
  \<open>fold\<close>, \<open>foldl\<close> or structural recursion; all definitions are executable.
  \<open>Math.random\<close> is a parameter \<open>rnd\<close> (three numbers in \<open>[0, 1)\<close> per
  particle). React's scheduling (an event sets state; then each effect whose
  dependency list changed runs, in declaration order) is written out.

  \<^bold>\<open>Theories.\<close>
  \<^item> \<open>Prelude\<close>: type names (\<open>temperature\<close>, \<open>energy\<close>, \<open>energy_point\<close>), the
    fact collections \<open>model_consts\<close> and \<open>vec_simps\<close>, lemmas on sums of
    lists, filters and square roots of sums of squares.
  \<^item> \<open>Particle\<close>: the particle record, the constants of lines 13--17,
    integration (\<open>updatePositions\<close>, lines 74--78) and the wall clamps
    (\<open>wallX\<close>, \<open>wallY\<close>, \<open>wallCollisions\<close>, lines 80--96). Lemmas: the wall
    phase puts every particle that fits in \<open>[r, W - r] \<times> [r, H - r]\<close> (C4).
  \<^item> \<open>Collision\<close>: \<open>handleCollision\<close> (lines 39--56), the pair body
    \<open>collidePair\<close> with its positional separation (101--115), the pair
    enumeration \<open>pairs\<close> and the sequential pass \<open>collideAll\<close> (98--117).
    Lemmas: momentum conservation, the restitution law for the relative
    normal velocity, the exact energy loss (C7--C9), separation to exactly
    touching (C10), touching pairs left alone (C11), the NaN of coincident
    centres (C12), the enumeration of the pairs (C13) and a displacement bound.
    The loop as written with its counters, \<open>pairLoop\<close>, is a \<open>function\<close> with
    a lexicographic measure (its \<open>termination\<close> proof); it computes the
    pass over the enumerated pairs (C31). A failing pair is located: the pass
    before it succeeds and the pair overlaps with coincident centres.
  \<^item> \<open>Thermostat\<close>: the velocity rescaling of lines 119--130 with its
    \<open>avgSpeed || 1\<close> guard. Lemmas: the mean speed becomes the target (C5),
    an ensemble at rest is unchanged.
  \<^item> \<open>Kinetics\<close>: particle initialisation (22--37), one frame
    \<open>updateParticles\<close> (62--131), the component state \<open>sim\<close> (\<open>tempRef\<close>,
    \<open>particlesRef\<close>) and the step relation \<open>sim_step\<close> (temperature effect of
    lines 9--11, frames) with reachability \<open>sim_reachable\<close>. Lemmas: the
    invariant by rule induction (C1), the mean speed after a frame (C2), the
    initial speeds (C15), exactly where a frame can fault: a negative
    temperature, or a pair of the loop that overlaps with coincident centres
    when the pass reaches it (C16), and two concrete runs
    refuting the spec's containment (C3) and non-overlap (C14) promises.
  \<^item> \<open>Canvas\<close>: what a frame draws (\<open>drawFrame\<close>, lines 63--68 and 133--151)
    and the scheduling of frames: the browser's queue of
    \<open>requestAnimationFrame\<close> handles, \<open>animationRef\<close>, mounting, firing,
    temperature changes and the cleanup as the step relation \<open>canvas_step\<close>.
    Lemmas: exactly one pending request while mounted, the simulation
    invariant, the canvas shows the particles (C34); frames fire forever
    while mounted (C35); none after unmounting (C36); every disc drawn has
    radius 5 and lies in the arena (C37).
  \<^item> \<open>Distribution\<close>: the grid \<open>energies = 0..600\<close>, \<open>effectiveTemperature\<close>,
    \<open>mbDistribution\<close> with its \<open>T_eff \<le> 0\<close> guard (75--102) and the chart
    points \<open>dynamicData\<close>. Lemmas: the shape of the curve, its only zero at
    \<open>E = 0\<close> and its unique maximum at \<open>T_eff / 2\<close>.
  \<^item> \<open>Summary\<close>: the mode scan \<open>findMode\<close> (\<open>maxY = -Infinity\<close> is \<open>None\<close>),
    \<open>meanEnergy\<close>, \<open>percentageAbove\<close>, \<open>activationThreshold\<close> and
    \<open>handleRecordData\<close> (237--263). Lemmas: the scan returns the first
    argmax (C20) and hence the analytic peak \<open>T / 4 + 25\<close> (C19); one row is
    appended (C21); bounds of the percentage (C22) and of the mean; the
    catalyst raises the rate (C23); the cold guard (C26).
  \<^item> \<open>Fixed\<close>: \<open>toFixed(2)\<close> after the ECMAScript definition (sign first, ties
    away from zero): the rounded number \<open>toFixed2\<close> and the printed string,
    with its sign and monotonicity lemmas; the digit reader \<open>digitsValue\<close>
    used by \<open>parseFloat\<close>.
  \<^item> \<open>Chart\<close>: datasets (label, points, colour, order), the plugin options,
    effects 1--4 (131--235) as updates of the chart object, the UI state
    \<open>ui\<close>, the events and their handlers, \<open>uiStep\<close>, \<open>runEvents\<close> and mounting.
    Lemmas: the patched chart always equals the declarative render
    \<open>renderChart\<close> of the state (C27), recorded rows are append-only (C28),
    snapshot colours are valid on the slider range (C29), the datasets stay
    ordered by their Chart.js \<open>order\<close> (C40), the Snapshot button inserts
    exactly one curve between the snapshots and the markers (C25), each
    toggle pressed twice restores the state and the chart (C32), and the
    recorded most probable energy is where the chart's marker stands (C33).
  \<^item> \<open>Plugin\<close>: the activation plugin's \<open>afterDatasetsDraw\<close> (lines 23--59) as
    the path commands it issues, the scales being parameters. Lemmas: with
    the toggle on it shades exactly the points the recorded rate sums (C38);
    its three early returns (C39).
  \<^item> \<open>View\<close>: the rest of the component's render (lines 266--413): the control
    buttons, filled when their toggle is on, and the table of recorded rows,
    with integers printed as \<open>String(n)\<close> does and the two \<open>toFixed(2)\<close>
    strings printed back from the row's hundredths. Lemmas: each button is
    filled exactly when its feature is on the chart (C6); recording adds one
    table row showing the strings the source stores (C17). The \<open>options\<close>
    object (lines 266--301) with the axes' ranges and its own copy of the
    plugin's options: every plotted point lies on the x-axis and both copies
    of the plugin's options agree (C24).
  \<^item> \<open>App\<close>: the shell \<open>App.js\<close>. \<open>parseFloat\<close> (a JavaScript built-in,
    written after the ECMAScript grammar: white space, sign, digits, fraction,
    exponent, \<open>None\<close> for a non-finite result), the slider's handler
    \<open>handleTemperatureChange\<close> (lines 426--428), the strings the range input
    (\<open>min = 100\<close>, \<open>max = 500\<close>, \<open>step = 1\<close>) delivers, \<open>appEvent\<close> and
    \<open>sliderInput\<close> (an event re-renders both children: the chart's effects
    run and the simulation's effect copies the temperature into \<open>tempRef\<close>),
    the render \<open>renderApp\<close> (the label of lines 472--473, the input's value,
    the children's props of lines 517 and 526), and the application state
    \<open>app\<close> with the inductive \<open>app_reachable\<close> interleaving slider moves,
    button clicks and frames. Lemmas: \<open>parseFloat\<close> reads \<open>String(k)\<close>
    back as \<open>k\<close> for every integer; the invariant of reachable states (C30);
    a slider move updates the label, both children, the simulation's
    \<open>tempRef\<close> and the chart's dynamic dataset (label and points) together
    (C18).
  \<^item> \<open>Spec2Isabelle\<close> (this theory): this overview.

  \<^bold>\<open>Bounds and constants.\<close> The arena box \<open>[-240, 640]\<close> of the simulation
  invariant comes from the walls (\<open>[5, 395]\<close>) and a separation of less than
  one radius (5) for each of the 49 pairs a particle belongs to:
  \<open>5 - 49 \<cdot> 5 = -240\<close> and \<open>395 + 49 \<cdot> 5 = 640\<close>. No fuel is needed: every
  loop of the program is over a finite list. The temperatures of the
  properties are those of the slider (\<open>100..500\<close>) or, for the density,
  any \<open>T > -100\<close> (positive effective temperature).

  \<^bold>\<open>Not modelled.\<close> Colours, gradients, shadows, line widths and other
  constant styling of the canvas and the plugin; Chart.js internals (its
  layout, its scales, which are parameters, its animation); the timing of
  \<open>requestAnimationFrame\<close> (a frame is a step); the layout markup of the
  application shell (headings, containers, styles, the snapshot button's
  look), which displays nothing of the state; \<open>parseFloat\<close>'s rounding to a
  double and its distinction between \<open>NaN\<close> and \<open>Infinity\<close> (both are
  \<open>None\<close>; the slider delivers neither); \<open>String(n)\<close> of a non-integer number
  (no such number reaches the table); \<open>toFixed\<close> in exponent
  form (magnitudes from \<open>10\<^sup>2\<^sup>1\<close>, which do not occur); floating-point
  rounding.
\<close>

end
